theory Spec2Isabelle
  imports Complex_Main
begin

section \<open>Errors\<close>

text \<open>
  A Go \<open>error\<close> value, as far as \<open>ShouldRetry\<close> can observe it: the two sentinel
  errors of package \<open>context\<close>, a leaf error made by \<open>errors.New\<close>, and an error that
  wraps another one behind a prefix (\<open>fmt.Errorf("%s: %w", prefix, inner)\<close>; the errors
  of \<open>net\<close> and \<open>net/url\<close> have this shape).
\<close>

datatype go_error =
    DeadlineExceeded
  | Canceled
  | ErrorString string
  | Wrapped string go_error

text \<open>The method \<open>Error()\<close>: the message of an error.\<close>

fun Error :: "go_error \<Rightarrow> string" where
  "Error DeadlineExceeded = ''context deadline exceeded''"
| "Error Canceled = ''context canceled''"
| "Error (ErrorString s) = s"
| "Error (Wrapped prefix inner) = prefix @ '': '' @ Error inner"

text \<open>\<open>errors.Is(err, target)\<close>: \<open>err\<close> or an error on its \<open>Unwrap\<close> chain is \<open>target\<close>.\<close>

fun errors_Is :: "go_error \<Rightarrow> go_error \<Rightarrow> bool" where
  "errors_Is (Wrapped prefix inner) target =
     (Wrapped prefix inner = target \<or> errors_Is inner target)"
| "errors_Is err target = (err = target)"

section \<open>The policy evaluator\<close>

text \<open>
  \<open>ShouldRetry(statusCode int, err error) bool\<close>. A nil error is \<open>None\<close>. The status
  code is a Go \<open>int\<close>; it is only compared, so it is an \<open>int\<close> here.
\<close>

definition ShouldRetry :: "int \<Rightarrow> go_error option \<Rightarrow> bool" where
  "ShouldRetry statusCode err =
     (if (case err of
            None \<Rightarrow> False
          | Some e \<Rightarrow>
              errors_Is e DeadlineExceeded \<or> errors_Is e Canceled \<or>
              Error e = ''connection refused'' \<or> Error e = ''no such host'')
      then True
      else if statusCode \<ge> 500 \<and> statusCode \<noteq> 501 then True
      else if statusCode = 429 then True
      else False)"

section \<open>Floating point\<close>

text \<open>
  A \<open>float64\<close> is a finite real number, one of the two infinities, or NaN. The two zeros
  of IEEE 754 are one value here: nothing below divides, and both convert to the
  duration 0.

  \<open>float64_round\<close> rounds a real number to 53 significant bits, ties to the even
  neighbour. \<open>float64_of_real\<close> is the rounding of IEEE 754 with the range of the
  exponent: below \<open>2 ^ - 1022\<close> in magnitude the values are \<open>2 ^ - 1074\<close> apart
  (the subnormal numbers), and a number that rounds to \<open>2 ^ 1024\<close> or more in magnitude
  becomes an infinity. Each operation of the language (the conversion of an integer, a
  product, a sum) is the exact operation on finite operands followed by
  \<open>float64_of_real\<close>, with the results of IEEE 754 for the infinities and NaN; a comparison
  with a NaN is false.
\<close>

datatype float64 = Finite real | PosInf | NegInf | NaN

definition round_half_even :: "real \<Rightarrow> int" where
  "round_half_even x =
     (let f = \<lfloor>x\<rfloor>; d = x - real_of_int f
      in if d < 1 / 2 then f
         else if d > 1 / 2 then f + 1
         else if even f then f
         else f + 1)"

definition float64_round :: "real \<Rightarrow> real" where
  "float64_round x =
     (if x = 0 then 0
      else let ulp = 2 powr real_of_int (\<lfloor>log 2 \<bar>x\<bar>\<rfloor> - 52)
           in real_of_int (round_half_even (x / ulp)) * ulp)"

definition float64_of_real :: "real \<Rightarrow> float64" where
  "float64_of_real x =
     (if \<bar>x\<bar> < 1 / 2 ^ 1022
      then Finite (real_of_int (round_half_even (x * 2 ^ 1074)) / 2 ^ 1074)
      else if 2 ^ 1024 \<le> \<bar>float64_round x\<bar>
      then (if 0 < x then PosInf else NegInf)
      else Finite (float64_round x))"

definition float64_of_int :: "int \<Rightarrow> float64" where
  "float64_of_int n = float64_of_real (real_of_int n)"

fun float64_mul :: "float64 \<Rightarrow> float64 \<Rightarrow> float64" where
  "float64_mul (Finite x) (Finite y) = float64_of_real (x * y)"
| "float64_mul NaN b = NaN"
| "float64_mul a NaN = NaN"
| "float64_mul (Finite x) PosInf = (if x = 0 then NaN else if 0 < x then PosInf else NegInf)"
| "float64_mul (Finite x) NegInf = (if x = 0 then NaN else if 0 < x then NegInf else PosInf)"
| "float64_mul PosInf (Finite y) = (if y = 0 then NaN else if 0 < y then PosInf else NegInf)"
| "float64_mul NegInf (Finite y) = (if y = 0 then NaN else if 0 < y then NegInf else PosInf)"
| "float64_mul PosInf PosInf = PosInf"
| "float64_mul PosInf NegInf = NegInf"
| "float64_mul NegInf PosInf = NegInf"
| "float64_mul NegInf NegInf = PosInf"

fun float64_add :: "float64 \<Rightarrow> float64 \<Rightarrow> float64" where
  "float64_add (Finite x) (Finite y) = float64_of_real (x + y)"
| "float64_add NaN b = NaN"
| "float64_add a NaN = NaN"
| "float64_add PosInf NegInf = NaN"
| "float64_add NegInf PosInf = NaN"
| "float64_add PosInf b = PosInf"
| "float64_add a PosInf = PosInf"
| "float64_add NegInf b = NegInf"
| "float64_add a NegInf = NegInf"

text \<open>\<open>float64_less a b\<close> is the comparison \<open>a < b\<close> of the language, \<open>float64_le a b\<close> is \<open>a <= b\<close>.\<close>

fun float64_less :: "float64 \<Rightarrow> float64 \<Rightarrow> bool" where
  "float64_less (Finite x) (Finite y) = (x < y)"
| "float64_less NaN b = False"
| "float64_less a NaN = False"
| "float64_less PosInf b = False"
| "float64_less a PosInf = True"
| "float64_less NegInf NegInf = False"
| "float64_less NegInf (Finite y) = True"
| "float64_less (Finite x) NegInf = False"

fun float64_le :: "float64 \<Rightarrow> float64 \<Rightarrow> bool" where
  "float64_le (Finite x) (Finite y) = (x \<le> y)"
| "float64_le NaN b = False"
| "float64_le a NaN = False"
| "float64_le a PosInf = True"
| "float64_le PosInf b = False"
| "float64_le NegInf b = True"
| "float64_le (Finite x) NegInf = False"

section \<open>Configuration, requests and responses\<close>

text \<open>\<open>time.Duration\<close> is a count of nanoseconds (an \<open>int64\<close>).\<close>

type_synonym Duration = int

record RetryPolicy =
  MaxRetries :: int
  InitialBackoff :: Duration
  MaxBackoff :: Duration
  BackoffFactor :: float64
  Jitter :: float64

definition Millisecond :: Duration where
  "Millisecond = 1000000"

definition Second :: Duration where
  "Second = 1000000000"

definition Hour :: Duration where
  "Hour = 3600 * Second"

text \<open>The constants \<open>2.0\<close> and \<open>0.2\<close> of the default policy are the nearest \<open>float64\<close> numbers.\<close>

definition DefaultRetryPolicy :: RetryPolicy where
  "DefaultRetryPolicy =
     \<lparr>MaxRetries = 3, InitialBackoff = 100 * Millisecond, MaxBackoff = 10 * Second,
      BackoffFactor = float64_of_real 2, Jitter = float64_of_real (2 / 10)\<rparr>"

text \<open>
  The \<open>Client\<close> struct. Its \<open>httpClient\<close> is the transport, which belongs to the
  platform below.
\<close>

record Client =
  baseURL :: string
  apiKey :: string
  environment :: string
  retryPolicy :: RetryPolicy

text \<open>
  \<open>NewClient\<close> and the options that configure the fields kept here. (\<open>WithTimeout\<close> and
  \<open>WithTransport\<close> configure the transport.)
\<close>

type_synonym ClientOption = "Client \<Rightarrow> Client"

definition NewClient :: "string \<Rightarrow> string \<Rightarrow> ClientOption list \<Rightarrow> Client" where
  "NewClient url key options =
     fold (\<lambda>option client. option client) options
       \<lparr>baseURL = url, apiKey = key, environment = ''Prod'', retryPolicy = DefaultRetryPolicy\<rparr>"

definition WithEnvironment :: "string \<Rightarrow> ClientOption" where
  "WithEnvironment env c = c\<lparr>environment := env\<rparr>"

definition WithRetryPolicy :: "RetryPolicy \<Rightarrow> ClientOption" where
  "WithRetryPolicy policy c = c\<lparr>retryPolicy := policy\<rparr>"

definition WithMaxRetries :: "int \<Rightarrow> ClientOption" where
  "WithMaxRetries maxRetries c = c\<lparr>retryPolicy := (retryPolicy c)\<lparr>MaxRetries := maxRetries\<rparr>\<rparr>"

text \<open>An \<open>*http.Request\<close>, and an \<open>*http.Response\<close> whose body is a stream named by a number.\<close>

record http_Request =
  Method :: string
  URL :: string
  Header :: "string \<rightharpoonup> string"
  ReqBody :: string

record http_Response =
  StatusCode :: int
  Body :: nat

text \<open>
  What \<open>httpClient.Do\<close> returns: a response and a nil error, a nil response and an error,
  or both (a failed redirect check). It never returns a nil response with a nil error.
\<close>

datatype outcome =
    Replied http_Response
  | Failed go_error
  | FailedWithResponse http_Response go_error

fun resp_of :: "outcome \<Rightarrow> http_Response option" where
  "resp_of (Replied r) = Some r"
| "resp_of (Failed e) = None"
| "resp_of (FailedWithResponse r e) = Some r"

fun err_of :: "outcome \<Rightarrow> go_error option" where
  "err_of (Replied r) = None"
| "err_of (Failed e) = Some e"
| "err_of (FailedWithResponse r e) = Some e"

section \<open>The JSON structures\<close>

text \<open>
  The structs that travel as JSON. Several of them have fields of the same name, so each
  field carries the initials of its struct. \<open>interface{}\<close> data is a JSON value.
\<close>

datatype json_value =
    JNull
  | JBool bool
  | JNumber real
  | JString string
  | JArray "json_value list"
  | JObject "(string \<times> json_value) list"

record Response =
  rs_StatusCode :: int
  rs_Message :: string
  rs_Data :: json_value

record PaginatedResponse =
  pr_Results :: "json_value list"
  pr_LastRangeKey :: string

record InfoRequest =
  ir_PartitionKey :: string
  ir_RangeKey :: string
  ir_Type :: string
  ir_Status :: string
  ir_Created :: string
  ir_Modified :: string
  ir_CreatedBy :: string

record DeleteRequest =
  dr_PartitionKey :: string
  dr_RangeKey :: string
  dr_Type :: string
  dr_Status :: string
  dr_Created :: string
  dr_Modified :: string
  dr_CreatedBy :: string

record CreateInfoRequestInput =
  cii_PartitionKey :: string
  cii_Type :: string
  cii_CreatedBy :: string
  cii_ApiKey :: string

record CreateDeleteRequestInput =
  cdi_PartitionKey :: string
  cdi_Type :: string
  cdi_CreatedBy :: string
  cdi_ApiKey :: string

record FetchRequestInput =
  fri_PartitionKey :: string
  fri_RangeKey :: string
  fri_ApiKey :: string

record UpdateRequestInput =
  uri_PartitionKey :: string
  uri_RangeKey :: string
  uri_Type :: string
  uri_Status :: string
  uri_ApiKey :: string

record FetchAllRequestInput =
  fai_PartitionKey :: string
  fai_LastRangeKey :: string
  fai_ApiKey :: string

record FetchByTypeInput =
  fti_Type :: string
  fti_LastRangeKey :: string
  fti_ApiKey :: string

record FetchByStatusInput =
  fsi_Status :: string
  fsi_LastRangeKey :: string
  fsi_ApiKey :: string

record FetchByCreatorInput =
  fci_CreatedBy :: string
  fci_LastRangeKey :: string
  fci_ApiKey :: string

record DeleteRequestInput =
  dri_PartitionKey :: string
  dri_RangeKey :: string
  dri_IsHardDelete :: bool
  dri_ApiKey :: string

text \<open>What this package hands to \<open>json.Marshal\<close>.\<close>

datatype marshal_arg =
    Arg_CreateInfoRequestInput CreateInfoRequestInput
  | Arg_CreateDeleteRequestInput CreateDeleteRequestInput
  | Arg_FetchRequestInput FetchRequestInput
  | Arg_UpdateRequestInput UpdateRequestInput
  | Arg_FetchAllRequestInput FetchAllRequestInput
  | Arg_FetchByTypeInput FetchByTypeInput
  | Arg_FetchByStatusInput FetchByStatusInput
  | Arg_FetchByCreatorInput FetchByCreatorInput
  | Arg_DeleteRequestInput DeleteRequestInput
  | Arg_Data json_value

section \<open>The platform and the effects of a call\<close>

text \<open>
  Everything outside the repository that a call consults: the transport (the result of
  the \<open>n\<close>-th call of \<open>httpClient.Do\<close>, which may depend on the request), the \<open>n\<close>-th
  value of \<open>rand.Float64\<close> (a finite number), the library routine \<open>math.Pow\<close>, the
  implementation-dependent result of converting a \<open>float64\<close> that an \<open>int64\<close> cannot
  hold, \<open>json.Marshal\<close>, the error (if any) of
  parsing a URL, what \<open>io.ReadAll\<close> gets from a body given the bodies closed so far,
  \<open>json.Unmarshal\<close> into a zero value of each target type (the value left in the target,
  and the error), and how \<open>%s\<close> prints a body.
\<close>

record platform =
  Do :: "nat \<Rightarrow> http_Request \<Rightarrow> outcome"
  Float64 :: "nat \<Rightarrow> real"
  Pow :: "float64 \<Rightarrow> float64 \<Rightarrow> float64"
  overflow :: "float64 \<Rightarrow> int"
  json_Marshal :: "marshal_arg \<Rightarrow> go_error + string"
  url_Parse :: "string \<Rightarrow> go_error option"
  ReadAll :: "nat list \<Rightarrow> nat \<Rightarrow> string \<times> go_error option"
  Unmarshal_Response :: "string \<Rightarrow> Response \<times> go_error option"
  Unmarshal_InfoRequest :: "string \<Rightarrow> InfoRequest \<times> go_error option"
  Unmarshal_DeleteRequest :: "string \<Rightarrow> DeleteRequest \<times> go_error option"
  Unmarshal_PaginatedResponse :: "string \<Rightarrow> PaginatedResponse \<times> go_error option"
  Sprint_Body :: "nat \<Rightarrow> string"

text \<open>
  The effects so far, oldest first: the requests handed to the transport, the bodies
  closed, how many random numbers were drawn, the durations slept, the bodies read to
  their end, and the lines logged.
\<close>

record world =
  sent :: "http_Request list"
  closedBodies :: "nat list"
  draws :: nat
  slept :: "Duration list"
  readBodies :: "nat list"
  logged :: "string list"

definition Sleep :: "Duration \<Rightarrow> world \<Rightarrow> world" where
  "Sleep d w = w\<lparr>slept := slept w @ [d]\<rparr>"

definition Body_Close :: "http_Response \<Rightarrow> world \<Rightarrow> world" where
  "Body_Close r w = w\<lparr>closedBodies := closedBodies w @ [Body r]\<rparr>"

definition httpClient_Do :: "platform \<Rightarrow> http_Request \<Rightarrow> world \<Rightarrow> outcome \<times> world" where
  "httpClient_Do pf req w = (Do pf (length (sent w)) req, w\<lparr>sent := sent w @ [req]\<rparr>)"

text \<open>\<open>fmt.Sprintf("%d", n)\<close>.\<close>

fun decimal :: "nat \<Rightarrow> string" where
  "decimal n =
     (if n < 10 then [char_of (48 + n)]
      else decimal (n div 10) @ [char_of (48 + n mod 10)])"

declare decimal.simps [simp del]

definition Sprintf_d :: "int \<Rightarrow> string" where
  "Sprintf_d i = (if i < 0 then CHR ''-'' # decimal (nat (- i)) else decimal (nat i))"

definition Header_Set :: "http_Request \<Rightarrow> string \<Rightarrow> string \<Rightarrow> http_Request" where
  "Header_Set req k v = req\<lparr>Header := (Header req)(k \<mapsto> v)\<rparr>"

definition http_NewRequest ::
  "platform \<Rightarrow> string \<Rightarrow> string \<Rightarrow> string \<Rightarrow> go_error + http_Request" where
  "http_NewRequest pf method url body =
     (case url_Parse pf url of
        Some err \<Rightarrow> Inl err
      | None \<Rightarrow> Inr \<lparr>Method = method, URL = url, Header = Map.empty, ReqBody = body\<rparr>)"

definition io_ReadAll ::
  "platform \<Rightarrow> http_Response \<Rightarrow> world \<Rightarrow> (string \<times> go_error option) \<times> world" where
  "io_ReadAll pf resp w =
     (ReadAll pf (closedBodies w) (Body resp), w\<lparr>readBodies := readBodies w @ [Body resp]\<rparr>)"

definition log_Printf :: "string \<Rightarrow> world \<Rightarrow> world" where
  "log_Printf line w = w\<lparr>logged := logged w @ [line]\<rparr>"

text \<open>\<open>fmt.Errorf(prefix + "%v", err)\<close>: a new error, which does not wrap \<open>err\<close>.\<close>

definition Errorf :: "string \<Rightarrow> go_error option \<Rightarrow> go_error" where
  "Errorf prefix err =
     ErrorString (prefix @ (case err of None \<Rightarrow> ''<nil>'' | Some e \<Rightarrow> Error e))"

section \<open>The backoff\<close>

text \<open>
  \<open>time.Duration(x)\<close> for a \<open>float64\<close> \<open>x\<close>: the fraction is discarded; a value out of
  range, an infinity or NaN converts to an implementation-dependent result.
\<close>

definition Duration_of_float64 :: "platform \<Rightarrow> float64 \<Rightarrow> Duration" where
  "Duration_of_float64 pf x =
     (case x of
        Finite v \<Rightarrow>
          (let t = (if 0 \<le> v then \<lfloor>v\<rfloor> else \<lceil>v\<rceil>)
           in if - (2 ^ 63) \<le> t \<and> t < 2 ^ 63 then t else overflow pf x)
      | _ \<Rightarrow> overflow pf x)"

definition calculateBackoff :: "platform \<Rightarrow> Client \<Rightarrow> nat \<Rightarrow> world \<Rightarrow> Duration \<times> world" where
  "calculateBackoff pf c attempt w =
     (let backoff =
            float64_mul (float64_of_int (InitialBackoff (retryPolicy c)))
              (Pow pf (BackoffFactor (retryPolicy c)) (float64_of_int (int attempt)));
          (backoff, w) =
            (if float64_less (Finite 0) (Jitter (retryPolicy c))
             then let jitter =
                        float64_mul (Finite (Float64 pf (draws w))) (Jitter (retryPolicy c))
                  in (float64_mul backoff (float64_add (Finite 1) jitter),
                      w\<lparr>draws := draws w + 1\<rparr>)
             else (backoff, w));
          backoff =
            (if float64_less (float64_of_int (MaxBackoff (retryPolicy c))) backoff
             then float64_of_int (MaxBackoff (retryPolicy c))
             else backoff)
      in (Duration_of_float64 pf backoff, w))"

text \<open>
  The backoff as the specification words it, over the real numbers, for a jitter \<open>r\<close>:
  \<open>raw = initialBackoff * backoffMultiplier ^ attemptIndex\<close>, multiplied by \<open>1 + r\<close> when
  the jitter of the policy is positive, and \<open>result = min(raw, maxBackoff)\<close>.
\<close>

definition computeBackoff_spec :: "real \<Rightarrow> real \<Rightarrow> real \<Rightarrow> real \<Rightarrow> nat \<Rightarrow> real \<Rightarrow> real" where
  "computeBackoff_spec initialBackoff backoffMultiplier jitter maxBackoff attemptIndex r =
     (let raw = initialBackoff * backoffMultiplier ^ attemptIndex;
          raw = (if jitter > 0 then raw * (1 + r) else raw)
      in min raw maxBackoff)"

section \<open>The resilient executor\<close>

text \<open>The request of an attempt: a clone, with the retry header from the second attempt on.\<close>

definition reqClone :: "http_Request \<Rightarrow> nat \<Rightarrow> http_Request" where
  "reqClone req attempt =
     (if attempt > 0 then Header_Set req ''X-Retry-Attempt'' (Sprintf_d (int attempt))
      else req)"

text \<open>
  The loop of \<open>doRequestWithRetry\<close> from one attempt on. \<open>prev\<close> holds the variables
  \<open>resp\<close> and \<open>err\<close>, which are declared before the loop and returned after it.
\<close>

function doRequestWithRetry_loop ::
  "platform \<Rightarrow> Client \<Rightarrow> http_Request \<Rightarrow> nat \<Rightarrow> http_Response option \<times> go_error option \<Rightarrow>
   world \<Rightarrow> (http_Response option \<times> go_error option) \<times> world" where
  "doRequestWithRetry_loop pf c req attempt prev w =
     (if int attempt \<le> MaxRetries (retryPolicy c) then
        (let (out, w) = httpClient_Do pf (reqClone req attempt) w;
             resp = resp_of out;
             err = err_of out
         in if err = None \<and>
               (case resp of None \<Rightarrow> False
                | Some r \<Rightarrow> StatusCode r < 500 \<and> StatusCode r \<noteq> 429)
            then ((resp, None), w)
            else
              let statusCode = (case resp of None \<Rightarrow> 0 | Some r \<Rightarrow> StatusCode r);
                  w = (case resp of None \<Rightarrow> w | Some r \<Rightarrow> Body_Close r w)
              in if \<not> ShouldRetry statusCode err \<or> int attempt \<ge> MaxRetries (retryPolicy c)
                 then ((resp, err), w)
                 else
                   let (backoff, w) = calculateBackoff pf c attempt w;
                       w = Sleep backoff w
                   in doRequestWithRetry_loop pf c req (attempt + 1) (resp, err) w)
      else (prev, w))"
  by pat_completeness auto
termination
  by (relation "measure (\<lambda>(pf, c, req, attempt, prev, w). nat (MaxRetries (retryPolicy c) - int attempt))")
     auto

declare doRequestWithRetry_loop.simps [simp del]

definition doRequestWithRetry ::
  "platform \<Rightarrow> Client \<Rightarrow> http_Request \<Rightarrow> world \<Rightarrow> (http_Response option \<times> go_error option) \<times> world" where
  "doRequestWithRetry pf c req w = doRequestWithRetry_loop pf c req 0 (None, None) w"

text \<open>
  Names for the parts of one attempt made in world \<open>w\<close>: its outcome, the world after the
  transport call, the success test, the status code handed to \<open>ShouldRetry\<close>, the
  closing of a failed attempt's body, the bodies that an attempt with a given outcome
  closes (none after a success, otherwise that of the response if there is one), and the
  world in which the next attempt starts.
\<close>

definition attempt_outcome :: "platform \<Rightarrow> http_Request \<Rightarrow> nat \<Rightarrow> world \<Rightarrow> outcome" where
  "attempt_outcome pf req attempt w = fst (httpClient_Do pf (reqClone req attempt) w)"

definition attempt_world :: "platform \<Rightarrow> http_Request \<Rightarrow> nat \<Rightarrow> world \<Rightarrow> world" where
  "attempt_world pf req attempt w = snd (httpClient_Do pf (reqClone req attempt) w)"

definition succeeded :: "outcome \<Rightarrow> bool" where
  "succeeded out =
     (err_of out = None \<and>
      (case resp_of out of None \<Rightarrow> False
       | Some r \<Rightarrow> StatusCode r < 500 \<and> StatusCode r \<noteq> 429))"

definition statusCode_of :: "outcome \<Rightarrow> int" where
  "statusCode_of out = (case resp_of out of None \<Rightarrow> 0 | Some r \<Rightarrow> StatusCode r)"

definition close_failed :: "outcome \<Rightarrow> world \<Rightarrow> world" where
  "close_failed out w = (case resp_of out of None \<Rightarrow> w | Some r \<Rightarrow> Body_Close r w)"

definition closed_by :: "outcome \<Rightarrow> nat list" where
  "closed_by out =
     (if succeeded out then []
      else case resp_of out of None \<Rightarrow> [] | Some r \<Rightarrow> [Body r])"

definition retry_world :: "platform \<Rightarrow> Client \<Rightarrow> http_Request \<Rightarrow> nat \<Rightarrow> world \<Rightarrow> world" where
  "retry_world pf c req attempt w =
     (let w1 = close_failed (attempt_outcome pf req attempt w) (attempt_world pf req attempt w);
          bw = calculateBackoff pf c attempt w1
      in Sleep (fst bw) (snd bw))"

section \<open>The operations of the client\<close>

text \<open>
  Each method returns its Go result pair, or \<open>None\<close> where it panics on a nil response
  (\<open>doRequestWithRetry\<close> returns neither a response nor an error when \<open>MaxRetries\<close> is
  negative). The deferred \<open>resp.Body.Close()\<close> runs last. The method \<open>DeleteRequest\<close> is
  \<open>Client_DeleteRequest\<close> here, the struct has the name.
\<close>

definition CreateInfoRequest ::
  "platform \<Rightarrow> Client \<Rightarrow> CreateInfoRequestInput \<Rightarrow> world \<Rightarrow>
   (InfoRequest option \<times> go_error option) option \<times> world" where
  "CreateInfoRequest pf c input w =
     (let input = (if cii_ApiKey input = '''' then input\<lparr>cii_ApiKey := apiKey c\<rparr> else input)
      in case json_Marshal pf (Arg_CreateInfoRequestInput input) of
           Inl err \<Rightarrow>
             (Some (None, Some (Errorf ''failed to marshal request body: '' (Some err))), w)
         | Inr body \<Rightarrow>
             (case http_NewRequest pf ''POST'' (baseURL c @ ''/gdpr?action=create'') body of
                Inl err \<Rightarrow>
                  (Some (None, Some (Errorf ''failed to create request: '' (Some err))), w)
              | Inr req \<Rightarrow>
                  let req = Header_Set req ''Content-Type'' ''application/json'';
                      ((resp, err), w) = doRequestWithRetry pf c req w
                  in if err \<noteq> None
                     then (Some (None, Some (Errorf ''failed to send request: '' err)), w)
                     else
                       (case resp of
                          None \<Rightarrow> (None, w)
                        | Some resp \<Rightarrow>
                            let ((responseBody, err), w) = io_ReadAll pf resp w;
                                (ret, w) =
                                  (if err \<noteq> None
                                   then ((None, Some (Errorf ''failed to read response body: '' err)), w)
                                   else if StatusCode resp \<noteq> 200
                                   then ((None, Some (ErrorString
                                          (''request failed with status '' @ Sprintf_d (StatusCode resp) @
                                           '': '' @ responseBody))), w)
                                   else if StatusCode resp \<noteq> 200
                                   then ((None, Some (ErrorString
                                          (''GDPR service returned error: '' @ Sprint_Body pf (Body resp) @
                                           '', StatusCode: '' @ Sprintf_d (StatusCode resp)))), w)
                                   else
                                     let w = log_Printf
                                               (''GDPRClientLibrary.CreateInfo - Response Body: '' @ responseBody) w;
                                         (infoRequest, jsonErr) = Unmarshal_InfoRequest pf responseBody
                                     in if err \<noteq> None
                                        then ((None, Some (Errorf ''failed to unmarshal data: '' jsonErr)), w)
                                        else ((Some infoRequest, None), w))
                            in (Some ret, Body_Close resp w))))"

definition CreateDeleteRequest ::
  "platform \<Rightarrow> Client \<Rightarrow> CreateDeleteRequestInput \<Rightarrow> world \<Rightarrow>
   (DeleteRequest option \<times> go_error option) option \<times> world" where
  "CreateDeleteRequest pf c input w =
     (let input = (if cdi_ApiKey input = '''' then input\<lparr>cdi_ApiKey := apiKey c\<rparr> else input)
      in case json_Marshal pf (Arg_CreateDeleteRequestInput input) of
           Inl err \<Rightarrow>
             (Some (None, Some (Errorf ''failed to marshal request body: '' (Some err))), w)
         | Inr body \<Rightarrow>
             (case http_NewRequest pf ''POST'' (baseURL c @ ''/gdpr?controller=delete&action=create'') body of
                Inl err \<Rightarrow>
                  (Some (None, Some (Errorf ''failed to create request: '' (Some err))), w)
              | Inr req \<Rightarrow>
                  let req = Header_Set req ''Content-Type'' ''application/json'';
                      ((resp, err), w) = doRequestWithRetry pf c req w
                  in if err \<noteq> None
                     then (Some (None, Some (Errorf ''failed to send request: '' err)), w)
                     else
                       (case resp of
                          None \<Rightarrow> (None, w)
                        | Some resp \<Rightarrow>
                            let ((responseBody, err), w) = io_ReadAll pf resp w;
                                ret =
                                  (if err \<noteq> None
                                   then (None, Some (Errorf ''failed to read response body: '' err))
                                   else if StatusCode resp \<noteq> 200
                                   then (None, Some (ErrorString
                                          (''request failed with status '' @ Sprintf_d (StatusCode resp) @
                                           '': '' @ responseBody)))
                                   else
                                     let (response, err) = Unmarshal_Response pf responseBody
                                     in if err \<noteq> None
                                        then (None, Some (Errorf ''failed to unmarshal response: '' err))
                                        else if rs_StatusCode response \<noteq> 200
                                        then (None, Some (ErrorString
                                               (''GDPR service returned error: '' @ rs_Message response)))
                                        else
                                          (case json_Marshal pf (Arg_Data (rs_Data response)) of
                                             Inl err \<Rightarrow> (None, Some (Errorf ''failed to marshal data: '' (Some err)))
                                           | Inr dataJSON \<Rightarrow>
                                               let (deleteRequest, err) = Unmarshal_DeleteRequest pf dataJSON
                                               in if err \<noteq> None
                                                  then (None, Some (Errorf ''failed to unmarshal data: '' err))
                                                  else (Some deleteRequest, None)))
                            in (Some ret, Body_Close resp w))))"

definition FetchInfoRequest ::
  "platform \<Rightarrow> Client \<Rightarrow> FetchRequestInput \<Rightarrow> world \<Rightarrow>
   (InfoRequest option \<times> go_error option) option \<times> world" where
  "FetchInfoRequest pf c input w =
     (let input = (if fri_ApiKey input = '''' then input\<lparr>fri_ApiKey := apiKey c\<rparr> else input)
      in case json_Marshal pf (Arg_FetchRequestInput input) of
           Inl err \<Rightarrow>
             (Some (None, Some (Errorf ''failed to marshal request body: '' (Some err))), w)
         | Inr body \<Rightarrow>
             (case http_NewRequest pf ''POST'' (baseURL c @ ''/gdpr?action=fetch'') body of
                Inl err \<Rightarrow>
                  (Some (None, Some (Errorf ''failed to create request: '' (Some err))), w)
              | Inr req \<Rightarrow>
                  let req = Header_Set req ''Content-Type'' ''application/json'';
                      ((resp, err), w) = doRequestWithRetry pf c req w
                  in if err \<noteq> None
                     then (Some (None, Some (Errorf ''failed to send request: '' err)), w)
                     else
                       (case resp of
                          None \<Rightarrow> (None, w)
                        | Some resp \<Rightarrow>
                            let ((responseBody, err), w) = io_ReadAll pf resp w;
                                ret =
                                  (if err \<noteq> None
                                   then (None, Some (Errorf ''failed to read response body: '' err))
                                   else if StatusCode resp \<noteq> 200
                                   then (None, Some (ErrorString
                                          (''request failed with status '' @ Sprintf_d (StatusCode resp) @
                                           '': '' @ responseBody)))
                                   else
                                     let (response, err) = Unmarshal_Response pf responseBody
                                     in if err \<noteq> None
                                        then (None, Some (Errorf ''failed to unmarshal response: '' err))
                                        else if rs_StatusCode response = 404
                                        then (None, Some (ErrorString ''info request not found''))
                                        else if rs_StatusCode response \<noteq> 200
                                        then (None, Some (ErrorString
                                               (''GDPR service returned error: '' @ rs_Message response)))
                                        else
                                          (case json_Marshal pf (Arg_Data (rs_Data response)) of
                                             Inl err \<Rightarrow> (None, Some (Errorf ''failed to marshal data: '' (Some err)))
                                           | Inr dataJSON \<Rightarrow>
                                               let (infoRequest, err) = Unmarshal_InfoRequest pf dataJSON
                                               in if err \<noteq> None
                                                  then (None, Some (Errorf ''failed to unmarshal data: '' err))
                                                  else (Some infoRequest, None)))
                            in (Some ret, Body_Close resp w))))"

definition FetchDeleteRequest ::
  "platform \<Rightarrow> Client \<Rightarrow> FetchRequestInput \<Rightarrow> world \<Rightarrow>
   (DeleteRequest option \<times> go_error option) option \<times> world" where
  "FetchDeleteRequest pf c input w =
     (let input = (if fri_ApiKey input = '''' then input\<lparr>fri_ApiKey := apiKey c\<rparr> else input)
      in case json_Marshal pf (Arg_FetchRequestInput input) of
           Inl err \<Rightarrow>
             (Some (None, Some (Errorf ''failed to marshal request body: '' (Some err))), w)
         | Inr body \<Rightarrow>
             (case http_NewRequest pf ''POST'' (baseURL c @ ''/gdpr?controller=delete&action=fetch'') body of
                Inl err \<Rightarrow>
                  (Some (None, Some (Errorf ''failed to create request: '' (Some err))), w)
              | Inr req \<Rightarrow>
                  let req = Header_Set req ''Content-Type'' ''application/json'';
                      (out, w) = httpClient_Do pf req w;
                      resp = resp_of out;
                      err = err_of out
                  in if err \<noteq> None
                     then (Some (None, Some (Errorf ''failed to send request: '' err)), w)
                     else
                       (case resp of
                          None \<Rightarrow> (None, w)
                        | Some resp \<Rightarrow>
                            let ((responseBody, err), w) = io_ReadAll pf resp w;
                                ret =
                                  (if err \<noteq> None
                                   then (None, Some (Errorf ''failed to read response body: '' err))
                                   else if StatusCode resp \<noteq> 200
                                   then (None, Some (ErrorString
                                          (''request failed with status '' @ Sprintf_d (StatusCode resp) @
                                           '': '' @ responseBody)))
                                   else
                                     let (response, err) = Unmarshal_Response pf responseBody
                                     in if err \<noteq> None
                                        then (None, Some (Errorf ''failed to unmarshal response: '' err))
                                        else if rs_StatusCode response = 404
                                        then (None, Some (ErrorString ''delete request not found''))
                                        else if rs_StatusCode response \<noteq> 200
                                        then (None, Some (ErrorString
                                               (''GDPR service returned error: '' @ rs_Message response)))
                                        else
                                          (case json_Marshal pf (Arg_Data (rs_Data response)) of
                                             Inl err \<Rightarrow> (None, Some (Errorf ''failed to marshal data: '' (Some err)))
                                           | Inr dataJSON \<Rightarrow>
                                               let (deleteRequest, err) = Unmarshal_DeleteRequest pf dataJSON
                                               in if err \<noteq> None
                                                  then (None, Some (Errorf ''failed to unmarshal data: '' err))
                                                  else (Some deleteRequest, None)))
                            in (Some ret, Body_Close resp w))))"

definition UpdateInfoRequest ::
  "platform \<Rightarrow> Client \<Rightarrow> UpdateRequestInput \<Rightarrow> world \<Rightarrow>
   (bool \<times> go_error option) option \<times> world" where
  "UpdateInfoRequest pf c input w =
     (let input = (if uri_ApiKey input = '''' then input\<lparr>uri_ApiKey := apiKey c\<rparr> else input)
      in case json_Marshal pf (Arg_UpdateRequestInput input) of
           Inl err \<Rightarrow>
             (Some (False, Some (Errorf ''failed to marshal request body: '' (Some err))), w)
         | Inr body \<Rightarrow>
             (case http_NewRequest pf ''POST'' (baseURL c @ ''/gdpr?action=update'') body of
                Inl err \<Rightarrow>
                  (Some (False, Some (Errorf ''failed to create request: '' (Some err))), w)
              | Inr req \<Rightarrow>
                  let req = Header_Set req ''Content-Type'' ''application/json'';
                      ((resp, err), w) = doRequestWithRetry pf c req w
                  in if err \<noteq> None
                     then (Some (False, Some (Errorf ''failed to send request: '' err)), w)
                     else
                       (case resp of
                          None \<Rightarrow> (None, w)
                        | Some resp \<Rightarrow>
                            let ((responseBody, err), w) = io_ReadAll pf resp w;
                                ret =
                                  (if err \<noteq> None
                                   then (False, Some (Errorf ''failed to read response body: '' err))
                                   else if StatusCode resp \<noteq> 200
                                   then (False, Some (ErrorString
                                          (''request failed with status '' @ Sprintf_d (StatusCode resp) @
                                           '': '' @ responseBody)))
                                   else
                                     let (response, err) = Unmarshal_Response pf responseBody
                                     in if err \<noteq> None
                                        then (False, Some (Errorf ''failed to unmarshal response: '' err))
                                        else if rs_StatusCode response \<noteq> 200
                                        then (False, Some (ErrorString
                                               (''GDPR service returned error: '' @ rs_Message response)))
                                        else (True, None))
                            in (Some ret, Body_Close resp w))))"

definition UpdateDeleteRequest ::
  "platform \<Rightarrow> Client \<Rightarrow> UpdateRequestInput \<Rightarrow> world \<Rightarrow>
   (bool \<times> go_error option) option \<times> world" where
  "UpdateDeleteRequest pf c input w =
     (let input = (if uri_ApiKey input = '''' then input\<lparr>uri_ApiKey := apiKey c\<rparr> else input)
      in case json_Marshal pf (Arg_UpdateRequestInput input) of
           Inl err \<Rightarrow>
             (Some (False, Some (Errorf ''failed to marshal request body: '' (Some err))), w)
         | Inr body \<Rightarrow>
             (case http_NewRequest pf ''POST'' (baseURL c @ ''/gdpr?controller=delete&action=update'') body of
                Inl err \<Rightarrow>
                  (Some (False, Some (Errorf ''failed to create request: '' (Some err))), w)
              | Inr req \<Rightarrow>
                  let req = Header_Set req ''Content-Type'' ''application/json'';
                      (out, w) = httpClient_Do pf req w;
                      resp = resp_of out;
                      err = err_of out
                  in if err \<noteq> None
                     then (Some (False, Some (Errorf ''failed to send request: '' err)), w)
                     else
                       (case resp of
                          None \<Rightarrow> (None, w)
                        | Some resp \<Rightarrow>
                            let ((responseBody, err), w) = io_ReadAll pf resp w;
                                ret =
                                  (if err \<noteq> None
                                   then (False, Some (Errorf ''failed to read response body: '' err))
                                   else if StatusCode resp \<noteq> 200
                                   then (False, Some (ErrorString
                                          (''request failed with status '' @ Sprintf_d (StatusCode resp) @
                                           '': '' @ responseBody)))
                                   else
                                     let (response, err) = Unmarshal_Response pf responseBody
                                     in if err \<noteq> None
                                        then (False, Some (Errorf ''failed to unmarshal response: '' err))
                                        else if rs_StatusCode response \<noteq> 200
                                        then (False, Some (ErrorString
                                               (''GDPR service returned error: '' @ rs_Message response)))
                                        else (True, None))
                            in (Some ret, Body_Close resp w))))"

definition DeleteInfoRequest ::
  "platform \<Rightarrow> Client \<Rightarrow> DeleteRequestInput \<Rightarrow> world \<Rightarrow>
   (bool \<times> go_error option) option \<times> world" where
  "DeleteInfoRequest pf c input w =
     (let input = (if dri_ApiKey input = '''' then input\<lparr>dri_ApiKey := apiKey c\<rparr> else input)
      in case json_Marshal pf (Arg_DeleteRequestInput input) of
           Inl err \<Rightarrow>
             (Some (False, Some (Errorf ''failed to marshal request body: '' (Some err))), w)
         | Inr body \<Rightarrow>
             (case http_NewRequest pf ''POST'' (baseURL c @ ''/gdpr?action=delete'') body of
                Inl err \<Rightarrow>
                  (Some (False, Some (Errorf ''failed to create request: '' (Some err))), w)
              | Inr req \<Rightarrow>
                  let req = Header_Set req ''Content-Type'' ''application/json'';
                      ((resp, err), w) = doRequestWithRetry pf c req w
                  in if err \<noteq> None
                     then (Some (False, Some (Errorf ''failed to send request: '' err)), w)
                     else
                       (case resp of
                          None \<Rightarrow> (None, w)
                        | Some resp \<Rightarrow>
                            let ((responseBody, err), w) = io_ReadAll pf resp w;
                                ret =
                                  (if err \<noteq> None
                                   then (False, Some (Errorf ''failed to read response body: '' err))
                                   else if StatusCode resp \<noteq> 200
                                   then (False, Some (ErrorString
                                          (''request failed with status '' @ Sprintf_d (StatusCode resp) @
                                           '': '' @ responseBody)))
                                   else
                                     let (response, err) = Unmarshal_Response pf responseBody
                                     in if err \<noteq> None
                                        then (False, Some (Errorf ''failed to unmarshal response: '' err))
                                        else if rs_StatusCode response \<noteq> 200
                                        then (False, Some (ErrorString
                                               (''GDPR service returned error: '' @ rs_Message response)))
                                        else (True, None))
                            in (Some ret, Body_Close resp w))))"

definition Client_DeleteRequest ::
  "platform \<Rightarrow> Client \<Rightarrow> DeleteRequestInput \<Rightarrow> world \<Rightarrow>
   (bool \<times> go_error option) option \<times> world" where
  "Client_DeleteRequest pf c input w =
     (let input = (if dri_ApiKey input = '''' then input\<lparr>dri_ApiKey := apiKey c\<rparr> else input)
      in case json_Marshal pf (Arg_DeleteRequestInput input) of
           Inl err \<Rightarrow>
             (Some (False, Some (Errorf ''failed to marshal request body: '' (Some err))), w)
         | Inr body \<Rightarrow>
             (case http_NewRequest pf ''POST'' (baseURL c @ ''/gdpr?controller=delete&action=delete'') body of
                Inl err \<Rightarrow>
                  (Some (False, Some (Errorf ''failed to create request: '' (Some err))), w)
              | Inr req \<Rightarrow>
                  let req = Header_Set req ''Content-Type'' ''application/json'';
                      ((resp, err), w) = doRequestWithRetry pf c req w
                  in if err \<noteq> None
                     then (Some (False, Some (Errorf ''failed to send request: '' err)), w)
                     else
                       (case resp of
                          None \<Rightarrow> (None, w)
                        | Some resp \<Rightarrow>
                            let ((responseBody, err), w) = io_ReadAll pf resp w;
                                ret =
                                  (if err \<noteq> None
                                   then (False, Some (Errorf ''failed to read response body: '' err))
                                   else if StatusCode resp \<noteq> 200
                                   then (False, Some (ErrorString
                                          (''request failed with status '' @ Sprintf_d (StatusCode resp) @
                                           '': '' @ responseBody)))
                                   else
                                     let (response, err) = Unmarshal_Response pf responseBody
                                     in if err \<noteq> None
                                        then (False, Some (Errorf ''failed to unmarshal response: '' err))
                                        else if rs_StatusCode response \<noteq> 200
                                        then (False, Some (ErrorString
                                               (''GDPR service returned error: '' @ rs_Message response)))
                                        else (True, None))
                            in (Some ret, Body_Close resp w))))"

definition FetchAllInfoRequests ::
  "platform \<Rightarrow> Client \<Rightarrow> FetchAllRequestInput \<Rightarrow> world \<Rightarrow>
   (PaginatedResponse option \<times> go_error option) option \<times> world" where
  "FetchAllInfoRequests pf c input w =
     (let input = (if fai_ApiKey input = '''' then input\<lparr>fai_ApiKey := apiKey c\<rparr> else input)
      in case json_Marshal pf (Arg_FetchAllRequestInput input) of
           Inl err \<Rightarrow>
             (Some (None, Some (Errorf ''failed to marshal request body: '' (Some err))), w)
         | Inr body \<Rightarrow>
             (case http_NewRequest pf ''POST'' (baseURL c @ ''/gdpr?action=fetchAll'') body of
                Inl err \<Rightarrow>
                  (Some (None, Some (Errorf ''failed to create request: '' (Some err))), w)
              | Inr req \<Rightarrow>
                  let req = Header_Set req ''Content-Type'' ''application/json'';
                      ((resp, err), w) = doRequestWithRetry pf c req w
                  in if err \<noteq> None
                     then (Some (None, Some (Errorf ''failed to send request: '' err)), w)
                     else
                       (case resp of
                          None \<Rightarrow> (None, w)
                        | Some resp \<Rightarrow>
                            let ((responseBody, err), w) = io_ReadAll pf resp w;
                                ret =
                                  (if err \<noteq> None
                                   then (None, Some (Errorf ''failed to read response body: '' err))
                                   else if StatusCode resp \<noteq> 200
                                   then (None, Some (ErrorString
                                          (''request failed with status '' @ Sprintf_d (StatusCode resp) @
                                           '': '' @ responseBody)))
                                   else
                                     let (response, err) = Unmarshal_Response pf responseBody
                                     in if err \<noteq> None
                                        then (None, Some (Errorf ''failed to unmarshal response: '' err))
                                        else if rs_StatusCode response \<noteq> 200
                                        then (None, Some (ErrorString
                                               (''GDPR service returned error: '' @ rs_Message response)))
                                        else
                                          (case json_Marshal pf (Arg_Data (rs_Data response)) of
                                             Inl err \<Rightarrow> (None, Some (Errorf ''failed to marshal data: '' (Some err)))
                                           | Inr dataJSON \<Rightarrow>
                                               let (paginatedResponse, err) = Unmarshal_PaginatedResponse pf dataJSON
                                               in if err \<noteq> None
                                                  then (None, Some (Errorf ''failed to unmarshal data: '' err))
                                                  else (Some paginatedResponse, None)))
                            in (Some ret, Body_Close resp w))))"

definition FetchInfoRequestsByType ::
  "platform \<Rightarrow> Client \<Rightarrow> FetchByTypeInput \<Rightarrow> world \<Rightarrow>
   (PaginatedResponse option \<times> go_error option) option \<times> world" where
  "FetchInfoRequestsByType pf c input w =
     (let input = (if fti_ApiKey input = '''' then input\<lparr>fti_ApiKey := apiKey c\<rparr> else input)
      in case json_Marshal pf (Arg_FetchByTypeInput input) of
           Inl err \<Rightarrow>
             (Some (None, Some (Errorf ''failed to marshal request body: '' (Some err))), w)
         | Inr body \<Rightarrow>
             (case http_NewRequest pf ''POST'' (baseURL c @ ''/gdpr?action=fetchByType'') body of
                Inl err \<Rightarrow>
                  (Some (None, Some (Errorf ''failed to create request: '' (Some err))), w)
              | Inr req \<Rightarrow>
                  let req = Header_Set req ''Content-Type'' ''application/json'';
                      ((resp, err), w) = doRequestWithRetry pf c req w
                  in if err \<noteq> None
                     then (Some (None, Some (Errorf ''failed to send request: '' err)), w)
                     else
                       (case resp of
                          None \<Rightarrow> (None, w)
                        | Some resp \<Rightarrow>
                            let ((responseBody, err), w) = io_ReadAll pf resp w;
                                ret =
                                  (if err \<noteq> None
                                   then (None, Some (Errorf ''failed to read response body: '' err))
                                   else if StatusCode resp \<noteq> 200
                                   then (None, Some (ErrorString
                                          (''request failed with status '' @ Sprintf_d (StatusCode resp) @
                                           '': '' @ responseBody)))
                                   else
                                     let (response, err) = Unmarshal_Response pf responseBody
                                     in if err \<noteq> None
                                        then (None, Some (Errorf ''failed to unmarshal response: '' err))
                                        else if rs_StatusCode response \<noteq> 200
                                        then (None, Some (ErrorString
                                               (''GDPR service returned error: '' @ rs_Message response)))
                                        else
                                          (case json_Marshal pf (Arg_Data (rs_Data response)) of
                                             Inl err \<Rightarrow> (None, Some (Errorf ''failed to marshal data: '' (Some err)))
                                           | Inr dataJSON \<Rightarrow>
                                               let (paginatedResponse, err) = Unmarshal_PaginatedResponse pf dataJSON
                                               in if err \<noteq> None
                                                  then (None, Some (Errorf ''failed to unmarshal data: '' err))
                                                  else (Some paginatedResponse, None)))
                            in (Some ret, Body_Close resp w))))"

definition FetchDeleteRequestsByStatus ::
  "platform \<Rightarrow> Client \<Rightarrow> FetchByStatusInput \<Rightarrow> world \<Rightarrow>
   (PaginatedResponse option \<times> go_error option) option \<times> world" where
  "FetchDeleteRequestsByStatus pf c input w =
     (let input = (if fsi_ApiKey input = '''' then input\<lparr>fsi_ApiKey := apiKey c\<rparr> else input)
      in case json_Marshal pf (Arg_FetchByStatusInput input) of
           Inl err \<Rightarrow>
             (Some (None, Some (Errorf ''failed to marshal request body: '' (Some err))), w)
         | Inr body \<Rightarrow>
             (case http_NewRequest pf ''POST'' (baseURL c @ ''/gdpr?controller=delete&action=fetchByStatus'') body of
                Inl err \<Rightarrow>
                  (Some (None, Some (Errorf ''failed to create request: '' (Some err))), w)
              | Inr req \<Rightarrow>
                  let req = Header_Set req ''Content-Type'' ''application/json'';
                      ((resp, err), w) = doRequestWithRetry pf c req w
                  in if err \<noteq> None
                     then (Some (None, Some (Errorf ''failed to send request: '' err)), w)
                     else
                       (case resp of
                          None \<Rightarrow> (None, w)
                        | Some resp \<Rightarrow>
                            let ((responseBody, err), w) = io_ReadAll pf resp w;
                                ret =
                                  (if err \<noteq> None
                                   then (None, Some (Errorf ''failed to read response body: '' err))
                                   else if StatusCode resp \<noteq> 200
                                   then (None, Some (ErrorString
                                          (''request failed with status '' @ Sprintf_d (StatusCode resp) @
                                           '': '' @ responseBody)))
                                   else
                                     let (response, err) = Unmarshal_Response pf responseBody
                                     in if err \<noteq> None
                                        then (None, Some (Errorf ''failed to unmarshal response: '' err))
                                        else if rs_StatusCode response \<noteq> 200
                                        then (None, Some (ErrorString
                                               (''GDPR service returned error: '' @ rs_Message response)))
                                        else
                                          (case json_Marshal pf (Arg_Data (rs_Data response)) of
                                             Inl err \<Rightarrow> (None, Some (Errorf ''failed to marshal data: '' (Some err)))
                                           | Inr dataJSON \<Rightarrow>
                                               let (paginatedResponse, err) = Unmarshal_PaginatedResponse pf dataJSON
                                               in if err \<noteq> None
                                                  then (None, Some (Errorf ''failed to unmarshal data: '' err))
                                                  else (Some paginatedResponse, None)))
                            in (Some ret, Body_Close resp w))))"

definition FetchRequestsByCreator ::
  "platform \<Rightarrow> Client \<Rightarrow> FetchByCreatorInput \<Rightarrow> world \<Rightarrow>
   (PaginatedResponse option \<times> go_error option) option \<times> world" where
  "FetchRequestsByCreator pf c input w =
     (let input = (if fci_ApiKey input = '''' then input\<lparr>fci_ApiKey := apiKey c\<rparr> else input)
      in case json_Marshal pf (Arg_FetchByCreatorInput input) of
           Inl err \<Rightarrow>
             (Some (None, Some (Errorf ''failed to marshal request body: '' (Some err))), w)
         | Inr body \<Rightarrow>
             (case http_NewRequest pf ''POST'' (baseURL c @ ''/gdpr?action=fetchByCreator'') body of
                Inl err \<Rightarrow>
                  (Some (None, Some (Errorf ''failed to create request: '' (Some err))), w)
              | Inr req \<Rightarrow>
                  let req = Header_Set req ''Content-Type'' ''application/json'';
                      ((resp, err), w) = doRequestWithRetry pf c req w
                  in if err \<noteq> None
                     then (Some (None, Some (Errorf ''failed to send request: '' err)), w)
                     else
                       (case resp of
                          None \<Rightarrow> (None, w)
                        | Some resp \<Rightarrow>
                            let ((responseBody, err), w) = io_ReadAll pf resp w;
                                ret =
                                  (if err \<noteq> None
                                   then (None, Some (Errorf ''failed to read response body: '' err))
                                   else if StatusCode resp \<noteq> 200
                                   then (None, Some (ErrorString
                                          (''request failed with status '' @ Sprintf_d (StatusCode resp) @
                                           '': '' @ responseBody)))
                                   else
                                     let (response, err) = Unmarshal_Response pf responseBody
                                     in if err \<noteq> None
                                        then (None, Some (Errorf ''failed to unmarshal response: '' err))
                                        else if rs_StatusCode response \<noteq> 200
                                        then (None, Some (ErrorString
                                               (''GDPR service returned error: '' @ rs_Message response)))
                                        else
                                          (case json_Marshal pf (Arg_Data (rs_Data response)) of
                                             Inl err \<Rightarrow> (None, Some (Errorf ''failed to marshal data: '' (Some err)))
                                           | Inr dataJSON \<Rightarrow>
                                               let (paginatedResponse, err) = Unmarshal_PaginatedResponse pf dataJSON
                                               in if err \<noteq> None
                                                  then (None, Some (Errorf ''failed to unmarshal data: '' err))
                                                  else (Some paginatedResponse, None)))
                            in (Some ret, Body_Close resp w))))"

definition FetchDeleteRequestsByCreator ::
  "platform \<Rightarrow> Client \<Rightarrow> FetchByCreatorInput \<Rightarrow> world \<Rightarrow>
   (PaginatedResponse option \<times> go_error option) option \<times> world" where
  "FetchDeleteRequestsByCreator pf c input w =
     (let input = (if fci_ApiKey input = '''' then input\<lparr>fci_ApiKey := apiKey c\<rparr> else input)
      in case json_Marshal pf (Arg_FetchByCreatorInput input) of
           Inl err \<Rightarrow>
             (Some (None, Some (Errorf ''failed to marshal request body: '' (Some err))), w)
         | Inr body \<Rightarrow>
             (case http_NewRequest pf ''POST'' (baseURL c @ ''/gdpr?controller=delete&action=fetchByCreator'') body of
                Inl err \<Rightarrow>
                  (Some (None, Some (Errorf ''failed to create request: '' (Some err))), w)
              | Inr req \<Rightarrow>
                  let req = Header_Set req ''Content-Type'' ''application/json'';
                      ((resp, err), w) = doRequestWithRetry pf c req w
                  in if err \<noteq> None
                     then (Some (None, Some (Errorf ''failed to send request: '' err)), w)
                     else
                       (case resp of
                          None \<Rightarrow> (None, w)
                        | Some resp \<Rightarrow>
                            let ((responseBody, err), w) = io_ReadAll pf resp w;
                                ret =
                                  (if err \<noteq> None
                                   then (None, Some (Errorf ''failed to read response body: '' err))
                                   else if StatusCode resp \<noteq> 200
                                   then (None, Some (ErrorString
                                          (''request failed with status '' @ Sprintf_d (StatusCode resp) @
                                           '': '' @ responseBody)))
                                   else
                                     let (response, err) = Unmarshal_Response pf responseBody
                                     in if err \<noteq> None
                                        then (None, Some (Errorf ''failed to unmarshal response: '' err))
                                        else if rs_StatusCode response \<noteq> 200
                                        then (None, Some (ErrorString
                                               (''GDPR service returned error: '' @ rs_Message response)))
                                        else
                                          (case json_Marshal pf (Arg_Data (rs_Data response)) of
                                             Inl err \<Rightarrow> (None, Some (Errorf ''failed to marshal data: '' (Some err)))
                                           | Inr dataJSON \<Rightarrow>
                                               let (paginatedResponse, err) = Unmarshal_PaginatedResponse pf dataJSON
                                               in if err \<noteq> None
                                                  then (None, Some (Errorf ''failed to unmarshal data: '' err))
                                                  else (Some paginatedResponse, None)))
                            in (Some ret, Body_Close resp w))))"

section \<open>Example inputs\<close>

text \<open>
  Concrete inputs at which the theorems below are evaluated: a world in which nothing has
  happened yet, a request, and platforms whose transport is given and whose response
  bodies are an HTML page, so that every \<open>json.Unmarshal\<close> fails and leaves a zero value;
  reading a body that has been closed fails.
  On these platforms \<open>math.Pow\<close> is \<open>rounded_power\<close>: 1 for the exponent 0 and the
  correctly rounded power of a positive finite base for another finite exponent (the
  examples use no other arguments, for which it is NaN here); and a \<open>float64\<close> out of range
  converts to the least \<open>int64\<close>, as it does on amd64.
\<close>

definition fresh_world :: world where
  "fresh_world =
     \<lparr>sent = [], closedBodies = [], draws = 0, slept = [], readBodies = [], logged = []\<rparr>"

definition example_request :: http_Request where
  "example_request =
     \<lparr>Method = ''POST'', URL = ''https://api.example.com/gdpr?action=create'',
      Header = [''Content-Type'' \<mapsto> ''application/json''], ReqBody = ''{}''\<rparr>"

definition zero_InfoRequest :: InfoRequest where
  "zero_InfoRequest =
     \<lparr>ir_PartitionKey = '''', ir_RangeKey = '''', ir_Type = '''', ir_Status = '''',
      ir_Created = '''', ir_Modified = '''', ir_CreatedBy = ''''\<rparr>"

definition zero_DeleteRequest :: DeleteRequest where
  "zero_DeleteRequest =
     \<lparr>dr_PartitionKey = '''', dr_RangeKey = '''', dr_Type = '''', dr_Status = '''',
      dr_Created = '''', dr_Modified = '''', dr_CreatedBy = ''''\<rparr>"

definition syntax_error :: go_error where
  "syntax_error =
     ErrorString (''invalid character '' @ [CHR 0x27] @ ''<'' @ [CHR 0x27] @
       '' looking for beginning of value'')"

definition rounded_power :: "float64 \<Rightarrow> float64 \<Rightarrow> float64" where
  "rounded_power x y =
     (case (x, y) of
        (Finite a, Finite b) \<Rightarrow>
          (if b = 0 then Finite 1
           else if 0 < a then float64_of_real (a powr b)
           else NaN)
      | _ \<Rightarrow> NaN)"

definition example_platform :: "(nat \<Rightarrow> http_Request \<Rightarrow> outcome) \<Rightarrow> platform" where
  "example_platform transport =
     \<lparr>Do = transport,
      Float64 = (\<lambda>n. 0),
      Pow = rounded_power,
      overflow = (\<lambda>x. - (2 ^ 63)),
      json_Marshal = (\<lambda>arg. Inr ''{}''),
      url_Parse = (\<lambda>url. None),
      ReadAll =
        (\<lambda>closed body.
           if body \<in> set closed
           then ('''', Some (ErrorString ''http: read on closed response body''))
           else (''<html></html>'', None)),
      Unmarshal_Response =
        (\<lambda>data. (\<lparr>rs_StatusCode = 0, rs_Message = '''', rs_Data = JNull\<rparr>, Some syntax_error)),
      Unmarshal_InfoRequest = (\<lambda>data. (zero_InfoRequest, Some syntax_error)),
      Unmarshal_DeleteRequest = (\<lambda>data. (zero_DeleteRequest, Some syntax_error)),
      Unmarshal_PaginatedResponse =
        (\<lambda>data. (\<lparr>pr_Results = [], pr_LastRangeKey = ''''\<rparr>, Some syntax_error)),
      Sprint_Body = (\<lambda>body. '''')\<rparr>"

definition status_platform :: "(nat \<Rightarrow> int) \<Rightarrow> platform" where
  "status_platform status =
     example_platform (\<lambda>n req. Replied \<lparr>StatusCode = status n, Body = n\<rparr>)"

definition failing_platform :: "go_error \<Rightarrow> platform" where
  "failing_platform e = example_platform (\<lambda>n req. Failed e)"

text \<open>
  The errors of a refused connection and of a failed host lookup, as package \<open>net\<close> reports
  them, and the \<open>*url.Error\<close> that \<open>net/http\<close> puts around a transport error.
\<close>

definition connection_refused :: go_error where
  "connection_refused =
     Wrapped ''dial tcp 127.0.0.1:443'' (Wrapped ''connect'' (ErrorString ''connection refused''))"

definition no_such_host :: go_error where
  "no_such_host = Wrapped ''lookup api.example.com'' (ErrorString ''no such host'')"

definition url_Error :: "string \<Rightarrow> string \<Rightarrow> go_error \<Rightarrow> go_error" where
  "url_Error op url err = Wrapped (op @ '' '' @ [CHR 0x22] @ url @ [CHR 0x22]) err"

text \<open>
  The policy of scenario A, a policy whose longest backoff is about 104 days, and one
  whose longest backoff is the greatest duration there is.
\<close>

definition policy_A :: RetryPolicy where
  "policy_A =
     \<lparr>MaxRetries = 3, InitialBackoff = 100 * Millisecond, MaxBackoff = 10 * Second,
      BackoffFactor = Finite 2, Jitter = Finite 0\<rparr>"

definition policy_104_days :: RetryPolicy where
  "policy_104_days =
     \<lparr>MaxRetries = 13, InitialBackoff = Hour, MaxBackoff = 9007199254740995,
      BackoffFactor = Finite 2, Jitter = Finite 0\<rparr>"

definition policy_no_cap :: RetryPolicy where
  "policy_no_cap =
     \<lparr>MaxRetries = 35, InitialBackoff = Second, MaxBackoff = 9223372036854775807,
      BackoffFactor = Finite 2, Jitter = Finite 0\<rparr>"

section \<open>Properties of the traffic of an operation\<close>

text \<open>
  \<open>build_request\<close>: the request every operation prepares before it turns to the network,
  from the path of the operation and the input it hands to \<open>json.Marshal\<close>: a POST to
  the base URL followed by the path, with the JSON as body and the content type set.
  There is none when \<open>json.Marshal\<close> or \<open>http.NewRequest\<close> fails.

  \<open>single_call\<close>: from world \<open>w\<close> to world \<open>w'\<close> nothing was slept, no random number was
  drawn, and at most one request, a POST to the path, went to the transport.

  \<open>direct_call\<close>: nothing was slept and no random number was drawn from \<open>w\<close> to \<open>w'\<close>, and
  the request of the operation, when it can be built, went to the transport once (nothing
  was sent when it cannot).

  \<open>through_executor\<close>: when the request of the operation cannot be built, nothing was
  sent, slept or drawn from \<open>w\<close> to \<open>w'\<close>; when it can, the requests sent, the sleeps and
  the number of random draws in \<open>w'\<close> are those that \<open>doRequestWithRetry\<close> leaves when it
  is given that very request in \<open>w\<close>.
\<close>

definition build_request ::
  "platform \<Rightarrow> Client \<Rightarrow> string \<Rightarrow> marshal_arg \<Rightarrow> http_Request option" where
  "build_request pf c path arg =
     (case json_Marshal pf arg of
        Inl err \<Rightarrow> None
      | Inr body \<Rightarrow>
          (case http_NewRequest pf ''POST'' (baseURL c @ path) body of
             Inl err \<Rightarrow> None
           | Inr req \<Rightarrow> Some (Header_Set req ''Content-Type'' ''application/json'')))"

definition single_call :: "Client \<Rightarrow> string \<Rightarrow> world \<Rightarrow> world \<Rightarrow> bool" where
  "single_call c path w w' \<longleftrightarrow>
     slept w' = slept w \<and> draws w' = draws w \<and>
     (sent w' = sent w \<or>
      (\<exists>req. Method req = ''POST'' \<and> URL req = baseURL c @ path \<and> sent w' = sent w @ [req]))"

definition direct_call ::
  "platform \<Rightarrow> Client \<Rightarrow> string \<Rightarrow> marshal_arg \<Rightarrow> world \<Rightarrow> world \<Rightarrow> bool" where
  "direct_call pf c path arg w w' \<longleftrightarrow>
     slept w' = slept w \<and> draws w' = draws w \<and>
     (case build_request pf c path arg of
        None \<Rightarrow> sent w' = sent w
      | Some req \<Rightarrow> sent w' = sent w @ [req])"

definition through_executor ::
  "platform \<Rightarrow> Client \<Rightarrow> string \<Rightarrow> marshal_arg \<Rightarrow> world \<Rightarrow> world \<Rightarrow> bool" where
  "through_executor pf c path arg w w' \<longleftrightarrow>
     (case build_request pf c path arg of
        None \<Rightarrow> sent w' = sent w \<and> slept w' = slept w \<and> draws w' = draws w
      | Some req \<Rightarrow>
          sent w' = sent (snd (doRequestWithRetry pf c req w)) \<and>
          slept w' = slept (snd (doRequestWithRetry pf c req w)) \<and>
          draws w' = draws (snd (doRequestWithRetry pf c req w)))"

section \<open>Example inputs of the operations\<close>

definition TypeInfoRequest :: string where
  "TypeInfoRequest = ''INFO_REQUEST''"

definition TypeDeleteRequest :: string where
  "TypeDeleteRequest = ''DELETE_REQUEST''"

definition StatusPending :: string where
  "StatusPending = ''PENDING''"

definition StatusComplete :: string where
  "StatusComplete = ''COMPLETE''"

definition StatusFailed :: string where
  "StatusFailed = ''FAILED''"

definition StatusDeleted :: string where
  "StatusDeleted = ''DELETED''"

definition example_client :: Client where
  "example_client = NewClient ''https://api.example.com'' ''your-api-key'' []"

definition example_CreateInfoRequestInput :: CreateInfoRequestInput where
  "example_CreateInfoRequestInput =
     \<lparr>cii_PartitionKey = ''user123'', cii_Type = TypeInfoRequest,
      cii_CreatedBy = ''user@example.com'', cii_ApiKey = ''''\<rparr>"

definition example_FetchRequestInput :: FetchRequestInput where
  "example_FetchRequestInput =
     \<lparr>fri_PartitionKey = ''user123'', fri_RangeKey = ''2025-03-24'', fri_ApiKey = ''''\<rparr>"

definition example_UpdateRequestInput :: UpdateRequestInput where
  "example_UpdateRequestInput =
     \<lparr>uri_PartitionKey = ''user123'', uri_RangeKey = ''2025-03-24'', uri_Type = '''',
      uri_Status = StatusComplete, uri_ApiKey = ''''\<rparr>"

section \<open>Status codes without a transport error\<close>

text \<open>
  C1 (as amended). With no transport error, \<open>ShouldRetry\<close> answers true exactly for the
  status codes that are at least 500 and not 501, and for 429: the test has no upper
  bound, so a code of 600 or more is retried too. In particular it answers true for 500,
  502, 503 and 504, false for 501, and false for every code from 200 to 499 but 429.
\<close>

theorem ShouldRetry_status:
  "(\<forall>s. ShouldRetry s None \<longleftrightarrow> (500 \<le> s \<and> s \<noteq> 501) \<or> s = 429) \<and>
   ShouldRetry 500 None \<and> ShouldRetry 502 None \<and> ShouldRetry 503 None \<and>
   ShouldRetry 504 None \<and> \<not> ShouldRetry 501 None \<and> ShouldRetry 429 None \<and>
   (\<forall>s. 200 \<le> s \<and> s < 500 \<and> s \<noteq> 429 \<longrightarrow> \<not> ShouldRetry s None)"
  by (simp add: ShouldRetry_def)

theorem ShouldRetry_status_witness:
  "(200::int) \<le> 404 \<and> (404::int) < 500 \<and> (404::int) \<noteq> 429 \<and> \<not> ShouldRetry 404 None"
  using ShouldRetry_status by simp

text \<open>
  The claim as the specification words it bounds the retried range by 599. Status 600
  is outside that range and is not 429, and \<open>ShouldRetry\<close> answers true for it.
\<close>

theorem ShouldRetry_status_600:
  "\<not> (ShouldRetry 600 None \<longleftrightarrow>
        ((500::int) \<le> 600 \<and> (600::int) \<le> 599 \<and> (600::int) \<noteq> 501) \<or> (600::int) = 429)"
  by (simp add: ShouldRetry_def)

section \<open>One attempt of the executor\<close>

lemma loop_done:
  "\<not> int attempt \<le> MaxRetries (retryPolicy c) \<Longrightarrow>
   doRequestWithRetry_loop pf c req attempt prev w = (prev, w)"
  by (subst doRequestWithRetry_loop.simps) simp

lemma loop_success:
  "int attempt \<le> MaxRetries (retryPolicy c) \<Longrightarrow>
   succeeded (attempt_outcome pf req attempt w) \<Longrightarrow>
   doRequestWithRetry_loop pf c req attempt prev w =
     ((resp_of (attempt_outcome pf req attempt w), None), attempt_world pf req attempt w)"
  by (subst doRequestWithRetry_loop.simps)
     (simp add: succeeded_def attempt_outcome_def attempt_world_def httpClient_Do_def
        Let_def case_prod_beta)

lemma loop_break:
  "int attempt \<le> MaxRetries (retryPolicy c) \<Longrightarrow>
   \<not> succeeded (attempt_outcome pf req attempt w) \<Longrightarrow>
   \<not> ShouldRetry (statusCode_of (attempt_outcome pf req attempt w))
       (err_of (attempt_outcome pf req attempt w)) \<or>
   int attempt \<ge> MaxRetries (retryPolicy c) \<Longrightarrow>
   doRequestWithRetry_loop pf c req attempt prev w =
     ((resp_of (attempt_outcome pf req attempt w), err_of (attempt_outcome pf req attempt w)),
      close_failed (attempt_outcome pf req attempt w) (attempt_world pf req attempt w))"
  by (subst doRequestWithRetry_loop.simps)
     (auto simp add: succeeded_def statusCode_of_def close_failed_def attempt_outcome_def
        attempt_world_def httpClient_Do_def Let_def case_prod_beta)

lemma loop_retry:
  "int attempt < MaxRetries (retryPolicy c) \<Longrightarrow>
   \<not> succeeded (attempt_outcome pf req attempt w) \<Longrightarrow>
   ShouldRetry (statusCode_of (attempt_outcome pf req attempt w))
       (err_of (attempt_outcome pf req attempt w)) \<Longrightarrow>
   doRequestWithRetry_loop pf c req attempt prev w =
     doRequestWithRetry_loop pf c req (attempt + 1)
       (resp_of (attempt_outcome pf req attempt w), err_of (attempt_outcome pf req attempt w))
       (retry_world pf c req attempt w)"
  by (subst doRequestWithRetry_loop.simps)
     (auto simp add: succeeded_def statusCode_of_def close_failed_def attempt_outcome_def
        attempt_world_def retry_world_def httpClient_Do_def Let_def case_prod_beta)

section \<open>The effects of one attempt\<close>

lemma attempt_outcome_eq:
  "attempt_outcome pf req attempt w = Do pf (length (sent w)) (reqClone req attempt)"
  by (simp add: attempt_outcome_def httpClient_Do_def)

lemma attempt_world_fields [simp]:
  "sent (attempt_world pf req attempt w) = sent w @ [reqClone req attempt]"
  "slept (attempt_world pf req attempt w) = slept w"
  "draws (attempt_world pf req attempt w) = draws w"
  "closedBodies (attempt_world pf req attempt w) = closedBodies w"
  "readBodies (attempt_world pf req attempt w) = readBodies w"
  "logged (attempt_world pf req attempt w) = logged w"
  by (simp_all add: attempt_world_def httpClient_Do_def)

lemma close_failed_fields [simp]:
  "sent (close_failed out w) = sent w"
  "slept (close_failed out w) = slept w"
  "draws (close_failed out w) = draws w"
  "readBodies (close_failed out w) = readBodies w"
  "logged (close_failed out w) = logged w"
  by (simp_all add: close_failed_def Body_Close_def split: option.splits)

lemma calculateBackoff_fields [simp]:
  "sent (snd (calculateBackoff pf c attempt w)) = sent w"
  "slept (snd (calculateBackoff pf c attempt w)) = slept w"
  "closedBodies (snd (calculateBackoff pf c attempt w)) = closedBodies w"
  "readBodies (snd (calculateBackoff pf c attempt w)) = readBodies w"
  "logged (snd (calculateBackoff pf c attempt w)) = logged w"
  by (simp_all add: calculateBackoff_def Let_def)

lemma retry_world_fields [simp]:
  "sent (retry_world pf c req attempt w) = sent w @ [reqClone req attempt]"
  "length (slept (retry_world pf c req attempt w)) = Suc (length (slept w))"
  "readBodies (retry_world pf c req attempt w) = readBodies w"
  "logged (retry_world pf c req attempt w) = logged w"
  by (simp_all add: retry_world_def Sleep_def Let_def)

lemma succeeded_not_retryable:
  "succeeded out \<Longrightarrow> \<not> ShouldRetry (statusCode_of out) (err_of out)"
  by (cases out) (auto simp add: succeeded_def statusCode_of_def ShouldRetry_def)

lemma close_failed_closedBodies:
  "\<not> succeeded out \<Longrightarrow> closedBodies (close_failed out w) = closedBodies w @ closed_by out"
  by (simp add: close_failed_def closed_by_def Body_Close_def split: option.splits)

lemma retry_world_closedBodies:
  "\<not> succeeded (attempt_outcome pf req attempt w) \<Longrightarrow>
   closedBodies (retry_world pf c req attempt w) =
     closedBodies w @ closed_by (attempt_outcome pf req attempt w)"
  by (simp add: retry_world_def Sleep_def Let_def close_failed_closedBodies)

section \<open>The whole loop\<close>

text \<open>
  From an attempt that the policy allows, the loop makes \<open>k + 1\<close> transport calls for
  some \<open>k\<close> within the policy, sleeps \<open>k\<close> times, closes the bodies of the attempts that
  were no success, reads no body, logs nothing, and returns the outcome of its last call.
\<close>

lemma loop_result:
  assumes "int attempt \<le> MaxRetries (retryPolicy c)"
  shows "\<exists>k. int (attempt + k) \<le> MaxRetries (retryPolicy c) \<and>
     fst (doRequestWithRetry_loop pf c req attempt prev w) =
       (resp_of (Do pf (length (sent w) + k) (reqClone req (attempt + k))),
        err_of (Do pf (length (sent w) + k) (reqClone req (attempt + k)))) \<and>
     sent (snd (doRequestWithRetry_loop pf c req attempt prev w)) =
       sent w @ map (reqClone req) [attempt..<Suc (attempt + k)] \<and>
     length (slept (snd (doRequestWithRetry_loop pf c req attempt prev w))) =
       length (slept w) + k \<and>
     closedBodies (snd (doRequestWithRetry_loop pf c req attempt prev w)) =
       closedBodies w @
       concat (map (\<lambda>i. closed_by (Do pf (length (sent w) + i) (reqClone req (attempt + i))))
         [0..<Suc k]) \<and>
     readBodies (snd (doRequestWithRetry_loop pf c req attempt prev w)) = readBodies w \<and>
     logged (snd (doRequestWithRetry_loop pf c req attempt prev w)) = logged w"
  using assms
proof (induction "nat (MaxRetries (retryPolicy c) - int attempt)" arbitrary: attempt prev w)
  case 0
  then have top: "int attempt = MaxRetries (retryPolicy c)" by simp
  let ?out = "attempt_outcome pf req attempt w"
  show ?case
  proof (cases "succeeded ?out")
    case True
    then have "err_of ?out = None" by (simp add: succeeded_def)
    with True show ?thesis
      using loop_success [of attempt c pf req w prev] top
      by (intro exI [of _ 0]) (simp add: attempt_outcome_eq closed_by_def)
  next
    case False
    then show ?thesis
      using loop_break [of attempt c pf req w prev] top close_failed_closedBodies [OF False]
      by (intro exI [of _ 0]) (simp add: attempt_outcome_eq)
  qed
next
  case (Suc n)
  let ?out = "attempt_outcome pf req attempt w"
  from Suc.hyps(2) have lt: "int attempt < MaxRetries (retryPolicy c)" by simp
  show ?case
  proof (cases "succeeded ?out")
    case True
    then have "err_of ?out = None" by (simp add: succeeded_def)
    with True show ?thesis
      using loop_success [of attempt c pf req w prev] lt
      by (intro exI [of _ 0]) (simp add: attempt_outcome_eq closed_by_def)
  next
    case False
    show ?thesis
    proof (cases "ShouldRetry (statusCode_of ?out) (err_of ?out)")
      case no: False
      with False show ?thesis
        using loop_break [of attempt c pf req w prev] lt close_failed_closedBodies [OF False]
        by (intro exI [of _ 0]) (simp add: attempt_outcome_eq)
    next
      case True
      let ?w = "retry_world pf c req attempt w"
      let ?next = "doRequestWithRetry_loop pf c req (attempt + 1) (resp_of ?out, err_of ?out) ?w"
      have step: "doRequestWithRetry_loop pf c req attempt prev w = ?next"
        using loop_retry [OF lt False True] .
      have n: "n = nat (MaxRetries (retryPolicy c) - int (attempt + 1))"
        using Suc.hyps(2) by simp
      have le: "int (attempt + 1) \<le> MaxRetries (retryPolicy c)" using lt by simp
      from Suc.hyps(1) [OF n le, of "(resp_of ?out, err_of ?out)" ?w]
      obtain k where k: "int (attempt + 1 + k) \<le> MaxRetries (retryPolicy c)"
        "fst ?next =
           (resp_of (Do pf (length (sent ?w) + k) (reqClone req (attempt + 1 + k))),
            err_of (Do pf (length (sent ?w) + k) (reqClone req (attempt + 1 + k))))"
        "sent (snd ?next) = sent ?w @ map (reqClone req) [attempt + 1..<Suc (attempt + 1 + k)]"
        "length (slept (snd ?next)) = length (slept ?w) + k"
        "closedBodies (snd ?next) = closedBodies ?w @
           concat (map (\<lambda>i. closed_by (Do pf (length (sent ?w) + i)
             (reqClone req (attempt + 1 + i)))) [0..<Suc k])"
        "readBodies (snd ?next) = readBodies ?w"
        "logged (snd ?next) = logged ?w"
        by blast
      have up: "[attempt..<Suc (attempt + Suc k)] =
                attempt # [attempt + 1..<Suc (attempt + 1 + k)]"
        by (simp add: upt_conv_Cons)
      have idx: "attempt + 1 + k = attempt + Suc k"
        "length (sent ?w) + k = length (sent w) + Suc k"
        by simp_all
      have shift: "[0..<Suc (Suc k)] = 0 # map Suc [0..<Suc k]"
        by (simp add: map_Suc_upt upt_conv_Cons del: upt_Suc)
      have cl: "closedBodies (snd ?next) = closedBodies w @
           concat (map (\<lambda>i. closed_by (Do pf (length (sent w) + i)
             (reqClone req (attempt + i)))) [0..<Suc (Suc k)])"
        unfolding k(5) shift
        by (simp add: retry_world_closedBodies [OF False] attempt_outcome_eq comp_def
            del: upt_Suc)
      show ?thesis
        unfolding step
        apply (rule exI [of _ "Suc k"])
        using k(1-4,6,7) cl unfolding idx up
        by (simp del: upt_Suc)
    qed
  qed
qed

text \<open>The executor terminates after at most \<open>MaxRetries + 1\<close> transport calls.\<close>

lemma attempts_bounded:
  "length (sent (snd (doRequestWithRetry pf c req w))) \<le>
   length (sent w) + nat (MaxRetries (retryPolicy c) + 1)"
proof (cases "0 \<le> MaxRetries (retryPolicy c)")
  case True
  then have "int 0 \<le> MaxRetries (retryPolicy c)" by simp
  from loop_result [OF this, of pf req "(None, None)" w]
  obtain k where "int k \<le> MaxRetries (retryPolicy c)"
    "sent (snd (doRequestWithRetry pf c req w)) = sent w @ map (reqClone req) [0..<Suc k]"
    unfolding doRequestWithRetry_def by auto
  then show ?thesis by simp
next
  case False
  then show ?thesis
    by (simp add: doRequestWithRetry_def loop_done)
qed

text \<open>
  When every transport call has an outcome that is no success and that \<open>ShouldRetry\<close>
  accepts, the executor makes \<open>MaxRetries + 1\<close> calls, sleeps \<open>MaxRetries\<close> times and
  returns the outcome of the last call.
\<close>

lemma loop_all_retryable:
  assumes "int attempt \<le> MaxRetries (retryPolicy c)"
    and "\<And>n r. \<not> succeeded (Do pf n r) \<and>
           ShouldRetry (statusCode_of (Do pf n r)) (err_of (Do pf n r))"
  shows "fst (doRequestWithRetry_loop pf c req attempt prev w) =
       (resp_of (Do pf (length (sent w) + nat (MaxRetries (retryPolicy c)) - attempt)
          (reqClone req (nat (MaxRetries (retryPolicy c))))),
        err_of (Do pf (length (sent w) + nat (MaxRetries (retryPolicy c)) - attempt)
          (reqClone req (nat (MaxRetries (retryPolicy c)))))) \<and>
     length (sent (snd (doRequestWithRetry_loop pf c req attempt prev w))) =
       length (sent w) + nat (MaxRetries (retryPolicy c)) + 1 - attempt \<and>
     length (slept (snd (doRequestWithRetry_loop pf c req attempt prev w))) =
       length (slept w) + nat (MaxRetries (retryPolicy c)) - attempt"
  using assms(1)
proof (induction "nat (MaxRetries (retryPolicy c) - int attempt)" arbitrary: attempt prev w)
  case 0
  then have top: "int attempt = MaxRetries (retryPolicy c)" by simp
  then have a: "nat (MaxRetries (retryPolicy c)) = attempt" by simp
  let ?out = "attempt_outcome pf req attempt w"
  from assms(2) have "\<not> succeeded ?out"
    unfolding attempt_outcome_eq by blast
  then show ?case
    using loop_break [of attempt c pf req w prev] top
    by (simp add: a attempt_outcome_eq)
next
  case (Suc n)
  let ?out = "attempt_outcome pf req attempt w"
  from Suc.hyps(2) have lt: "int attempt < MaxRetries (retryPolicy c)" by simp
  then have a: "attempt < nat (MaxRetries (retryPolicy c))" by simp
  from assms(2) have ns: "\<not> succeeded ?out"
    and sr: "ShouldRetry (statusCode_of ?out) (err_of ?out)"
    unfolding attempt_outcome_eq by blast+
  let ?w = "retry_world pf c req attempt w"
  have step: "doRequestWithRetry_loop pf c req attempt prev w =
      doRequestWithRetry_loop pf c req (attempt + 1) (resp_of ?out, err_of ?out) ?w"
    using loop_retry [OF lt ns sr] .
  have n: "n = nat (MaxRetries (retryPolicy c) - int (attempt + 1))"
    using Suc.hyps(2) by simp
  have le: "int (attempt + 1) \<le> MaxRetries (retryPolicy c)" using lt by simp
  show ?case
    unfolding step
    using Suc.hyps(1) [OF n le, of "(resp_of ?out, err_of ?out)" ?w] a
    by simp
qed

lemma all_retryable_exhausts:
  assumes "0 \<le> MaxRetries (retryPolicy c)"
    and "\<And>n r. \<not> succeeded (Do pf n r) \<and>
           ShouldRetry (statusCode_of (Do pf n r)) (err_of (Do pf n r))"
  shows "length (sent (snd (doRequestWithRetry pf c req w))) =
       length (sent w) + nat (MaxRetries (retryPolicy c)) + 1 \<and>
     length (slept (snd (doRequestWithRetry pf c req w))) =
       length (slept w) + nat (MaxRetries (retryPolicy c))"
proof -
  from assms(1) have le: "int 0 \<le> MaxRetries (retryPolicy c)" by simp
  from loop_all_retryable [OF le assms(2), of req "(None, None)" w]
  show ?thesis unfolding doRequestWithRetry_def by simp
qed

text \<open>A first attempt that succeeds is returned at once.\<close>

lemma first_attempt_success:
  assumes "0 \<le> MaxRetries (retryPolicy c)"
    and "Do pf (length (sent w)) req = Replied r"
    and "StatusCode r < 500" "StatusCode r \<noteq> 429"
  shows "doRequestWithRetry pf c req w = ((Some r, None), w\<lparr>sent := sent w @ [req]\<rparr>)"
proof -
  from assms have o: "attempt_outcome pf req 0 w = Replied r"
    by (simp add: attempt_outcome_eq reqClone_def)
  show ?thesis
    unfolding doRequestWithRetry_def
    using assms
    by (subst loop_success)
       (simp_all add: o succeeded_def attempt_world_def httpClient_Do_def reqClone_def)
qed

text \<open>A first answer of status 501 is returned at once, with its body closed.\<close>

lemma first_attempt_rejected:
  assumes "0 \<le> MaxRetries (retryPolicy c)"
    and "Do pf (length (sent w)) req = Replied r"
    and "StatusCode r = 501"
  shows "doRequestWithRetry pf c req w =
    ((Some r, None), w\<lparr>sent := sent w @ [req], closedBodies := closedBodies w @ [Body r]\<rparr>)"
proof -
  from assms have o: "attempt_outcome pf req 0 w = Replied r"
    by (simp add: attempt_outcome_eq reqClone_def)
  show ?thesis
    unfolding doRequestWithRetry_def
    using assms
    by (subst loop_break)
       (simp_all add: o succeeded_def statusCode_of_def ShouldRetry_def close_failed_def
          Body_Close_def attempt_world_def httpClient_Do_def reqClone_def)
qed

section \<open>Rounding to a \<open>float64\<close>\<close>

lemma round_half_even_of_int [simp]: "round_half_even (real_of_int z) = z"
  by (simp add: round_half_even_def)

text \<open>The rounding of a number whose binary exponent is known.\<close>

lemma float64_round_binade:
  assumes "2 powr real_of_int k \<le> \<bar>x\<bar>" "\<bar>x\<bar> < 2 powr real_of_int (k + 1)"
  shows "float64_round x =
    real_of_int (round_half_even (x / 2 powr real_of_int (k - 52))) * 2 powr real_of_int (k - 52)"
proof -
  have pos: "0 < \<bar>x\<bar>"
    using assms(1) by (smt (verit) powr_gt_zero)
  then have "\<lfloor>log 2 \<bar>x\<bar>\<rfloor> = k"
    using assms by (simp add: floor_log_eq_powr_iff)
  with pos show ?thesis
    by (simp add: float64_round_def Let_def)
qed

text \<open>A whole number of magnitude at most \<open>2 ^ 53\<close> is a \<open>float64\<close>.\<close>

lemma float64_round_of_int:
  assumes "\<bar>n\<bar> \<le> 2 ^ 53"
  shows "float64_round (real_of_int n) = real_of_int n"
proof (cases "n = 0")
  case True
  then show ?thesis by (simp add: float64_round_def)
next
  case False
  define x where "x = real_of_int n"
  define k where "k = \<lfloor>log 2 \<bar>x\<bar>\<rfloor>"
  have x1: "1 \<le> \<bar>x\<bar>" using False by (simp add: x_def)
  then have xpos: "0 < \<bar>x\<bar>" by linarith
  have bounds: "2 powr real_of_int k \<le> \<bar>x\<bar>" "\<bar>x\<bar> < 2 powr real_of_int (k + 1)"
    using floor_log_eq_powr_iff [of "\<bar>x\<bar>" 2 k] xpos by (simp_all add: k_def)
  have k0: "0 \<le> k"
    using x1 by (simp add: k_def)
  have xle: "\<bar>x\<bar> \<le> 2 ^ 53"
    using assms by (simp add: x_def)
  have k53: "k \<le> 53"
  proof (rule ccontr)
    assume "\<not> k \<le> 53"
    then have "54 \<le> k" by simp
    then have "(2::real) powr 54 \<le> 2 powr real_of_int k"
      by (intro powr_mono) simp_all
    with bounds(1) xle show False by simp
  qed
  have fr: "float64_round x =
      real_of_int (round_half_even (x / 2 powr real_of_int (k - 52))) * 2 powr real_of_int (k - 52)"
    using float64_round_binade [OF bounds] .
  show ?thesis
  proof (cases "k \<le> 52")
    case True
    define m where "m = nat (52 - k)"
    have "real_of_int (k - 52) = - real m"
      using True by (simp add: m_def)
    then have "2 powr real_of_int (k - 52) = 2 powr (- real m)"
      by (simp only:)
    also have "\<dots> = 1 / 2 ^ m"
      by (simp add: powr_minus powr_realpow inverse_eq_divide)
    finally have ulp: "2 powr real_of_int (k - 52) = 1 / 2 ^ m" .
    then have ulp': "2 powr (real_of_int k - 52) = 1 / 2 ^ m" by simp
    have "x / 2 powr real_of_int (k - 52) = real_of_int (n * 2 ^ m)"
      by (simp add: ulp' x_def)
    then have "round_half_even (x / 2 powr real_of_int (k - 52)) = n * 2 ^ m"
      by (simp only: round_half_even_of_int)
    then show ?thesis
      using fr by (simp add: ulp' x_def)
  next
    case False
    with k53 have k: "k = 53" by simp
    from bounds(1) have "2 ^ 53 \<le> \<bar>x\<bar>" by (simp add: k)
    with xle have ax: "\<bar>x\<bar> = 2 ^ 53" by simp
    then have "\<bar>n\<bar> = 2 ^ 53"
      by (simp add: x_def)
    then consider "n = 2 ^ 53" | "n = - (2 ^ 53)" by linarith
    then show ?thesis
    proof cases
      case 1
      have "x / 2 = real_of_int (2 ^ 52)" by (simp add: x_def 1)
      then have "round_half_even (x / 2) = 2 ^ 52" by (simp only: round_half_even_of_int)
      then show ?thesis using fr by (simp add: k x_def 1)
    next
      case 2
      have "x / 2 = real_of_int (- (2 ^ 52))" by (simp add: x_def 2)
      then have "round_half_even (x / 2) = - (2 ^ 52)" by (simp only: round_half_even_of_int)
      then show ?thesis using fr by (simp add: k x_def 2)
    qed
  qed
qed

lemma float64_round_numeral:
  "\<bar>numeral n :: int\<bar> \<le> 2 ^ 53 \<Longrightarrow> float64_round (numeral n) = numeral n"
  using float64_round_of_int [of "numeral n"] by simp

lemma float64_round_0 [simp]: "float64_round 0 = 0"
  by (simp add: float64_round_def)

lemma float64_round_1 [simp]: "float64_round 1 = 1"
  using float64_round_of_int [of 1] by simp

text \<open>
  Above \<open>2 ^ 53\<close> not every whole number is a \<open>float64\<close>: \<open>2 ^ 53 + 3\<close> rounds up to
  \<open>2 ^ 53 + 4\<close>, and the greatest \<open>int64\<close>, \<open>2 ^ 63 - 1\<close>, rounds up to \<open>2 ^ 63\<close>.
\<close>

lemma float64_round_above_2_53:
  "float64_round 9007199254740995 = 9007199254740996"
  using float64_round_binade [of 53 9007199254740995]
  by (simp add: round_half_even_def)

lemma float64_round_MaxInt64:
  "float64_round 9223372036854775807 = 9223372036854775808"
  using float64_round_binade [of 62 9223372036854775807]
  by (simp add: round_half_even_def)

text \<open>Rounding keeps the order and the sign.\<close>

lemma round_half_even_mono:
  assumes "a \<le> b"
  shows "round_half_even a \<le> round_half_even b"
proof (cases "\<lfloor>a\<rfloor> < \<lfloor>b\<rfloor>")
  case True
  have "round_half_even a \<le> \<lfloor>a\<rfloor> + 1"
    by (simp add: round_half_even_def Let_def)
  moreover have "\<lfloor>b\<rfloor> \<le> round_half_even b"
    by (simp add: round_half_even_def Let_def)
  ultimately show ?thesis using True by linarith
next
  case False
  with assms have eq: "\<lfloor>a\<rfloor> = \<lfloor>b\<rfloor>"
    by (meson floor_mono le_less)
  then show ?thesis
    using assms by (auto simp add: round_half_even_def Let_def)
qed

lemma float64_round_pos_bounds:
  assumes "2 powr real_of_int k \<le> x" "x < 2 powr real_of_int (k + 1)"
  shows "2 powr real_of_int k \<le> float64_round x" "float64_round x \<le> 2 powr real_of_int (k + 1)"
proof -
  define u where "u = (2::real) powr real_of_int (k - 52)"
  have upos: "0 < u" by (simp add: u_def)
  have xpos: "0 < x" using assms(1) by (smt (verit) powr_gt_zero)
  have fr: "float64_round x = real_of_int (round_half_even (x / u)) * u"
    using float64_round_binade [of k x] assms xpos by (simp add: u_def)
  have lo: "2 powr real_of_int k = real_of_int (2 ^ 52) * u"
    by (simp add: u_def powr_diff)
  have hi: "2 powr real_of_int (k + 1) = real_of_int (2 ^ 53) * u"
    by (simp add: u_def powr_diff powr_add)
  have "real_of_int (2 ^ 52) * u \<le> x"
    using assms(1) unfolding lo by linarith
  then have "real_of_int (2 ^ 52) \<le> x / u"
    using upos by (simp only: pos_le_divide_eq)
  then have "round_half_even (real_of_int (2 ^ 52)) \<le> round_half_even (x / u)"
    by (rule round_half_even_mono)
  then have "real_of_int (2 ^ 52) \<le> real_of_int (round_half_even (x / u))"
    by (simp only: round_half_even_of_int of_int_le_iff)
  then show "2 powr real_of_int k \<le> float64_round x"
    unfolding fr lo using upos by (simp only: mult_le_cancel_right_pos)
  have "x \<le> real_of_int (2 ^ 53) * u"
    using assms(2) unfolding hi by linarith
  then have "x / u \<le> real_of_int (2 ^ 53)"
    using upos by (simp only: pos_divide_le_eq)
  then have "round_half_even (x / u) \<le> round_half_even (real_of_int (2 ^ 53))"
    by (rule round_half_even_mono)
  then have "real_of_int (round_half_even (x / u)) \<le> real_of_int (2 ^ 53)"
    by (simp only: round_half_even_of_int of_int_le_iff)
  then show "float64_round x \<le> 2 powr real_of_int (k + 1)"
    unfolding fr hi using upos by (simp only: mult_le_cancel_right_pos)
qed

lemma float64_round_neg_bounds:
  assumes "2 powr real_of_int k \<le> - x" "- x < 2 powr real_of_int (k + 1)"
  shows "float64_round x \<le> - (2 powr real_of_int k)" "- (2 powr real_of_int (k + 1)) \<le> float64_round x"
proof -
  define u where "u = (2::real) powr real_of_int (k - 52)"
  have upos: "0 < u" by (simp add: u_def)
  have xneg: "x < 0" using assms(1) by (smt (verit) powr_gt_zero)
  have fr: "float64_round x = real_of_int (round_half_even (x / u)) * u"
    using float64_round_binade [of k x] assms xneg by (simp add: u_def)
  have lo: "2 powr real_of_int k = real_of_int (2 ^ 52) * u"
    by (simp add: u_def powr_diff)
  have hi: "2 powr real_of_int (k + 1) = real_of_int (2 ^ 53) * u"
    by (simp add: u_def powr_diff powr_add)
  define lo52 :: int where "lo52 = - (2 ^ 52)"
  define lo53 :: int where "lo53 = - (2 ^ 53)"
  have "x \<le> real_of_int lo52 * u"
    using assms(1) unfolding lo by (simp add: lo52_def)
  then have "x / u \<le> real_of_int lo52"
    using upos by (simp only: pos_divide_le_eq)
  then have "round_half_even (x / u) \<le> round_half_even (real_of_int lo52)"
    by (rule round_half_even_mono)
  then have "real_of_int (round_half_even (x / u)) \<le> real_of_int lo52"
    by (simp only: round_half_even_of_int of_int_le_iff)
  then have "real_of_int (round_half_even (x / u)) * u \<le> real_of_int lo52 * u"
    using upos by (simp only: mult_le_cancel_right_pos)
  then show "float64_round x \<le> - (2 powr real_of_int k)"
    unfolding fr lo by (simp add: lo52_def)
  have "real_of_int lo53 * u \<le> x"
    using assms(2) unfolding hi by (simp add: lo53_def)
  then have "real_of_int lo53 \<le> x / u"
    using upos by (simp only: pos_le_divide_eq)
  then have "round_half_even (real_of_int lo53) \<le> round_half_even (x / u)"
    by (rule round_half_even_mono)
  then have "real_of_int lo53 \<le> real_of_int (round_half_even (x / u))"
    by (simp only: round_half_even_of_int of_int_le_iff)
  then have "real_of_int lo53 * u \<le> real_of_int (round_half_even (x / u)) * u"
    using upos by (simp only: mult_le_cancel_right_pos)
  then show "- (2 powr real_of_int (k + 1)) \<le> float64_round x"
    unfolding fr hi by (simp add: lo53_def)
qed

lemma binade_exists:
  assumes "0 < x"
  shows "2 powr real_of_int \<lfloor>log 2 x\<rfloor> \<le> x \<and> x < 2 powr real_of_int (\<lfloor>log 2 x\<rfloor> + 1)"
  using floor_log_eq_powr_iff [of x 2 "\<lfloor>log 2 x\<rfloor>"] assms by simp

lemma float64_round_pos: "0 < x \<Longrightarrow> 0 < float64_round x"
  using float64_round_pos_bounds(1) [of "\<lfloor>log 2 x\<rfloor>" x] binade_exists [of x]
  by (smt (verit) powr_gt_zero)

lemma float64_round_neg: "x < 0 \<Longrightarrow> float64_round x < 0"
  using float64_round_neg_bounds(1) [of "\<lfloor>log 2 (- x)\<rfloor>" x] binade_exists [of "- x"]
  by (smt (verit) powr_gt_zero)

lemma float64_round_nonneg: "0 \<le> x \<Longrightarrow> 0 \<le> float64_round x"
  using float64_round_pos [of x] by (cases "x = 0") (simp_all add: float64_round_def)

lemma float64_round_mono:
  assumes "x \<le> y"
  shows "float64_round x \<le> float64_round y"
proof -
  consider "x = 0" | "y = 0" | "x < 0" "0 < y" | "0 < x" | "y < 0"
    using assms by linarith
  then show ?thesis
  proof cases
    case 1
    then show ?thesis using assms float64_round_nonneg [of y] by (simp add: float64_round_def)
  next
    case 2
    then have "x = 0 \<or> x < 0" using assms by linarith
    then show ?thesis using 2 float64_round_neg [of x] by (auto simp add: float64_round_def)
  next
    case 3
    then show ?thesis using float64_round_neg [of x] float64_round_pos [of y] by linarith
  next
    case 4
    then have ypos: "0 < y" using assms by linarith
    define kx where "kx = \<lfloor>log 2 x\<rfloor>"
    define ky where "ky = \<lfloor>log 2 y\<rfloor>"
    have bx: "2 powr real_of_int kx \<le> x" "x < 2 powr real_of_int (kx + 1)"
      using binade_exists [OF 4] by (simp_all add: kx_def)
    have by': "2 powr real_of_int ky \<le> y" "y < 2 powr real_of_int (ky + 1)"
      using binade_exists [OF ypos] by (simp_all add: ky_def)
    have kle: "kx \<le> ky"
      unfolding kx_def ky_def using assms 4 by (intro floor_mono) simp
    show ?thesis
    proof (cases "kx = ky")
      case True
      define u where "u = (2::real) powr real_of_int (kx - 52)"
      have upos: "0 < u" by (simp add: u_def)
      have fx: "float64_round x = real_of_int (round_half_even (x / u)) * u"
        using float64_round_binade [of kx x] bx 4 by (simp add: u_def)
      have fy: "float64_round y = real_of_int (round_half_even (y / u)) * u"
        using float64_round_binade [of ky y] by' ypos True by (simp add: u_def)
      have "x / u \<le> y / u" using assms upos by (simp add: divide_right_mono)
      then have "round_half_even (x / u) \<le> round_half_even (y / u)"
        by (rule round_half_even_mono)
      then show ?thesis unfolding fx fy using upos by simp
    next
      case False
      with kle have "kx + 1 \<le> ky" by simp
      then have "(2::real) powr real_of_int (kx + 1) \<le> 2 powr real_of_int ky"
        by (intro powr_mono) simp_all
      with float64_round_pos_bounds(2) [OF bx] float64_round_pos_bounds(1) [OF by']
      show ?thesis by linarith
    qed
  next
    case 5
    then have xneg: "x < 0" using assms by linarith
    define kx where "kx = \<lfloor>log 2 (- x)\<rfloor>"
    define ky where "ky = \<lfloor>log 2 (- y)\<rfloor>"
    have bx: "2 powr real_of_int kx \<le> - x" "- x < 2 powr real_of_int (kx + 1)"
      using binade_exists [of "- x"] xneg by (simp_all add: kx_def)
    have by': "2 powr real_of_int ky \<le> - y" "- y < 2 powr real_of_int (ky + 1)"
      using binade_exists [of "- y"] 5 by (simp_all add: ky_def)
    have kle: "ky \<le> kx"
      unfolding kx_def ky_def using assms 5 by (intro floor_mono) simp
    show ?thesis
    proof (cases "kx = ky")
      case True
      define u where "u = (2::real) powr real_of_int (kx - 52)"
      have upos: "0 < u" by (simp add: u_def)
      have fx: "float64_round x = real_of_int (round_half_even (x / u)) * u"
        using float64_round_binade [of kx x] bx xneg by (simp add: u_def)
      have fy: "float64_round y = real_of_int (round_half_even (y / u)) * u"
        using float64_round_binade [of ky y] by' 5 True by (simp add: u_def)
      have "x / u \<le> y / u" using assms upos by (simp add: divide_right_mono)
      then have "round_half_even (x / u) \<le> round_half_even (y / u)"
        by (rule round_half_even_mono)
      then show ?thesis unfolding fx fy using upos by simp
    next
      case False
      with kle have "ky + 1 \<le> kx" by simp
      then have "(2::real) powr real_of_int (ky + 1) \<le> 2 powr real_of_int kx"
        by (intro powr_mono) simp_all
      with float64_round_neg_bounds(1) [OF bx] float64_round_neg_bounds(2) [OF by']
      show ?thesis by linarith
    qed
  qed
qed

text \<open>Two products that are \<open>float64\<close> numbers.\<close>

lemma float64_round_products:
  "float64_round 14745600000000000 = 14745600000000000"
  "float64_round 17179869184000000000 = 17179869184000000000"
  using float64_round_binade [of 53 14745600000000000]
    float64_round_binade [of 63 17179869184000000000]
  by (simp_all add: round_half_even_def)

section \<open>The range of a \<open>float64\<close>\<close>

lemma round_half_even_minus: "round_half_even (- x) = - round_half_even x"
proof (cases "x \<in> \<int>")
  case True
  then obtain z where "x = real_of_int z" by (auto elim: Ints_cases)
  then show ?thesis
    using round_half_even_of_int [of "- z"] by simp
next
  case False
  then have "x \<noteq> real_of_int \<lfloor>x\<rfloor>"
    by (metis Ints_of_int)
  then have c: "\<lceil>x\<rceil> = \<lfloor>x\<rfloor> + 1"
    by (simp add: ceiling_altdef)
  have f: "\<lfloor>- x\<rfloor> = - \<lfloor>x\<rfloor> - 1"
    using c by (simp add: ceiling_def)
  show ?thesis
    unfolding round_half_even_def Let_def f
    by (auto simp add: algebra_simps)
qed

lemma float64_round_minus: "float64_round (- x) = - float64_round x"
  by (simp add: float64_round_def Let_def round_half_even_minus)

lemma float64_round_power2: "float64_round (2 ^ n) = 2 ^ n"
proof -
  have p: "(2::real) ^ n = 2 powr real_of_int (int n)"
    by (simp add: powr_realpow)
  have b: "2 powr real_of_int (int n) \<le> \<bar>(2::real) ^ n\<bar>"
    "\<bar>(2::real) ^ n\<bar> < 2 powr real_of_int (int n + 1)"
    by (simp_all add: p)
  have q: "(2::real) ^ n / 2 powr real_of_int (int n - 52) = real_of_int (2 ^ 52)"
    by (simp add: p powr_diff)
  show ?thesis
    using float64_round_binade [OF b]
    unfolding q round_half_even_of_int
    by (simp add: p powr_diff)
qed

lemma float64_round_abs_le:
  assumes "\<bar>x\<bar> \<le> 2 ^ n"
  shows "\<bar>float64_round x\<bar> \<le> 2 ^ n"
proof -
  have "float64_round x \<le> float64_round (2 ^ n)"
    using assms by (intro float64_round_mono) simp
  moreover have "float64_round (- (2 ^ n)) \<le> float64_round x"
    using assms by (intro float64_round_mono) simp
  ultimately show ?thesis
    by (simp add: float64_round_power2 float64_round_minus abs_le_iff)
qed

lemma round_half_even_0 [simp]: "round_half_even 0 = 0"
  using round_half_even_of_int [of 0] by simp

lemma float64_of_real_0 [simp]: "float64_of_real 0 = Finite 0"
  by (simp add: float64_of_real_def)

lemma float64_of_real_normal:
  assumes "1 / 2 ^ 1022 \<le> \<bar>x\<bar>" "\<bar>x\<bar> \<le> 2 ^ 1023"
  shows "float64_of_real x = Finite (float64_round x)"
proof -
  have "\<bar>float64_round x\<bar> \<le> 2 ^ 1023"
    using assms(2) by (rule float64_round_abs_le)
  moreover have "(2::real) ^ 1023 < 2 ^ 1024"
    by (rule power_strict_increasing) simp_all
  ultimately have "\<not> 2 ^ 1024 \<le> \<bar>float64_round x\<bar>" by linarith
  then show ?thesis
    using assms(1) by (simp only: float64_of_real_def) simp
qed

lemma float64_of_real_middle:
  assumes "1 / 2 ^ 64 \<le> \<bar>x\<bar>" "\<bar>x\<bar> \<le> 2 ^ 64"
  shows "float64_of_real x = Finite (float64_round x)"
proof (rule float64_of_real_normal)
  have "(2::real) ^ 64 \<le> 2 ^ 1022"
    by (rule power_increasing) simp_all
  then have "1 / (2::real) ^ 1022 \<le> 1 / 2 ^ 64"
    by (intro divide_left_mono) simp_all
  with assms(1) show "1 / 2 ^ 1022 \<le> \<bar>x\<bar>" by linarith
  have "(2::real) ^ 64 \<le> 2 ^ 1023"
    by (rule power_increasing) simp_all
  with assms(2) show "\<bar>x\<bar> \<le> 2 ^ 1023" by linarith
qed

lemma float64_of_int_exact:
  assumes "\<bar>n\<bar> \<le> 2 ^ 53"
  shows "float64_of_int n = Finite (real_of_int n)"
proof (cases "n = 0")
  case True
  then show ?thesis by (simp add: float64_of_int_def)
next
  case False
  then have "1 \<le> \<bar>real_of_int n\<bar>" by simp
  then have lo: "1 / 2 ^ 64 \<le> \<bar>real_of_int n\<bar>"
    by (smt (verit) divide_le_eq_1_pos zero_less_power one_le_power)
  have "\<bar>real_of_int n\<bar> \<le> 2 ^ 53"
    using assms by (metis of_int_abs of_int_le_iff of_int_numeral of_int_power)
  moreover have "(2::real) ^ 53 \<le> 2 ^ 64" by simp
  ultimately have hi: "\<bar>real_of_int n\<bar> \<le> 2 ^ 64" by linarith
  show ?thesis
    unfolding float64_of_int_def float64_of_real_middle [OF lo hi]
    using float64_round_of_int [OF assms] by simp
qed

lemma float64_of_int_int64:
  assumes "\<bar>n\<bar> \<le> 2 ^ 63"
  shows "float64_of_int n = Finite (float64_round (real_of_int n))"
proof (cases "n = 0")
  case True
  then show ?thesis by (simp add: float64_of_int_def)
next
  case False
  then have "1 \<le> \<bar>real_of_int n\<bar>" by simp
  then have lo: "1 / 2 ^ 64 \<le> \<bar>real_of_int n\<bar>"
    by (smt (verit) divide_le_eq_1_pos zero_less_power one_le_power)
  have "\<bar>real_of_int n\<bar> \<le> 2 ^ 63"
    using assms by (metis of_int_abs of_int_le_iff of_int_numeral of_int_power)
  moreover have "(2::real) ^ 63 \<le> 2 ^ 64" by simp
  ultimately have hi: "\<bar>real_of_int n\<bar> \<le> 2 ^ 64" by linarith
  show ?thesis
    unfolding float64_of_int_def float64_of_real_middle [OF lo hi] ..
qed

lemma float64_round_powr2:
  "float64_round (2 powr real_of_int k) = 2 powr real_of_int k"
proof -
  have b: "2 powr real_of_int k \<le> \<bar>2 powr real_of_int k\<bar>"
    "\<bar>2 powr real_of_int k\<bar> < 2 powr real_of_int (k + 1)"
    by simp_all
  have q: "2 powr real_of_int k / 2 powr real_of_int (k - 52) = real_of_int (2 ^ 52)"
    by (simp add: powr_diff)
  show ?thesis
    using float64_round_binade [OF b]
    unfolding q round_half_even_of_int
    by (simp add: powr_diff)
qed

lemma float64_round_inverse_power2: "float64_round (1 / 2 ^ n) = 1 / 2 ^ n"
proof -
  have "1 / (2::real) ^ n = 2 powr real_of_int (- int n)"
    by (simp add: powr_minus powr_realpow divide_inverse)
  then show ?thesis
    using float64_round_powr2 [of "- int n"] by simp
qed

text \<open>The conversion keeps the order.\<close>

lemma float64_of_real_mono:
  assumes "x \<le> y"
  shows "float64_le (float64_of_real x) (float64_of_real y)"
proof -
  define m where "m = 1 / (2::real) ^ 1022"
  define K where "K = (2::real) ^ 1074"
  define H where "H = (2::real) ^ 1024"
  define S where "S z = real_of_int (round_half_even (z * K)) / K" for z
  define P :: int where "P = 2 ^ 52"
  have mpos: "0 < m" by (simp add: m_def)
  have Kpos: "0 < K" by (simp add: K_def)
  have "(2::real) ^ 1074 = 2 ^ 1022 * 2 ^ 52"
    by (simp only: power_add [symmetric]) simp
  then have "m * K = 2 ^ 52"
    by (simp only: m_def K_def) simp
  then have mK: "m * K = real_of_int P"
    by (simp add: P_def)
  have unfold: "float64_of_real z =
      (if \<bar>z\<bar> < m then Finite (S z)
       else if H \<le> \<bar>float64_round z\<bar> then (if 0 < z then PosInf else NegInf)
       else Finite (float64_round z))" for z
    by (simp only: float64_of_real_def m_def K_def H_def S_def)
  have S_mono: "S a \<le> S b" if "a \<le> b" for a b
  proof -
    from that Kpos have "a * K \<le> b * K" by simp
    then have "round_half_even (a * K) \<le> round_half_even (b * K)"
      by (rule round_half_even_mono)
    then show ?thesis
      using Kpos by (simp add: S_def divide_right_mono)
  qed
  have S_m: "S m = m"
    using Kpos by (simp add: S_def mK) (simp add: mK [symmetric])
  have S_mm: "S (- m) = - m"
    using Kpos by (simp add: S_def mK round_half_even_minus) (simp add: mK [symmetric])
  have S_bound: "- m \<le> S z \<and> S z \<le> m" if "\<bar>z\<bar> < m" for z
    using S_mono [of z m] S_mono [of "- m" z] that by (simp add: S_m S_mm)
  have rm: "float64_round m = m"
    unfolding m_def by (rule float64_round_inverse_power2)
  have up: "m \<le> float64_round z" if "m \<le> z" for z
    using float64_round_mono [OF that] by (simp add: rm)
  have down: "float64_round z \<le> - m" if "z \<le> - m" for z
    using float64_round_mono [OF that] by (simp add: rm float64_round_minus)
  consider (A) "\<bar>x\<bar> < m" "\<bar>y\<bar> < m" | (B) "\<bar>x\<bar> < m" "m \<le> y"
    | (C) "x \<le> - m" "\<bar>y\<bar> < m" | (D) "m \<le> \<bar>x\<bar>" "m \<le> \<bar>y\<bar>"
    using assms by linarith
  then show ?thesis
  proof cases
    case A
    then show ?thesis using S_mono [OF assms] by (simp add: unfold)
  next
    case B
    have "S x \<le> float64_round y"
      using S_bound [OF B(1)] up [OF B(2)] by linarith
    moreover have "\<not> \<bar>y\<bar> < m" "0 < y" using B(2) mpos by linarith+
    ultimately show ?thesis using B(1) by (simp add: unfold)
  next
    case C
    have "float64_round x \<le> S y"
      using S_bound [OF C(2)] down [OF C(1)] by linarith
    moreover have "\<not> \<bar>x\<bar> < m" "\<not> 0 < x" using C(1) mpos by linarith+
    ultimately show ?thesis using C(2) by (simp add: unfold)
  next
    case D
    have le: "float64_round x \<le> float64_round y"
      using assms by (rule float64_round_mono)
    have sx: "0 < float64_round x" if "0 < x" using that by (rule float64_round_pos)
    have sy: "float64_round y < 0" if "\<not> 0 < y"
    proof -
      from that D(2) mpos have "y < 0" by linarith
      then show ?thesis by (rule float64_round_neg)
    qed
    have Hpos: "0 < H" by (simp add: H_def)
    from D have n: "\<not> \<bar>x\<bar> < m" "\<not> \<bar>y\<bar> < m" by linarith+
    show ?thesis
      unfolding unfold
      using n le sx sy assms Hpos by (auto simp add: abs_if split: if_splits)
  qed
qed

lemma float64_of_real_nonneg: "0 \<le> x \<Longrightarrow> float64_le (Finite 0) (float64_of_real x)"
  using float64_of_real_mono [of 0 x] by simp

text \<open>Whole numbers and products that are \<open>float64\<close> numbers.\<close>

lemma float64_of_real_numeral:
  "\<bar>numeral n :: int\<bar> \<le> 2 ^ 53 \<Longrightarrow> float64_of_real (numeral n) = Finite (numeral n)"
  using float64_of_int_exact [of "numeral n"] by (simp add: float64_of_int_def)

lemma float64_of_real_1 [simp]: "float64_of_real 1 = Finite 1"
  using float64_of_int_exact [of 1] by (simp add: float64_of_int_def)

lemma float64_of_real_large:
  "float64_of_real 9007199254740995 = Finite 9007199254740996"
  "float64_of_real 9223372036854775807 = Finite 9223372036854775808"
  "float64_of_real 14745600000000000 = Finite 14745600000000000"
  "float64_of_real 17179869184000000000 = Finite 17179869184000000000"
  by (simp_all add: float64_of_real_middle float64_round_above_2_53 float64_round_MaxInt64
      float64_round_products)

lemma rounded_power_2:
  "rounded_power (Finite 2) (Finite 0) = Finite 1"
  "rounded_power (Finite 2) (Finite 1) = Finite 2"
  "rounded_power (Finite 2) (Finite 2) = Finite 4"
  "rounded_power (Finite 2) (Finite 12) = Finite 4096"
  "rounded_power (Finite 2) (Finite 34) = Finite 17179869184"
  by (simp_all add: rounded_power_def float64_of_real_numeral)

text \<open>
  The constant \<open>0.2\<close> as a \<open>float64\<close>, and the values on the way from a random draw of
  one half to a backoff under the default policy.
\<close>

lemma float64_round_fifth:
  "float64_round (2 / 10) = 3602879701896397 / 18014398509481984"
  using float64_round_binade [of "- 3" "2 / 10"]
  by (simp add: round_half_even_def powr_neg_numeral)

lemma float64_round_jitter:
  "float64_round (1 / 2 * (3602879701896397 / 18014398509481984)) =
     3602879701896397 / 36028797018963968"
  "float64_round (1 + 3602879701896397 / 36028797018963968) = 4953959590107546 / 4503599627370496"
  "float64_round (100000000 * (4953959590107546 / 4503599627370496)) = 7381975040000001 / 67108864"
  using float64_round_binade [of "- 4" "1 / 2 * (3602879701896397 / 18014398509481984)"]
    float64_round_binade [of 0 "1 + 3602879701896397 / 36028797018963968"]
    float64_round_binade [of 26 "100000000 * (4953959590107546 / 4503599627370496)"]
  by (simp_all add: round_half_even_def powr_neg_numeral)

lemma float64_of_real_eq:
  assumes "float64_round x = y" "1 / 2 ^ 64 \<le> \<bar>x\<bar>" "\<bar>x\<bar> \<le> 2 ^ 64"
  shows "float64_of_real x = Finite y"
  using float64_of_real_middle [OF assms(2,3)] assms(1) by simp

lemma float64_of_real_fifth:
  "float64_of_real (2 / 10) = Finite (3602879701896397 / 18014398509481984)"
  by (rule float64_of_real_eq [OF float64_round_fifth]) simp_all

lemma float64_of_real_jitter:
  "float64_of_real (1 / 2 * (3602879701896397 / 18014398509481984)) =
     Finite (3602879701896397 / 36028797018963968)"
  "float64_of_real (1 + 3602879701896397 / 36028797018963968) =
     Finite (4953959590107546 / 4503599627370496)"
  "float64_of_real (100000000 * (4953959590107546 / 4503599627370496)) =
     Finite (7381975040000001 / 67108864)"
proof -
  show "float64_of_real (1 / 2 * (3602879701896397 / 18014398509481984)) =
     Finite (3602879701896397 / 36028797018963968)"
    by (rule float64_of_real_eq [OF float64_round_jitter(1)]) simp_all
  show "float64_of_real (1 + 3602879701896397 / 36028797018963968) =
     Finite (4953959590107546 / 4503599627370496)"
    by (rule float64_of_real_eq [OF float64_round_jitter(2)]) simp_all
  show "float64_of_real (100000000 * (4953959590107546 / 4503599627370496)) =
     Finite (7381975040000001 / 67108864)"
    by (rule float64_of_real_eq [OF float64_round_jitter(3)]) simp_all
qed

lemma DefaultRetryPolicy_floats:
  "BackoffFactor DefaultRetryPolicy = Finite 2"
  "Jitter DefaultRetryPolicy = Finite (3602879701896397 / 18014398509481984)"
proof -
  have "float64_of_real 2 = Finite 2"
    using float64_of_real_numeral [of "Num.Bit0 Num.One"] by simp
  then show "BackoffFactor DefaultRetryPolicy = Finite 2"
    by (simp only: DefaultRetryPolicy_def RetryPolicy.simps)
  show "Jitter DefaultRetryPolicy = Finite (3602879701896397 / 18014398509481984)"
    by (simp only: DefaultRetryPolicy_def RetryPolicy.simps float64_of_real_fifth)
qed

text \<open>
  The ends of the range: \<open>2 ^ 1023\<close> is a \<open>float64\<close> and \<open>2 ^ 1024\<close> is an infinity; the
  least positive \<open>float64\<close> is \<open>2 ^ - 1074\<close>, and half of it rounds to zero.
\<close>

lemma float64_of_real_range:
  "float64_of_real (2 ^ 1023) = Finite (2 ^ 1023)"
  "float64_of_real (2 ^ 1024) = PosInf"
  "float64_of_real (- (2 ^ 1024)) = NegInf"
  "float64_of_real (1 / 2 ^ 1074) = Finite (1 / 2 ^ 1074)"
  "float64_of_real (1 / 2 ^ 1075) = Finite 0"
proof -
  show "float64_of_real (2 ^ 1023) = Finite (2 ^ 1023)"
    using float64_round_power2 [of 1023] float64_of_real_normal [of "2 ^ 1023"] by simp
  show "float64_of_real (2 ^ 1024) = PosInf"
    using float64_round_power2 [of 1024] by (simp add: float64_of_real_def)
  show "float64_of_real (- (2 ^ 1024)) = NegInf"
    using float64_round_power2 [of 1024] float64_round_minus [of "2 ^ 1024"]
    by (simp add: float64_of_real_def)
  show "float64_of_real (1 / 2 ^ 1074) = Finite (1 / 2 ^ 1074)"
    by (simp add: float64_of_real_def round_half_even_def)
  show "float64_of_real (1 / 2 ^ 1075) = Finite 0"
    by (simp add: float64_of_real_def round_half_even_def)
qed

lemma float64_less_NaN [simp]: "\<not> float64_less a NaN"
  by (cases a) simp_all

section \<open>Scenario A\<close>

lemma backoff_A:
  assumes "retryPolicy c = policy_A" "attempt < 3"
    and "Pow pf (Finite 2) (Finite 0) = Finite 1" "Pow pf (Finite 2) (Finite 1) = Finite 2"
      "Pow pf (Finite 2) (Finite 2) = Finite 4"
  shows "calculateBackoff pf c attempt w = (100 * Millisecond * 2 ^ attempt, w)"
proof -
  from assms(2) consider "attempt = 0" | "attempt = 1" | "attempt = 2" by linarith
  then show ?thesis
    by cases (simp_all add: calculateBackoff_def assms(1,3,4,5) policy_A_def
        float64_of_int_exact float64_of_real_numeral Duration_of_float64_def Millisecond_def
        Second_def Let_def)
qed

text \<open>
  C2. Under the policy of scenario A, when the transport answers the first three attempts
  with status 503 and the fourth with status 200, \<open>doRequestWithRetry\<close> returns the fourth
  response and no error; it has sent four requests, closed the three failed bodies, and
  slept exactly three times: 100ms, 200ms and 400ms, in that order. Of \<open>math.Pow\<close> the
  proof uses that it gives 1, 2 and 4 for the powers 0, 1 and 2 of 2.
\<close>

theorem scenario_A:
  assumes pol: "retryPolicy c = policy_A"
    and n: "n = length (sent w)"
    and r0: "Do pf n (reqClone req 0) = Replied r0" "StatusCode r0 = 503"
    and r1: "Do pf (n + 1) (reqClone req 1) = Replied r1" "StatusCode r1 = 503"
    and r2: "Do pf (n + 2) (reqClone req 2) = Replied r2" "StatusCode r2 = 503"
    and r3: "Do pf (n + 3) (reqClone req 3) = Replied r3" "StatusCode r3 = 200"
    and pow: "Pow pf (Finite 2) (Finite 0) = Finite 1" "Pow pf (Finite 2) (Finite 1) = Finite 2"
      "Pow pf (Finite 2) (Finite 2) = Finite 4"
  shows "doRequestWithRetry pf c req w =
    ((Some r3, None),
     w\<lparr>sent := sent w @ [reqClone req 0, reqClone req 1, reqClone req 2, reqClone req 3],
       closedBodies := closedBodies w @ [Body r0, Body r1, Body r2],
       slept := slept w @ [100 * Millisecond, 200 * Millisecond, 400 * Millisecond]\<rparr>)"
proof -
  have mr: "MaxRetries (retryPolicy c) = 3" by (simp add: pol policy_A_def)
  have sr: "ShouldRetry 503 None" by (simp add: ShouldRetry_def)
  define w1 where "w1 = w\<lparr>sent := sent w @ [reqClone req 0],
       closedBodies := closedBodies w @ [Body r0],
       slept := slept w @ [100 * Millisecond]\<rparr>"
  define w2 where "w2 = w\<lparr>sent := sent w @ [reqClone req 0, reqClone req 1],
       closedBodies := closedBodies w @ [Body r0, Body r1],
       slept := slept w @ [100 * Millisecond, 200 * Millisecond]\<rparr>"
  define w3 where "w3 = w\<lparr>sent := sent w @ [reqClone req 0, reqClone req 1, reqClone req 2],
       closedBodies := closedBodies w @ [Body r0, Body r1, Body r2],
       slept := slept w @ [100 * Millisecond, 200 * Millisecond, 400 * Millisecond]\<rparr>"
  note defs = succeeded_def statusCode_of_def close_failed_def attempt_outcome_def
    attempt_world_def retry_world_def httpClient_Do_def backoff_A [OF pol _ pow] Body_Close_def
    Sleep_def Let_def Millisecond_def numeral_2_eq_2 numeral_3_eq_3
  have s0: "doRequestWithRetry_loop pf c req 0 (None, None) w =
            doRequestWithRetry_loop pf c req 1 (Some r0, None) w1"
    using r0 sr by (subst loop_retry) (simp_all add: mr n [symmetric] w1_def defs)
  have s1: "doRequestWithRetry_loop pf c req 1 (Some r0, None) w1 =
            doRequestWithRetry_loop pf c req 2 (Some r1, None) w2"
    using r1 sr by (subst loop_retry) (simp_all add: mr n [symmetric] w1_def w2_def defs)
  have s2: "doRequestWithRetry_loop pf c req 2 (Some r1, None) w2 =
            doRequestWithRetry_loop pf c req 3 (Some r2, None) w3"
    using r2 sr by (subst loop_retry) (simp_all add: mr n [symmetric] w2_def w3_def defs)
  have s3: "doRequestWithRetry_loop pf c req 3 (Some r2, None) w3 =
    ((Some r3, None),
     w\<lparr>sent := sent w @ [reqClone req 0, reqClone req 1, reqClone req 2, reqClone req 3],
       closedBodies := closedBodies w @ [Body r0, Body r1, Body r2],
       slept := slept w @ [100 * Millisecond, 200 * Millisecond, 400 * Millisecond]\<rparr>)"
    using r3 by (subst loop_success) (simp_all add: mr n [symmetric] w3_def defs)
  show ?thesis
    unfolding doRequestWithRetry_def using s0 s1 s2 s3
    by (simp add: numeral_2_eq_2 numeral_3_eq_3)
qed

theorem scenario_A_witness:
  "doRequestWithRetry (status_platform (\<lambda>n. if n < 3 then 503 else 200))
     (NewClient ''https://api.example.com'' ''key'' [WithRetryPolicy policy_A])
     example_request fresh_world =
   ((Some \<lparr>StatusCode = 200, Body = 3\<rparr>, None),
    fresh_world\<lparr>
      sent := sent fresh_world @
        [reqClone example_request 0, reqClone example_request 1, reqClone example_request 2,
         reqClone example_request 3],
      closedBodies := closedBodies fresh_world @ [0, 1, 2],
      slept := slept fresh_world @ [100 * Millisecond, 200 * Millisecond, 400 * Millisecond]\<rparr>)"
  using scenario_A [of "NewClient ''https://api.example.com'' ''key'' [WithRetryPolicy policy_A]"
      0 fresh_world "status_platform (\<lambda>n. if n < 3 then 503 else 200)" example_request
      "\<lparr>StatusCode = 503, Body = 0\<rparr>" "\<lparr>StatusCode = 503, Body = 1\<rparr>"
      "\<lparr>StatusCode = 503, Body = 2\<rparr>" "\<lparr>StatusCode = 200, Body = 3\<rparr>"]
  by (simp add: NewClient_def WithRetryPolicy_def fresh_world_def status_platform_def
      example_platform_def rounded_power_2)

section \<open>The body of the response that is returned\<close>

text \<open>
  C3 (the code at a failing input). With the default policy and a first answer of status
  501, and with \<open>MaxRetries = 0\<close> and a first answer of status 503, \<open>doRequestWithRetry\<close>
  returns the response of that attempt after it has closed the body of this very
  response: body 0 is returned and body 0 is in the list of closed bodies.
\<close>

theorem closed_body_returned:
  "doRequestWithRetry (status_platform (\<lambda>n. 501))
     (NewClient ''https://api.example.com'' ''key'' []) example_request fresh_world =
   ((Some \<lparr>StatusCode = 501, Body = 0\<rparr>, None),
    fresh_world\<lparr>sent := [example_request], closedBodies := [0]\<rparr>) \<and>
   doRequestWithRetry (status_platform (\<lambda>n. 503))
     (NewClient ''https://api.example.com'' ''key'' [WithMaxRetries 0])
     example_request fresh_world =
   ((Some \<lparr>StatusCode = 503, Body = 0\<rparr>, None),
    fresh_world\<lparr>sent := [example_request], closedBodies := [0]\<rparr>)"
proof -
  have a: "MaxRetries (retryPolicy (NewClient ''https://api.example.com'' ''key'' [])) = 3"
    by (simp add: NewClient_def DefaultRetryPolicy_def)
  have b: "MaxRetries (retryPolicy
             (NewClient ''https://api.example.com'' ''key'' [WithMaxRetries 0])) = 0"
    by (simp add: NewClient_def DefaultRetryPolicy_def WithMaxRetries_def)
  have o: "attempt_outcome (status_platform (\<lambda>n. s)) example_request 0 fresh_world =
           Replied \<lparr>StatusCode = s, Body = 0\<rparr>" for s
    by (simp add: attempt_outcome_eq status_platform_def example_platform_def fresh_world_def)
  have w: "close_failed (Replied \<lparr>StatusCode = s, Body = 0\<rparr>)
             (attempt_world (status_platform (\<lambda>n. s)) example_request 0 fresh_world) =
           fresh_world\<lparr>sent := [example_request], closedBodies := [0]\<rparr>" for s
    by (simp add: close_failed_def Body_Close_def attempt_world_def httpClient_Do_def
        fresh_world_def reqClone_def)
  show ?thesis
    unfolding doRequestWithRetry_def
    by (rule conjI; subst loop_break)
       (simp_all add: a b o w succeeded_def statusCode_of_def ShouldRetry_def)
qed

text \<open>
  What holds of the bodies: a response that the executor returns as a success has a body
  that this call has not closed, provided the transport gives each response a body of
  its own.
\<close>

lemma loop_closed_bodies:
  assumes "int attempt \<le> MaxRetries (retryPolicy c)"
  shows "set (closedBodies (snd (doRequestWithRetry_loop pf c req attempt prev w))) \<subseteq>
     set (closedBodies w) \<union>
     {b. \<exists>k r. resp_of (Do pf (length (sent w) + k) (reqClone req (attempt + k))) = Some r \<and>
          Body r = b \<and> \<not> succeeded (Do pf (length (sent w) + k) (reqClone req (attempt + k)))}"
  using assms
proof (induction "nat (MaxRetries (retryPolicy c) - int attempt)" arbitrary: attempt prev w)
  case 0
  then have top: "int attempt = MaxRetries (retryPolicy c)" by simp
  let ?out = "attempt_outcome pf req attempt w"
  show ?case
  proof (cases "succeeded ?out")
    case True
    then show ?thesis
      using loop_success [of attempt c pf req w prev] top by simp
  next
    case False
    have "\<exists>k r. resp_of (Do pf (length (sent w) + k) (reqClone req (attempt + k))) = Some r \<and>
          Body r = Body x \<and> \<not> succeeded (Do pf (length (sent w) + k) (reqClone req (attempt + k)))"
      if "resp_of ?out = Some x" for x
      using that False by (intro exI [of _ 0]) (simp add: attempt_outcome_eq)
    then show ?thesis
      using loop_break [of attempt c pf req w prev] top False
      by (auto simp add: close_failed_def Body_Close_def split: option.splits)
  qed
next
  case (Suc n)
  let ?out = "attempt_outcome pf req attempt w"
  from Suc.hyps(2) have lt: "int attempt < MaxRetries (retryPolicy c)" by simp
  have here: "\<exists>k r. resp_of (Do pf (length (sent w) + k) (reqClone req (attempt + k))) = Some r \<and>
          Body r = Body x \<and> \<not> succeeded (Do pf (length (sent w) + k) (reqClone req (attempt + k)))"
    if "resp_of ?out = Some x" "\<not> succeeded ?out" for x
    using that by (intro exI [of _ 0]) (simp add: attempt_outcome_eq)
  show ?case
  proof (cases "succeeded ?out")
    case True
    then show ?thesis
      using loop_success [of attempt c pf req w prev] lt by simp
  next
    case False
    show ?thesis
    proof (cases "ShouldRetry (statusCode_of ?out) (err_of ?out)")
      case no: False
      with False show ?thesis
        using loop_break [of attempt c pf req w prev] lt here
        by (auto simp add: close_failed_def Body_Close_def split: option.splits)
    next
      case True
      let ?w = "retry_world pf c req attempt w"
      have step: "doRequestWithRetry_loop pf c req attempt prev w =
        doRequestWithRetry_loop pf c req (attempt + 1) (resp_of ?out, err_of ?out) ?w"
        using loop_retry [OF lt False True] .
      have n: "n = nat (MaxRetries (retryPolicy c) - int (attempt + 1))"
        using Suc.hyps(2) by simp
      have le: "int (attempt + 1) \<le> MaxRetries (retryPolicy c)" using lt by simp
      have cw: "set (closedBodies ?w) \<subseteq> set (closedBodies w) \<union>
        {b. \<exists>k r. resp_of (Do pf (length (sent w) + k) (reqClone req (attempt + k))) = Some r \<and>
          Body r = b \<and> \<not> succeeded (Do pf (length (sent w) + k) (reqClone req (attempt + k)))}"
        using here False
        by (auto simp add: retry_world_def Sleep_def Let_def
            close_failed_def Body_Close_def split: option.splits)
      have shift: "\<exists>k r. resp_of (Do pf (length (sent w) + k) (reqClone req (attempt + k))) = Some r \<and>
          Body r = b \<and> \<not> succeeded (Do pf (length (sent w) + k) (reqClone req (attempt + k)))"
        if "resp_of (Do pf (length (sent ?w) + k) (reqClone req (attempt + 1 + k))) = Some r"
          "Body r = b"
          "\<not> succeeded (Do pf (length (sent ?w) + k) (reqClone req (attempt + 1 + k)))" for k r b
        using that by (intro exI [of _ "Suc k"]) simp
      show ?thesis
        unfolding step
        using Suc.hyps(1) [OF n le, of "(resp_of ?out, err_of ?out)" ?w] cw shift
        by blast
    qed
  qed
qed

section \<open>The backoff and its formula\<close>

text \<open>
  The number of random draws: \<open>calculateBackoff\<close> draws once when the jitter of the
  policy is positive, and not at all otherwise. The jitter \<open>r\<close> it then uses, the product
  of the draw and the policy's jitter, lies between 0 and that jitter, for a draw between
  0 and 1 and a finite jitter that is a \<open>float64\<close>.
\<close>

lemma calculateBackoff_draws:
  "snd (calculateBackoff pf c i w) =
     (if float64_less (Finite 0) (Jitter (retryPolicy c)) then w\<lparr>draws := draws w + 1\<rparr>
      else w)"
  by (simp add: calculateBackoff_def Let_def)

lemma jitter_in_range:
  assumes "0 \<le> u" "u \<le> 1" "0 < j" "float64_of_real j = Finite j"
  shows "float64_le (Finite 0) (float64_mul (Finite u) (Finite j)) \<and>
    float64_le (float64_mul (Finite u) (Finite j)) (Finite j)"
proof -
  have "0 \<le> u * j" using assms by simp
  moreover have "u * j \<le> j" using assms by (simp add: mult_left_le_one_le)
  ultimately show ?thesis
    using float64_of_real_mono [of "u * j" j] float64_of_real_nonneg [of "u * j"] assms(4)
    by simp
qed

text \<open>The steps of \<open>calculateBackoff\<close> when the jitter is positive and the cap is not reached.\<close>

lemma calculateBackoff_steps:
  assumes "float64_mul (float64_of_int (InitialBackoff (retryPolicy c)))
      (Pow pf (BackoffFactor (retryPolicy c)) (float64_of_int (int i))) = b0"
    and "float64_less (Finite 0) (Jitter (retryPolicy c))"
    and "float64_mul (Finite (Float64 pf (draws w))) (Jitter (retryPolicy c)) = j"
    and "float64_add (Finite 1) j = s"
    and "float64_mul b0 s = b1"
    and "\<not> float64_less (float64_of_int (MaxBackoff (retryPolicy c))) b1"
    and "Duration_of_float64 pf b1 = d"
  shows "fst (calculateBackoff pf c i w) = d"
  using assms by (simp add: calculateBackoff_def Let_def)

lemma backoff_default_half:
  "fst (calculateBackoff ((status_platform (\<lambda>n. 503))\<lparr>Float64 := \<lambda>n. 1 / 2\<rparr>)
     example_client 0 fresh_world) = 110 * Millisecond"
proof (rule calculateBackoff_steps)
  let ?pf = "(status_platform (\<lambda>n. 503))\<lparr>Float64 := \<lambda>n. 1 / 2\<rparr>"
  have p: "Pow ?pf = rounded_power" "Float64 ?pf n = 1 / 2" for n
    by (simp_all add: status_platform_def example_platform_def)
  have pol: "retryPolicy example_client = DefaultRetryPolicy"
    by (simp add: example_client_def NewClient_def)
  have i: "InitialBackoff DefaultRetryPolicy = 100000000"
    "MaxBackoff DefaultRetryPolicy = 10000000000"
    by (simp_all add: DefaultRetryPolicy_def Millisecond_def Second_def)
  show "float64_mul (float64_of_int (InitialBackoff (retryPolicy example_client)))
      (Pow ?pf (BackoffFactor (retryPolicy example_client)) (float64_of_int (int 0))) =
      Finite 100000000"
    by (simp add: pol i p DefaultRetryPolicy_floats rounded_power_2 float64_of_int_exact
        float64_of_real_numeral)
  show "float64_less (Finite 0) (Jitter (retryPolicy example_client))"
    by (simp add: pol DefaultRetryPolicy_floats)
  show "float64_mul (Finite (Float64 ?pf (draws fresh_world))) (Jitter (retryPolicy example_client)) =
      Finite (3602879701896397 / 36028797018963968)"
    by (simp only: pol DefaultRetryPolicy_floats p float64_mul.simps float64_of_real_jitter)
  show "float64_add (Finite 1) (Finite (3602879701896397 / 36028797018963968)) =
      Finite (4953959590107546 / 4503599627370496)"
    by (simp only: float64_add.simps float64_of_real_jitter)
  show "float64_mul (Finite 100000000) (Finite (4953959590107546 / 4503599627370496)) =
      Finite (7381975040000001 / 67108864)"
    by (simp only: float64_mul.simps float64_of_real_jitter)
  show "\<not> float64_less (float64_of_int (MaxBackoff (retryPolicy example_client)))
      (Finite (7381975040000001 / 67108864))"
    by (simp add: pol i float64_of_int_exact)
  show "Duration_of_float64 ?pf (Finite (7381975040000001 / 67108864)) = 110 * Millisecond"
    by (simp add: Duration_of_float64_def Millisecond_def)
qed

text \<open>
  C4 (the code at a failing input). \<open>computeBackoff_spec\<close> is the formula of the
  specification. Under the policy of scenario A the backoffs of the code are the values
  of the formula. Under the default policy, whose jitter is positive, with a random draw
  of one half, the first backoff of the code is 110ms, the value of the formula without
  its fraction of a nanosecond. Under the policy whose longest backoff is
  9007199254740995ns the formula gives that longest backoff before the thirteenth retry,
  and the code returns 9007199254740996ns: this is more than \<open>MaxBackoff\<close>, so it is not
  the minimum of \<open>MaxBackoff\<close> and any number, however \<open>raw\<close> is rounded. For every input
  the code draws one random number when the jitter is positive and none otherwise.
\<close>

theorem backoff_differs_from_formula:
  "(\<forall>pf c i w. snd (calculateBackoff pf c i w) =
      (if float64_less (Finite 0) (Jitter (retryPolicy c)) then w\<lparr>draws := draws w + 1\<rparr>
       else w)) \<and>
   BackoffFactor policy_A = Finite 2 \<and> Jitter policy_A = Finite 0 \<and>
   (\<forall>r. real_of_int (fst (calculateBackoff (status_platform (\<lambda>n. 503))
          (NewClient ''https://api.example.com'' ''key'' [WithRetryPolicy policy_A])
          0 fresh_world)) =
        computeBackoff_spec (real_of_int (InitialBackoff policy_A)) 2 0
          (real_of_int (MaxBackoff policy_A)) 0 r) \<and>
   (\<forall>r. real_of_int (fst (calculateBackoff (status_platform (\<lambda>n. 503))
          (NewClient ''https://api.example.com'' ''key'' [WithRetryPolicy policy_A])
          1 fresh_world)) =
        computeBackoff_spec (real_of_int (InitialBackoff policy_A)) 2 0
          (real_of_int (MaxBackoff policy_A)) 1 r) \<and>
   (\<forall>r. real_of_int (fst (calculateBackoff (status_platform (\<lambda>n. 503))
          (NewClient ''https://api.example.com'' ''key'' [WithRetryPolicy policy_A])
          2 fresh_world)) =
        computeBackoff_spec (real_of_int (InitialBackoff policy_A)) 2 0
          (real_of_int (MaxBackoff policy_A)) 2 r) \<and>
   BackoffFactor DefaultRetryPolicy = Finite 2 \<and>
   Jitter DefaultRetryPolicy = Finite (3602879701896397 / 18014398509481984) \<and>
   fst (calculateBackoff ((status_platform (\<lambda>n. 503))\<lparr>Float64 := \<lambda>n. 1 / 2\<rparr>)
          example_client 0 fresh_world) = 110 * Millisecond \<and>
   \<lfloor>computeBackoff_spec (real_of_int (InitialBackoff DefaultRetryPolicy)) 2
      (3602879701896397 / 18014398509481984) (real_of_int (MaxBackoff DefaultRetryPolicy)) 0
      (1 / 2 * (3602879701896397 / 18014398509481984))\<rfloor> = 110 * Millisecond \<and>
   BackoffFactor policy_104_days = Finite 2 \<and> Jitter policy_104_days = Finite 0 \<and>
   (\<forall>r. computeBackoff_spec (real_of_int (InitialBackoff policy_104_days)) 2 0
          (real_of_int (MaxBackoff policy_104_days)) 12 r = 9007199254740995) \<and>
   fst (calculateBackoff (status_platform (\<lambda>n. 503))
          (NewClient ''https://api.example.com'' ''key'' [WithRetryPolicy policy_104_days])
          12 fresh_world) = 9007199254740996 \<and>
   (\<forall>raw. real_of_int (fst (calculateBackoff (status_platform (\<lambda>n. 503))
          (NewClient ''https://api.example.com'' ''key'' [WithRetryPolicy policy_104_days])
          12 fresh_world)) \<noteq> min raw (real_of_int (MaxBackoff policy_104_days)))"
proof -
  let ?pf = "status_platform (\<lambda>n. 503)"
  let ?cA = "NewClient ''https://api.example.com'' ''key'' [WithRetryPolicy policy_A]"
  let ?c104 = "NewClient ''https://api.example.com'' ''key'' [WithRetryPolicy policy_104_days]"
  have p: "Pow ?pf = rounded_power"
    by (simp add: status_platform_def example_platform_def)
  have pol: "retryPolicy ?cA = policy_A"
    by (simp add: NewClient_def WithRetryPolicy_def)
  have sA: "computeBackoff_spec (real_of_int (InitialBackoff policy_A)) 2 0
        (real_of_int (MaxBackoff policy_A)) i r = real_of_int (100 * Millisecond * 2 ^ i)"
    if "i < 3" for i r
  proof -
    from that consider "i = 0" | "i = 1" | "i = 2" by linarith
    then show ?thesis
      by cases
        (simp_all add: computeBackoff_spec_def policy_A_def Millisecond_def Second_def)
  qed
  have a: "real_of_int (fst (calculateBackoff ?pf ?cA i fresh_world)) =
      computeBackoff_spec (real_of_int (InitialBackoff policy_A)) 2 0
        (real_of_int (MaxBackoff policy_A)) i r" if "i < 3" for i r
    unfolding sA [OF that]
    using backoff_A [OF pol that, of ?pf fresh_world]
    by (simp only: p rounded_power_2 fst_conv)
  have d: "\<lfloor>computeBackoff_spec (real_of_int (InitialBackoff DefaultRetryPolicy)) 2
        (3602879701896397 / 18014398509481984) (real_of_int (MaxBackoff DefaultRetryPolicy)) 0
        (1 / 2 * (3602879701896397 / 18014398509481984))\<rfloor> = 110 * Millisecond"
    by (simp add: computeBackoff_spec_def DefaultRetryPolicy_def Millisecond_def Second_def)
  have f: "computeBackoff_spec (real_of_int (InitialBackoff policy_104_days)) 2 0
          (real_of_int (MaxBackoff policy_104_days)) 12 r = 9007199254740995" for r
    by (simp add: computeBackoff_spec_def policy_104_days_def Hour_def Second_def)
  have b: "fst (calculateBackoff ?pf ?c104 12 fresh_world) = 9007199254740996"
    by (simp add: calculateBackoff_def NewClient_def WithRetryPolicy_def policy_104_days_def
        Hour_def Second_def float64_of_int_def float64_of_real_numeral p rounded_power_2
        float64_of_real_large Duration_of_float64_def Let_def)
  have n: "real_of_int (fst (calculateBackoff ?pf ?c104 12 fresh_world)) \<noteq>
      min raw (real_of_int (MaxBackoff policy_104_days))" for raw
    unfolding b by (simp add: policy_104_days_def min_def)
  have fl: "BackoffFactor policy_A = Finite 2" "Jitter policy_A = Finite 0"
    "BackoffFactor policy_104_days = Finite 2" "Jitter policy_104_days = Finite 0"
    by (simp_all add: policy_A_def policy_104_days_def)
  have a0: "0 < (3::nat)" and a1: "1 < (3::nat)" and a2: "2 < (3::nat)" by simp_all
  show ?thesis
    by (intro conjI allI)
      (rule calculateBackoff_draws fl a [OF a0] a [OF a1] a [OF a2] DefaultRetryPolicy_floats
        backoff_default_half d f b n)+
qed

section \<open>The cap of the backoff\<close>

text \<open>
  C5 (the code at two failing inputs). Both policies meet the conditions of the claim:
  \<open>MaxRetries\<close> is not negative, \<open>InitialBackoff\<close> is positive and at most \<open>MaxBackoff\<close>,
  the factor exceeds 1 and the jitter is 0. With a longest backoff of 9007199254740995ns,
  which is no \<open>float64\<close>, the backoff before the thirteenth retry is capped at the
  \<open>float64\<close> next to it and comes back one nanosecond longer than \<open>MaxBackoff\<close>. With the
  greatest duration as longest backoff the cap is \<open>2 ^ 63\<close>, which no duration can hold: on
  a platform that converts such a value to the least \<open>int64\<close>, the backoff before the
  thirty-fifth retry is negative.
\<close>

theorem backoff_exceeds_MaxBackoff:
  "0 \<le> MaxRetries policy_104_days \<and> 0 < InitialBackoff policy_104_days \<and>
   InitialBackoff policy_104_days \<le> MaxBackoff policy_104_days \<and>
   float64_less (Finite 1) (BackoffFactor policy_104_days) \<and>
   Jitter policy_104_days = Finite 0 \<and>
   MaxBackoff policy_104_days = 9007199254740995 \<and>
   fst (calculateBackoff (status_platform (\<lambda>n. 503))
          (NewClient ''https://api.example.com'' ''key'' [WithRetryPolicy policy_104_days])
          12 fresh_world) = 9007199254740996 \<and>
   0 \<le> MaxRetries policy_no_cap \<and> 0 < InitialBackoff policy_no_cap \<and>
   InitialBackoff policy_no_cap \<le> MaxBackoff policy_no_cap \<and>
   float64_less (Finite 1) (BackoffFactor policy_no_cap) \<and>
   Jitter policy_no_cap = Finite 0 \<and>
   fst (calculateBackoff (status_platform (\<lambda>n. 503))
          (NewClient ''https://api.example.com'' ''key'' [WithRetryPolicy policy_no_cap])
          34 fresh_world) = - 9223372036854775808"
proof -
  let ?pf = "status_platform (\<lambda>n. 503)"
  have p: "Pow ?pf = rounded_power"
    by (simp add: status_platform_def example_platform_def)
  have ov: "overflow ?pf x = - 9223372036854775808" for x
    by (simp add: status_platform_def example_platform_def)
  have a: "fst (calculateBackoff ?pf
      (NewClient ''https://api.example.com'' ''key'' [WithRetryPolicy policy_104_days])
      12 fresh_world) = 9007199254740996"
    by (simp add: calculateBackoff_def NewClient_def WithRetryPolicy_def policy_104_days_def
        Hour_def Second_def float64_of_int_def float64_of_real_numeral p rounded_power_2
        float64_of_real_large Duration_of_float64_def Let_def)
  have b: "fst (calculateBackoff ?pf
      (NewClient ''https://api.example.com'' ''key'' [WithRetryPolicy policy_no_cap])
      34 fresh_world) = - 9223372036854775808"
    by (simp add: calculateBackoff_def NewClient_def WithRetryPolicy_def policy_no_cap_def
        Second_def float64_of_int_def float64_of_real_numeral p rounded_power_2
        float64_of_real_large Duration_of_float64_def ov Let_def)
  show ?thesis
    using a b
    by (simp add: policy_104_days_def policy_no_cap_def Hour_def Second_def)
qed

text \<open>
  What holds of the cap. With no jitter, an initial backoff that is positive and a longest
  backoff that is at least the initial one and at most \<open>2 ^ 53\<close> nanoseconds, the backoff is
  not negative and at most \<open>MaxBackoff\<close>; and it does not decrease from one attempt to a
  later one, provided the values of \<open>math.Pow\<close> for the two attempts are not negative and
  do not decrease (they may be infinite).
\<close>

lemma float64_of_real_not_NaN [simp]: "float64_of_real x \<noteq> NaN"
  by (simp add: float64_of_real_def)

lemma backoff_with_small_cap:
  assumes "0 < InitialBackoff (retryPolicy c)"
    and "InitialBackoff (retryPolicy c) \<le> MaxBackoff (retryPolicy c)"
    and "MaxBackoff (retryPolicy c) \<le> 2 ^ 53"
    and "Jitter (retryPolicy c) = Finite 0"
    and "float64_le (Finite 0) (Pow pf (BackoffFactor (retryPolicy c)) (float64_of_int (int i)))"
    and "float64_le (Pow pf (BackoffFactor (retryPolicy c)) (float64_of_int (int i)))
           (Pow pf (BackoffFactor (retryPolicy c)) (float64_of_int (int j)))"
  shows "0 \<le> fst (calculateBackoff pf c i w) \<and>
    fst (calculateBackoff pf c i w) \<le> fst (calculateBackoff pf c j w') \<and>
    fst (calculateBackoff pf c j w') \<le> MaxBackoff (retryPolicy c)"
proof -
  define I where "I = InitialBackoff (retryPolicy c)"
  define M where "M = MaxBackoff (retryPolicy c)"
  define Pi where "Pi = Pow pf (BackoffFactor (retryPolicy c)) (float64_of_int (int i))"
  define Pj where "Pj = Pow pf (BackoffFactor (retryPolicy c)) (float64_of_int (int j))"
  define cap where
    "cap b = (if float64_less (Finite (real_of_int M)) b then Finite (real_of_int M) else b)" for b
  have I: "0 < I" "I \<le> M" "M \<le> 2 ^ 53"
    using assms(1-3) by (simp_all add: I_def M_def)
  have fI: "float64_of_int I = Finite (real_of_int I)"
    using I by (intro float64_of_int_exact) simp
  have fM: "float64_of_int M = Finite (real_of_int M)"
    using I by (intro float64_of_int_exact) simp
  have P: "float64_le (Finite 0) Pi" "float64_le Pi Pj"
    using assms(5,6) by (simp_all add: Pi_def Pj_def)
  have bi0: "float64_le (Finite 0) (float64_mul (Finite (real_of_int I)) Pi)"
    using P(1) I(1) by (cases Pi) (simp_all add: float64_of_real_nonneg)
  have bij: "float64_le (float64_mul (Finite (real_of_int I)) Pi)
      (float64_mul (Finite (real_of_int I)) Pj)"
  proof (cases Pi)
    case (Finite p)
    show ?thesis
    proof (cases Pj)
      case q: (Finite q)
      with Finite P(2) have "real_of_int I * p \<le> real_of_int I * q"
        using I(1) by (simp add: mult_left_mono)
      then show ?thesis
        using Finite q by (simp add: float64_of_real_mono)
    next
      case PosInf
      then show ?thesis
        using Finite I(1) by (cases "float64_of_real (real_of_int I * p)") simp_all
    qed (use Finite P(2) in simp_all)
  next
    case PosInf
    with P(2) have "Pj = PosInf" by (cases Pj) simp_all
    with PosInf I(1) show ?thesis by simp
  qed (use P(1) in simp_all)
  have cap_value: "\<exists>v. cap b = Finite v \<and> 0 \<le> v \<and> v \<le> real_of_int M"
    if "float64_le (Finite 0) b" for b
    using that I by (cases b) (auto simp add: cap_def)
  have cap_mono: "v \<le> v'"
    if "float64_le b b'" "cap b = Finite v" "cap b' = Finite v'" for b b' v v'
    using that by (cases b; cases b') (auto simp add: cap_def split: if_splits)
  have bj0: "float64_le (Finite 0) (float64_mul (Finite (real_of_int I)) Pj)"
    using bi0 bij
    by (cases "float64_mul (Finite (real_of_int I)) Pi";
        cases "float64_mul (Finite (real_of_int I)) Pj") simp_all
  obtain vi where vi: "cap (float64_mul (Finite (real_of_int I)) Pi) = Finite vi"
    "0 \<le> vi" "vi \<le> real_of_int M"
    using cap_value [OF bi0] by blast
  obtain vj where vj: "cap (float64_mul (Finite (real_of_int I)) Pj) = Finite vj"
    "0 \<le> vj" "vj \<le> real_of_int M"
    using cap_value [OF bj0] by blast
  have le: "vi \<le> vj"
    using cap_mono [OF bij vi(1) vj(1)] .
  have Mr: "M < 2 ^ 63" using I(3) by simp
  have fl: "0 \<le> \<lfloor>vi\<rfloor>" "\<lfloor>vi\<rfloor> \<le> \<lfloor>vj\<rfloor>" "\<lfloor>vj\<rfloor> \<le> M"
    using vi(2) vj(3) le by (simp_all add: floor_mono le_floor_iff floor_le_iff) linarith
  have run: "fst (calculateBackoff pf c k v) =
      Duration_of_float64 pf (cap (float64_mul (Finite (real_of_int I))
        (Pow pf (BackoffFactor (retryPolicy c)) (float64_of_int (int k)))))" for k v
    unfolding cap_def I_def M_def
    by (simp add: calculateBackoff_def Let_def assms(4) fI [unfolded I_def] fM [unfolded M_def])
  have ci: "fst (calculateBackoff pf c i w) = Duration_of_float64 pf (Finite vi)"
    using vi(1) by (simp add: run Pi_def)
  have cj: "fst (calculateBackoff pf c j w') = Duration_of_float64 pf (Finite vj)"
    using vj(1) by (simp add: run Pj_def)
  have di: "Duration_of_float64 pf (Finite vi) = \<lfloor>vi\<rfloor>"
    using vi fl Mr by (simp add: Duration_of_float64_def Let_def)
  have dj: "Duration_of_float64 pf (Finite vj) = \<lfloor>vj\<rfloor>"
    using vj fl Mr by (simp add: Duration_of_float64_def Let_def)
  show ?thesis
    using fl by (simp add: ci cj di dj M_def)
qed

text \<open>
  With an initial backoff of 0, outside the conditions of the claim, a power that
  overflows makes the product NaN, which no cap changes and which converts to an
  implementation-dependent duration.
\<close>

lemma backoff_of_infinite_power:
  assumes "InitialBackoff (retryPolicy c) = 0"
    and "Pow pf (BackoffFactor (retryPolicy c)) (float64_of_int (int i)) = PosInf"
    and "\<not> float64_less (Finite 0) (Jitter (retryPolicy c))"
  shows "fst (calculateBackoff pf c i w) = overflow pf NaN"
  using assms
  by (simp add: calculateBackoff_def Let_def float64_of_int_def Duration_of_float64_def)

section \<open>Where the executor stops\<close>

text \<open>
  C6 (the code where it stops). An attempt that \<open>ShouldRetry\<close> rejects, or that is the last
  one the policy allows, ends the loop: the result is the response and the error of that
  attempt as the transport gave them, after one more request and with no further sleep,
  random draw or read of a body. But unless the attempt is a success, the executor has
  closed the body of the response before it returns it: the response does not come back
  as it was obtained. A whole call returns the outcome of the last transport call it
  made, and has closed the body of every response that was no success, the returned one
  included. A first answer of status 501 is returned after one request and no sleep, with
  its body closed.
\<close>

theorem stop_returns_last_outcome:
  "(\<forall>attempt prev w.
      int attempt \<le> MaxRetries (retryPolicy c) \<and>
      (\<not> ShouldRetry (statusCode_of (attempt_outcome pf req attempt w))
           (err_of (attempt_outcome pf req attempt w)) \<or>
       MaxRetries (retryPolicy c) \<le> int attempt) \<longrightarrow>
      fst (doRequestWithRetry_loop pf c req attempt prev w) =
        (resp_of (attempt_outcome pf req attempt w), err_of (attempt_outcome pf req attempt w)) \<and>
      sent (snd (doRequestWithRetry_loop pf c req attempt prev w)) =
        sent w @ [reqClone req attempt] \<and>
      slept (snd (doRequestWithRetry_loop pf c req attempt prev w)) = slept w \<and>
      draws (snd (doRequestWithRetry_loop pf c req attempt prev w)) = draws w \<and>
      readBodies (snd (doRequestWithRetry_loop pf c req attempt prev w)) = readBodies w \<and>
      closedBodies (snd (doRequestWithRetry_loop pf c req attempt prev w)) =
        closedBodies w @ closed_by (attempt_outcome pf req attempt w)) \<and>
   (\<forall>w. 0 \<le> MaxRetries (retryPolicy c) \<longrightarrow>
      (\<exists>k. int k \<le> MaxRetries (retryPolicy c) \<and>
        fst (doRequestWithRetry pf c req w) =
          (resp_of (Do pf (length (sent w) + k) (reqClone req k)),
           err_of (Do pf (length (sent w) + k) (reqClone req k))) \<and>
        sent (snd (doRequestWithRetry pf c req w)) = sent w @ map (reqClone req) [0..<Suc k] \<and>
        length (slept (snd (doRequestWithRetry pf c req w))) = length (slept w) + k \<and>
        readBodies (snd (doRequestWithRetry pf c req w)) = readBodies w \<and>
        closedBodies (snd (doRequestWithRetry pf c req w)) =
          closedBodies w @
          concat (map (\<lambda>i. closed_by (Do pf (length (sent w) + i) (reqClone req i)))
            [0..<Suc k]))) \<and>
   (\<forall>w r. 0 \<le> MaxRetries (retryPolicy c) \<and> Do pf (length (sent w)) req = Replied r \<and>
      StatusCode r = 501 \<longrightarrow>
      fst (doRequestWithRetry pf c req w) = (Some r, None) \<and>
      sent (snd (doRequestWithRetry pf c req w)) = sent w @ [req] \<and>
      slept (snd (doRequestWithRetry pf c req w)) = slept w \<and>
      closedBodies (snd (doRequestWithRetry pf c req w)) = closedBodies w @ [Body r])"
proof (intro conjI allI impI)
  fix attempt prev and w :: world
  let ?out = "attempt_outcome pf req attempt w"
  let ?run = "doRequestWithRetry_loop pf c req attempt prev w"
  assume h: "int attempt \<le> MaxRetries (retryPolicy c) \<and>
      (\<not> ShouldRetry (statusCode_of ?out) (err_of ?out) \<or> MaxRetries (retryPolicy c) \<le> int attempt)"
  have run: "fst ?run = (resp_of ?out, err_of ?out) \<and> sent (snd ?run) = sent w @ [reqClone req attempt] \<and>
      slept (snd ?run) = slept w \<and> draws (snd ?run) = draws w \<and> readBodies (snd ?run) = readBodies w \<and>
      closedBodies (snd ?run) = closedBodies w @ closed_by ?out"
  proof (cases "succeeded ?out")
    case True
    then have "err_of ?out = None" by (simp add: succeeded_def)
    with True h show ?thesis
      using loop_success [of attempt c pf req w prev] by (simp add: closed_by_def)
  next
    case False
    with h show ?thesis
      using loop_break [of attempt c pf req w prev] close_failed_closedBodies [OF False]
      by simp
  qed
  from run show "fst ?run = (resp_of ?out, err_of ?out)" by simp
  from run show "sent (snd ?run) = sent w @ [reqClone req attempt]" by simp
  from run show "slept (snd ?run) = slept w" by simp
  from run show "draws (snd ?run) = draws w" by simp
  from run show "readBodies (snd ?run) = readBodies w" by simp
  from run show "closedBodies (snd ?run) = closedBodies w @ closed_by ?out" by simp
next
  fix w :: world
  assume "0 \<le> MaxRetries (retryPolicy c)"
  then have "int 0 \<le> MaxRetries (retryPolicy c)" by simp
  from loop_result [OF this, of pf req "(None, None)" w]
  show "\<exists>k. int k \<le> MaxRetries (retryPolicy c) \<and>
        fst (doRequestWithRetry pf c req w) =
          (resp_of (Do pf (length (sent w) + k) (reqClone req k)),
           err_of (Do pf (length (sent w) + k) (reqClone req k))) \<and>
        sent (snd (doRequestWithRetry pf c req w)) = sent w @ map (reqClone req) [0..<Suc k] \<and>
        length (slept (snd (doRequestWithRetry pf c req w))) = length (slept w) + k \<and>
        readBodies (snd (doRequestWithRetry pf c req w)) = readBodies w \<and>
        closedBodies (snd (doRequestWithRetry pf c req w)) =
          closedBodies w @
          concat (map (\<lambda>i. closed_by (Do pf (length (sent w) + i) (reqClone req i)))
            [0..<Suc k])"
    unfolding doRequestWithRetry_def by (simp del: upt_Suc) blast
next
  fix w :: world and r
  assume h: "0 \<le> MaxRetries (retryPolicy c) \<and> Do pf (length (sent w)) req = Replied r \<and>
      StatusCode r = 501"
  then have o: "attempt_outcome pf req 0 w = Replied r"
    by (simp add: attempt_outcome_eq reqClone_def)
  have run: "doRequestWithRetry pf c req w =
      ((Some r, None), close_failed (Replied r) (attempt_world pf req 0 w))"
    unfolding doRequestWithRetry_def
    using h by (subst loop_break) (simp_all add: o succeeded_def statusCode_of_def ShouldRetry_def)
  show "fst (doRequestWithRetry pf c req w) = (Some r, None)" by (simp add: run)
  show "sent (snd (doRequestWithRetry pf c req w)) = sent w @ [req]"
    by (simp add: run reqClone_def)
  show "slept (snd (doRequestWithRetry pf c req w)) = slept w" by (simp add: run)
  show "closedBodies (snd (doRequestWithRetry pf c req w)) = closedBodies w @ [Body r]"
    by (simp add: run close_failed_def Body_Close_def)
qed

theorem stop_returns_last_outcome_witness:
  "fst (doRequestWithRetry_loop (status_platform (\<lambda>n. 501)) example_client example_request
          0 (None, None) fresh_world) = (Some \<lparr>StatusCode = 501, Body = 0\<rparr>, None) \<and>
   sent (snd (doRequestWithRetry_loop (status_platform (\<lambda>n. 501)) example_client
          example_request 0 (None, None) fresh_world)) = [example_request] \<and>
   slept (snd (doRequestWithRetry_loop (status_platform (\<lambda>n. 501)) example_client
          example_request 0 (None, None) fresh_world)) = [] \<and>
   closedBodies (snd (doRequestWithRetry_loop (status_platform (\<lambda>n. 501)) example_client
          example_request 0 (None, None) fresh_world)) = [0] \<and>
   (\<exists>k. int k \<le> 3 \<and>
      length (sent (snd (doRequestWithRetry (status_platform (\<lambda>n. 501)) example_client
          example_request fresh_world))) = Suc k \<and>
      length (slept (snd (doRequestWithRetry (status_platform (\<lambda>n. 501)) example_client
          example_request fresh_world))) = k) \<and>
   fst (doRequestWithRetry (status_platform (\<lambda>n. 501)) example_client example_request
          fresh_world) = (Some \<lparr>StatusCode = 501, Body = 0\<rparr>, None) \<and>
   sent (snd (doRequestWithRetry (status_platform (\<lambda>n. 501)) example_client example_request
          fresh_world)) = [example_request] \<and>
   slept (snd (doRequestWithRetry (status_platform (\<lambda>n. 501)) example_client example_request
          fresh_world)) = [] \<and>
   closedBodies (snd (doRequestWithRetry (status_platform (\<lambda>n. 501)) example_client
          example_request fresh_world)) = [0]"
proof -
  let ?pf = "status_platform (\<lambda>n. 501)"
  note stop = stop_returns_last_outcome [of example_client ?pf example_request]
  have mr: "MaxRetries (retryPolicy example_client) = 3"
    by (simp add: example_client_def NewClient_def DefaultRetryPolicy_def)
  have o: "attempt_outcome ?pf example_request 0 fresh_world =
      Replied \<lparr>StatusCode = 501, Body = 0\<rparr>"
    by (simp add: attempt_outcome_eq status_platform_def example_platform_def fresh_world_def)
  have d: "Do ?pf 0 example_request =
      Replied \<lparr>StatusCode = 501, Body = 0\<rparr>"
    by (simp add: status_platform_def example_platform_def fresh_world_def)
  have cb: "closed_by (Replied \<lparr>StatusCode = 501, Body = 0\<rparr>) = [0]"
    by (simp add: closed_by_def succeeded_def)
  have fw: "sent fresh_world = []" "slept fresh_world = []" "closedBodies fresh_world = []"
    by (simp_all add: fresh_world_def)
  have first: "fst (doRequestWithRetry_loop ?pf example_client example_request 0 (None, None)
        fresh_world) = (Some \<lparr>StatusCode = 501, Body = 0\<rparr>, None) \<and>
      sent (snd (doRequestWithRetry_loop ?pf example_client example_request 0 (None, None)
        fresh_world)) = [example_request] \<and>
      slept (snd (doRequestWithRetry_loop ?pf example_client example_request 0 (None, None)
        fresh_world)) = [] \<and>
      closedBodies (snd (doRequestWithRetry_loop ?pf example_client example_request 0
        (None, None) fresh_world)) = [0]"
    using stop [THEN conjunct1, rule_format, where attempt = 0 and w = fresh_world
        and prev = "(None, None)"]
    by (simp add: mr o cb statusCode_of_def ShouldRetry_def reqClone_def fw)
  have second: "\<exists>k. int k \<le> 3 \<and>
      length (sent (snd (doRequestWithRetry ?pf example_client example_request
        fresh_world))) = Suc k \<and>
      length (slept (snd (doRequestWithRetry ?pf example_client example_request
        fresh_world))) = k"
    using stop [THEN conjunct2, THEN conjunct1, rule_format, of fresh_world]
    by (auto simp add: mr fw simp del: upt_Suc)
  have third: "fst (doRequestWithRetry ?pf example_client example_request fresh_world) =
        (Some \<lparr>StatusCode = 501, Body = 0\<rparr>, None) \<and>
      sent (snd (doRequestWithRetry ?pf example_client example_request fresh_world)) =
        [example_request] \<and>
      slept (snd (doRequestWithRetry ?pf example_client example_request fresh_world)) = [] \<and>
      closedBodies (snd (doRequestWithRetry ?pf example_client example_request fresh_world)) =
        [0]"
    using stop [THEN conjunct2, THEN conjunct2, rule_format, of fresh_world
        "\<lparr>StatusCode = 501, Body = 0\<rparr>"]
    by (simp add: mr d fw)
  show ?thesis
    using first second third by simp
qed

section \<open>Attempts, and a transport that always fails\<close>

text \<open>Scenario C: no retry is possible, and a first answer of status 429 is returned.\<close>

lemma scenario_C:
  assumes "MaxRetries (retryPolicy c) = 0"
    and "Do pf (length (sent w)) req = Replied r" "StatusCode r = 429"
  shows "fst (doRequestWithRetry pf c req w) = (Some r, None) \<and>
     sent (snd (doRequestWithRetry pf c req w)) = sent w @ [req] \<and>
     slept (snd (doRequestWithRetry pf c req w)) = slept w"
proof -
  from assms have o: "attempt_outcome pf req 0 w = Replied r"
    by (simp add: attempt_outcome_eq reqClone_def)
  have "doRequestWithRetry pf c req w =
      ((Some r, None), close_failed (Replied r) (attempt_world pf req 0 w))"
    unfolding doRequestWithRetry_def
    using assms by (subst loop_break) (simp_all add: o succeeded_def)
  then show ?thesis by (simp add: reqClone_def)
qed

text \<open>
  Scenario D for an error that \<open>ShouldRetry\<close> accepts: the error of the last call comes
  back after \<open>MaxRetries\<close> sleeps.
\<close>

lemma scenario_D_accepted_error:
  assumes "0 \<le> MaxRetries (retryPolicy c)"
    and "\<And>n r. \<exists>e. Do pf n r = Failed e \<and> ShouldRetry 0 (Some e)"
  shows "fst (doRequestWithRetry pf c req w) =
       (None, err_of (Do pf (length (sent w) + nat (MaxRetries (retryPolicy c)))
          (reqClone req (nat (MaxRetries (retryPolicy c)))))) \<and>
     length (sent (snd (doRequestWithRetry pf c req w))) =
       length (sent w) + nat (MaxRetries (retryPolicy c)) + 1 \<and>
     length (slept (snd (doRequestWithRetry pf c req w))) =
       length (slept w) + nat (MaxRetries (retryPolicy c))"
proof -
  from assms(1) have le: "int 0 \<le> MaxRetries (retryPolicy c)" by simp
  have all: "\<not> succeeded (Do pf n r) \<and>
      ShouldRetry (statusCode_of (Do pf n r)) (err_of (Do pf n r))" for n r
    using assms(2) [of n r] by (auto simp add: succeeded_def statusCode_of_def)
  from assms(2) obtain e where
    "Do pf (length (sent w) + nat (MaxRetries (retryPolicy c)))
       (reqClone req (nat (MaxRetries (retryPolicy c)))) = Failed e"
    by blast
  with loop_all_retryable [OF le all, of req "(None, None)" w]
  show ?thesis unfolding doRequestWithRetry_def by simp
qed

text \<open>
  C7 (the code at a failing input). Every call of the transport fails with the error of a
  refused connection as \<open>net/http\<close> reports it. Under the default policy, which allows
  three retries, \<open>doRequestWithRetry\<close> returns that error after one request and no sleep.
\<close>

theorem refused_connection_not_retried:
  "doRequestWithRetry
     (failing_platform
        (url_Error ''Post'' ''https://api.example.com/gdpr?action=create'' connection_refused))
     (NewClient ''https://api.example.com'' ''key'' []) example_request fresh_world =
   ((None,
     Some (url_Error ''Post'' ''https://api.example.com/gdpr?action=create'' connection_refused)),
    fresh_world\<lparr>sent := [example_request]\<rparr>)"
proof -
  let ?e = "url_Error ''Post'' ''https://api.example.com/gdpr?action=create'' connection_refused"
  have a: "MaxRetries (retryPolicy (NewClient ''https://api.example.com'' ''key'' [])) = 3"
    by (simp add: NewClient_def DefaultRetryPolicy_def)
  have o: "attempt_outcome (failing_platform ?e) example_request 0 fresh_world = Failed ?e"
    by (simp add: attempt_outcome_eq failing_platform_def example_platform_def)
  have w: "close_failed (Failed ?e)
             (attempt_world (failing_platform ?e) example_request 0 fresh_world) =
           fresh_world\<lparr>sent := [example_request]\<rparr>"
    by (simp add: close_failed_def attempt_world_def httpClient_Do_def fresh_world_def
        reqClone_def)
  have n: "\<not> ShouldRetry 0 (Some ?e)"
    by (simp add: ShouldRetry_def url_Error_def connection_refused_def)
  show ?thesis
    unfolding doRequestWithRetry_def
    by (subst loop_break) (simp_all add: a o w n succeeded_def statusCode_of_def)
qed

section \<open>Transport errors\<close>

text \<open>
  The errors that \<open>ShouldRetry\<close> accepts, whatever the status code: an error that is or
  wraps one of the two context errors, and an error whose whole message is
  \<open>connection refused\<close> or \<open>no such host\<close>.
\<close>

lemma ShouldRetry_accepted_errors:
  assumes "errors_Is e DeadlineExceeded \<or> errors_Is e Canceled \<or>
     Error e = ''connection refused'' \<or> Error e = ''no such host''"
  shows "ShouldRetry statusCode (Some e)"
  using assms by (simp add: ShouldRetry_def)

lemma errors_Is_wrapped:
  "errors_Is e target \<Longrightarrow> errors_Is (Wrapped prefix e) target"
  by simp

text \<open>
  C8 (the code at a failing input). The error of a refused connection and the error of a
  failed host lookup, as package \<open>net\<close> reports them, carry the address or the host in
  their message. With status code 0 (no response) \<open>ShouldRetry\<close> rejects both.
\<close>

theorem ShouldRetry_wrapped_network_error:
  "Error connection_refused = ''dial tcp 127.0.0.1:443: connect: connection refused'' \<and>
   \<not> ShouldRetry 0 (Some connection_refused) \<and>
   Error no_such_host = ''lookup api.example.com: no such host'' \<and>
   \<not> ShouldRetry 0 (Some no_such_host)"
  by (simp add: ShouldRetry_def connection_refused_def no_such_host_def)

section \<open>The traffic of the operations\<close>

lemma io_ReadAll_fields [simp]:
  "sent (snd (io_ReadAll pf resp w)) = sent w"
  "slept (snd (io_ReadAll pf resp w)) = slept w"
  "draws (snd (io_ReadAll pf resp w)) = draws w"
  "closedBodies (snd (io_ReadAll pf resp w)) = closedBodies w"
  "logged (snd (io_ReadAll pf resp w)) = logged w"
  "fst (io_ReadAll pf resp w) = ReadAll pf (closedBodies w) (Body resp)"
  by (simp_all add: io_ReadAll_def)

lemma Body_Close_fields [simp]:
  "sent (Body_Close resp w) = sent w"
  "slept (Body_Close resp w) = slept w"
  "draws (Body_Close resp w) = draws w"
  "logged (Body_Close resp w) = logged w"
  by (simp_all add: Body_Close_def)

lemma log_Printf_fields [simp]:
  "sent (log_Printf line w) = sent w"
  "slept (log_Printf line w) = slept w"
  "draws (log_Printf line w) = draws w"
  "closedBodies (log_Printf line w) = closedBodies w"
  by (simp_all add: log_Printf_def)

lemma http_NewRequest_fields:
  "http_NewRequest pf method url body = Inr req \<Longrightarrow> Method req = method \<and> URL req = url"
  by (auto simp add: http_NewRequest_def split: option.splits)

lemma Header_Set_fields [simp]:
  "Method (Header_Set req k v) = Method req"
  "URL (Header_Set req k v) = URL req"
  by (simp_all add: Header_Set_def)

text \<open>
  For each operation: what it sends and sleeps once its request is built, and the same
  as a property of the world it leaves.
\<close>

lemma CreateInfoRequest_sends:
  assumes "json_Marshal pf (Arg_CreateInfoRequestInput
      (if cii_ApiKey input = '''' then input\<lparr>cii_ApiKey := apiKey c\<rparr> else input)) = Inr body"
    and "http_NewRequest pf ''POST'' (baseURL c @ ''/gdpr?action=create'') body = Inr req"
  shows "sent (snd (CreateInfoRequest pf c input w)) =
      sent (snd (doRequestWithRetry pf c (Header_Set req ''Content-Type'' ''application/json'') w)) \<and>
    slept (snd (CreateInfoRequest pf c input w)) =
      slept (snd (doRequestWithRetry pf c (Header_Set req ''Content-Type'' ''application/json'') w)) \<and>
    draws (snd (CreateInfoRequest pf c input w)) =
      draws (snd (doRequestWithRetry pf c (Header_Set req ''Content-Type'' ''application/json'') w))"
  using assms
  by (simp add: CreateInfoRequest_def Let_def case_prod_beta split: option.splits if_splits)

lemma CreateInfoRequest_traffic:
  "through_executor pf c ''/gdpr?action=create''
     (Arg_CreateInfoRequestInput
      (if cii_ApiKey input = '''' then input\<lparr>cii_ApiKey := apiKey c\<rparr> else input))
     w (snd (CreateInfoRequest pf c input w))"
proof (cases "json_Marshal pf (Arg_CreateInfoRequestInput
    (if cii_ApiKey input = '''' then input\<lparr>cii_ApiKey := apiKey c\<rparr> else input))")
  case (Inl err)
  then show ?thesis
    by (simp add: CreateInfoRequest_def through_executor_def build_request_def Let_def)
next
  case (Inr body)
  show ?thesis
  proof (cases "http_NewRequest pf ''POST'' (baseURL c @ ''/gdpr?action=create'') body")
    case (Inl err)
    with Inr show ?thesis
      by (simp add: CreateInfoRequest_def through_executor_def build_request_def Let_def)
  next
    case req: (Inr req)
    from CreateInfoRequest_sends [OF Inr req, of w] show ?thesis
      by (simp add: through_executor_def build_request_def Inr req)
  qed
qed

lemma CreateDeleteRequest_sends:
  assumes "json_Marshal pf (Arg_CreateDeleteRequestInput
      (if cdi_ApiKey input = '''' then input\<lparr>cdi_ApiKey := apiKey c\<rparr> else input)) = Inr body"
    and "http_NewRequest pf ''POST'' (baseURL c @ ''/gdpr?controller=delete&action=create'') body = Inr req"
  shows "sent (snd (CreateDeleteRequest pf c input w)) =
      sent (snd (doRequestWithRetry pf c (Header_Set req ''Content-Type'' ''application/json'') w)) \<and>
    slept (snd (CreateDeleteRequest pf c input w)) =
      slept (snd (doRequestWithRetry pf c (Header_Set req ''Content-Type'' ''application/json'') w)) \<and>
    draws (snd (CreateDeleteRequest pf c input w)) =
      draws (snd (doRequestWithRetry pf c (Header_Set req ''Content-Type'' ''application/json'') w))"
  using assms
  by (simp add: CreateDeleteRequest_def Let_def case_prod_beta split: option.splits if_splits)

lemma CreateDeleteRequest_traffic:
  "through_executor pf c ''/gdpr?controller=delete&action=create''
     (Arg_CreateDeleteRequestInput
      (if cdi_ApiKey input = '''' then input\<lparr>cdi_ApiKey := apiKey c\<rparr> else input))
     w (snd (CreateDeleteRequest pf c input w))"
proof (cases "json_Marshal pf (Arg_CreateDeleteRequestInput
    (if cdi_ApiKey input = '''' then input\<lparr>cdi_ApiKey := apiKey c\<rparr> else input))")
  case (Inl err)
  then show ?thesis
    by (simp add: CreateDeleteRequest_def through_executor_def build_request_def Let_def)
next
  case (Inr body)
  show ?thesis
  proof (cases "http_NewRequest pf ''POST'' (baseURL c @ ''/gdpr?controller=delete&action=create'') body")
    case (Inl err)
    with Inr show ?thesis
      by (simp add: CreateDeleteRequest_def through_executor_def build_request_def Let_def)
  next
    case req: (Inr req)
    from CreateDeleteRequest_sends [OF Inr req, of w] show ?thesis
      by (simp add: through_executor_def build_request_def Inr req)
  qed
qed

lemma FetchInfoRequest_sends:
  assumes "json_Marshal pf (Arg_FetchRequestInput
      (if fri_ApiKey input = '''' then input\<lparr>fri_ApiKey := apiKey c\<rparr> else input)) = Inr body"
    and "http_NewRequest pf ''POST'' (baseURL c @ ''/gdpr?action=fetch'') body = Inr req"
  shows "sent (snd (FetchInfoRequest pf c input w)) =
      sent (snd (doRequestWithRetry pf c (Header_Set req ''Content-Type'' ''application/json'') w)) \<and>
    slept (snd (FetchInfoRequest pf c input w)) =
      slept (snd (doRequestWithRetry pf c (Header_Set req ''Content-Type'' ''application/json'') w)) \<and>
    draws (snd (FetchInfoRequest pf c input w)) =
      draws (snd (doRequestWithRetry pf c (Header_Set req ''Content-Type'' ''application/json'') w))"
  using assms
  by (simp add: FetchInfoRequest_def Let_def case_prod_beta split: option.splits if_splits)

lemma FetchInfoRequest_traffic:
  "through_executor pf c ''/gdpr?action=fetch''
     (Arg_FetchRequestInput
      (if fri_ApiKey input = '''' then input\<lparr>fri_ApiKey := apiKey c\<rparr> else input))
     w (snd (FetchInfoRequest pf c input w))"
proof (cases "json_Marshal pf (Arg_FetchRequestInput
    (if fri_ApiKey input = '''' then input\<lparr>fri_ApiKey := apiKey c\<rparr> else input))")
  case (Inl err)
  then show ?thesis
    by (simp add: FetchInfoRequest_def through_executor_def build_request_def Let_def)
next
  case (Inr body)
  show ?thesis
  proof (cases "http_NewRequest pf ''POST'' (baseURL c @ ''/gdpr?action=fetch'') body")
    case (Inl err)
    with Inr show ?thesis
      by (simp add: FetchInfoRequest_def through_executor_def build_request_def Let_def)
  next
    case req: (Inr req)
    from FetchInfoRequest_sends [OF Inr req, of w] show ?thesis
      by (simp add: through_executor_def build_request_def Inr req)
  qed
qed

lemma FetchDeleteRequest_sends:
  assumes "json_Marshal pf (Arg_FetchRequestInput
      (if fri_ApiKey input = '''' then input\<lparr>fri_ApiKey := apiKey c\<rparr> else input)) = Inr body"
    and "http_NewRequest pf ''POST'' (baseURL c @ ''/gdpr?controller=delete&action=fetch'') body = Inr req"
  shows "sent (snd (FetchDeleteRequest pf c input w)) = sent w @ [Header_Set req ''Content-Type'' ''application/json''] \<and>
    slept (snd (FetchDeleteRequest pf c input w)) = slept w \<and>
    draws (snd (FetchDeleteRequest pf c input w)) = draws w"
  using assms
  by (simp add: FetchDeleteRequest_def httpClient_Do_def Let_def case_prod_beta split: option.splits)

lemma FetchDeleteRequest_traffic:
  "single_call c ''/gdpr?controller=delete&action=fetch'' w (snd (FetchDeleteRequest pf c input w))"
proof (cases "json_Marshal pf (Arg_FetchRequestInput
    (if fri_ApiKey input = '''' then input\<lparr>fri_ApiKey := apiKey c\<rparr> else input))")
  case (Inl err)
  then show ?thesis
    by (simp add: FetchDeleteRequest_def single_call_def Let_def)
next
  case (Inr body)
  show ?thesis
  proof (cases "http_NewRequest pf ''POST'' (baseURL c @ ''/gdpr?controller=delete&action=fetch'') body")
    case (Inl err)
    with Inr show ?thesis
      by (simp add: FetchDeleteRequest_def single_call_def Let_def)
  next
    case req: (Inr req)
    have "Method (Header_Set req ''Content-Type'' ''application/json'') = ''POST'' \<and>
      URL (Header_Set req ''Content-Type'' ''application/json'') = baseURL c @ ''/gdpr?controller=delete&action=fetch''"
      using http_NewRequest_fields [OF req] by simp
    with FetchDeleteRequest_sends [OF Inr req, of w] show ?thesis
      unfolding single_call_def by blast
  qed
qed

lemma FetchDeleteRequest_direct:
  "direct_call pf c ''/gdpr?controller=delete&action=fetch''
     (Arg_FetchRequestInput
      (if fri_ApiKey input = '''' then input\<lparr>fri_ApiKey := apiKey c\<rparr> else input))
     w (snd (FetchDeleteRequest pf c input w))"
proof (cases "json_Marshal pf (Arg_FetchRequestInput
    (if fri_ApiKey input = '''' then input\<lparr>fri_ApiKey := apiKey c\<rparr> else input))")
  case (Inl err)
  then show ?thesis
    by (simp add: FetchDeleteRequest_def direct_call_def build_request_def Let_def)
next
  case (Inr body)
  show ?thesis
  proof (cases "http_NewRequest pf ''POST'' (baseURL c @ ''/gdpr?controller=delete&action=fetch'') body")
    case (Inl err)
    with Inr show ?thesis
      by (simp add: FetchDeleteRequest_def direct_call_def build_request_def Let_def)
  next
    case req: (Inr req)
    from FetchDeleteRequest_sends [OF Inr req, of w] show ?thesis
      by (simp add: direct_call_def build_request_def Inr req)
  qed
qed

lemma UpdateInfoRequest_sends:
  assumes "json_Marshal pf (Arg_UpdateRequestInput
      (if uri_ApiKey input = '''' then input\<lparr>uri_ApiKey := apiKey c\<rparr> else input)) = Inr body"
    and "http_NewRequest pf ''POST'' (baseURL c @ ''/gdpr?action=update'') body = Inr req"
  shows "sent (snd (UpdateInfoRequest pf c input w)) =
      sent (snd (doRequestWithRetry pf c (Header_Set req ''Content-Type'' ''application/json'') w)) \<and>
    slept (snd (UpdateInfoRequest pf c input w)) =
      slept (snd (doRequestWithRetry pf c (Header_Set req ''Content-Type'' ''application/json'') w)) \<and>
    draws (snd (UpdateInfoRequest pf c input w)) =
      draws (snd (doRequestWithRetry pf c (Header_Set req ''Content-Type'' ''application/json'') w))"
  using assms
  by (simp add: UpdateInfoRequest_def Let_def case_prod_beta split: option.splits if_splits)

lemma UpdateInfoRequest_traffic:
  "through_executor pf c ''/gdpr?action=update''
     (Arg_UpdateRequestInput
      (if uri_ApiKey input = '''' then input\<lparr>uri_ApiKey := apiKey c\<rparr> else input))
     w (snd (UpdateInfoRequest pf c input w))"
proof (cases "json_Marshal pf (Arg_UpdateRequestInput
    (if uri_ApiKey input = '''' then input\<lparr>uri_ApiKey := apiKey c\<rparr> else input))")
  case (Inl err)
  then show ?thesis
    by (simp add: UpdateInfoRequest_def through_executor_def build_request_def Let_def)
next
  case (Inr body)
  show ?thesis
  proof (cases "http_NewRequest pf ''POST'' (baseURL c @ ''/gdpr?action=update'') body")
    case (Inl err)
    with Inr show ?thesis
      by (simp add: UpdateInfoRequest_def through_executor_def build_request_def Let_def)
  next
    case req: (Inr req)
    from UpdateInfoRequest_sends [OF Inr req, of w] show ?thesis
      by (simp add: through_executor_def build_request_def Inr req)
  qed
qed

lemma UpdateDeleteRequest_sends:
  assumes "json_Marshal pf (Arg_UpdateRequestInput
      (if uri_ApiKey input = '''' then input\<lparr>uri_ApiKey := apiKey c\<rparr> else input)) = Inr body"
    and "http_NewRequest pf ''POST'' (baseURL c @ ''/gdpr?controller=delete&action=update'') body = Inr req"
  shows "sent (snd (UpdateDeleteRequest pf c input w)) = sent w @ [Header_Set req ''Content-Type'' ''application/json''] \<and>
    slept (snd (UpdateDeleteRequest pf c input w)) = slept w \<and>
    draws (snd (UpdateDeleteRequest pf c input w)) = draws w"
  using assms
  by (simp add: UpdateDeleteRequest_def httpClient_Do_def Let_def case_prod_beta split: option.splits)

lemma UpdateDeleteRequest_traffic:
  "single_call c ''/gdpr?controller=delete&action=update'' w (snd (UpdateDeleteRequest pf c input w))"
proof (cases "json_Marshal pf (Arg_UpdateRequestInput
    (if uri_ApiKey input = '''' then input\<lparr>uri_ApiKey := apiKey c\<rparr> else input))")
  case (Inl err)
  then show ?thesis
    by (simp add: UpdateDeleteRequest_def single_call_def Let_def)
next
  case (Inr body)
  show ?thesis
  proof (cases "http_NewRequest pf ''POST'' (baseURL c @ ''/gdpr?controller=delete&action=update'') body")
    case (Inl err)
    with Inr show ?thesis
      by (simp add: UpdateDeleteRequest_def single_call_def Let_def)
  next
    case req: (Inr req)
    have "Method (Header_Set req ''Content-Type'' ''application/json'') = ''POST'' \<and>
      URL (Header_Set req ''Content-Type'' ''application/json'') = baseURL c @ ''/gdpr?controller=delete&action=update''"
      using http_NewRequest_fields [OF req] by simp
    with UpdateDeleteRequest_sends [OF Inr req, of w] show ?thesis
      unfolding single_call_def by blast
  qed
qed

lemma UpdateDeleteRequest_direct:
  "direct_call pf c ''/gdpr?controller=delete&action=update''
     (Arg_UpdateRequestInput
      (if uri_ApiKey input = '''' then input\<lparr>uri_ApiKey := apiKey c\<rparr> else input))
     w (snd (UpdateDeleteRequest pf c input w))"
proof (cases "json_Marshal pf (Arg_UpdateRequestInput
    (if uri_ApiKey input = '''' then input\<lparr>uri_ApiKey := apiKey c\<rparr> else input))")
  case (Inl err)
  then show ?thesis
    by (simp add: UpdateDeleteRequest_def direct_call_def build_request_def Let_def)
next
  case (Inr body)
  show ?thesis
  proof (cases "http_NewRequest pf ''POST'' (baseURL c @ ''/gdpr?controller=delete&action=update'') body")
    case (Inl err)
    with Inr show ?thesis
      by (simp add: UpdateDeleteRequest_def direct_call_def build_request_def Let_def)
  next
    case req: (Inr req)
    from UpdateDeleteRequest_sends [OF Inr req, of w] show ?thesis
      by (simp add: direct_call_def build_request_def Inr req)
  qed
qed

lemma DeleteInfoRequest_sends:
  assumes "json_Marshal pf (Arg_DeleteRequestInput
      (if dri_ApiKey input = '''' then input\<lparr>dri_ApiKey := apiKey c\<rparr> else input)) = Inr body"
    and "http_NewRequest pf ''POST'' (baseURL c @ ''/gdpr?action=delete'') body = Inr req"
  shows "sent (snd (DeleteInfoRequest pf c input w)) =
      sent (snd (doRequestWithRetry pf c (Header_Set req ''Content-Type'' ''application/json'') w)) \<and>
    slept (snd (DeleteInfoRequest pf c input w)) =
      slept (snd (doRequestWithRetry pf c (Header_Set req ''Content-Type'' ''application/json'') w)) \<and>
    draws (snd (DeleteInfoRequest pf c input w)) =
      draws (snd (doRequestWithRetry pf c (Header_Set req ''Content-Type'' ''application/json'') w))"
  using assms
  by (simp add: DeleteInfoRequest_def Let_def case_prod_beta split: option.splits if_splits)

lemma DeleteInfoRequest_traffic:
  "through_executor pf c ''/gdpr?action=delete''
     (Arg_DeleteRequestInput
      (if dri_ApiKey input = '''' then input\<lparr>dri_ApiKey := apiKey c\<rparr> else input))
     w (snd (DeleteInfoRequest pf c input w))"
proof (cases "json_Marshal pf (Arg_DeleteRequestInput
    (if dri_ApiKey input = '''' then input\<lparr>dri_ApiKey := apiKey c\<rparr> else input))")
  case (Inl err)
  then show ?thesis
    by (simp add: DeleteInfoRequest_def through_executor_def build_request_def Let_def)
next
  case (Inr body)
  show ?thesis
  proof (cases "http_NewRequest pf ''POST'' (baseURL c @ ''/gdpr?action=delete'') body")
    case (Inl err)
    with Inr show ?thesis
      by (simp add: DeleteInfoRequest_def through_executor_def build_request_def Let_def)
  next
    case req: (Inr req)
    from DeleteInfoRequest_sends [OF Inr req, of w] show ?thesis
      by (simp add: through_executor_def build_request_def Inr req)
  qed
qed

lemma Client_DeleteRequest_sends:
  assumes "json_Marshal pf (Arg_DeleteRequestInput
      (if dri_ApiKey input = '''' then input\<lparr>dri_ApiKey := apiKey c\<rparr> else input)) = Inr body"
    and "http_NewRequest pf ''POST'' (baseURL c @ ''/gdpr?controller=delete&action=delete'') body = Inr req"
  shows "sent (snd (Client_DeleteRequest pf c input w)) =
      sent (snd (doRequestWithRetry pf c (Header_Set req ''Content-Type'' ''application/json'') w)) \<and>
    slept (snd (Client_DeleteRequest pf c input w)) =
      slept (snd (doRequestWithRetry pf c (Header_Set req ''Content-Type'' ''application/json'') w)) \<and>
    draws (snd (Client_DeleteRequest pf c input w)) =
      draws (snd (doRequestWithRetry pf c (Header_Set req ''Content-Type'' ''application/json'') w))"
  using assms
  by (simp add: Client_DeleteRequest_def Let_def case_prod_beta split: option.splits if_splits)

lemma Client_DeleteRequest_traffic:
  "through_executor pf c ''/gdpr?controller=delete&action=delete''
     (Arg_DeleteRequestInput
      (if dri_ApiKey input = '''' then input\<lparr>dri_ApiKey := apiKey c\<rparr> else input))
     w (snd (Client_DeleteRequest pf c input w))"
proof (cases "json_Marshal pf (Arg_DeleteRequestInput
    (if dri_ApiKey input = '''' then input\<lparr>dri_ApiKey := apiKey c\<rparr> else input))")
  case (Inl err)
  then show ?thesis
    by (simp add: Client_DeleteRequest_def through_executor_def build_request_def Let_def)
next
  case (Inr body)
  show ?thesis
  proof (cases "http_NewRequest pf ''POST'' (baseURL c @ ''/gdpr?controller=delete&action=delete'') body")
    case (Inl err)
    with Inr show ?thesis
      by (simp add: Client_DeleteRequest_def through_executor_def build_request_def Let_def)
  next
    case req: (Inr req)
    from Client_DeleteRequest_sends [OF Inr req, of w] show ?thesis
      by (simp add: through_executor_def build_request_def Inr req)
  qed
qed

lemma FetchAllInfoRequests_sends:
  assumes "json_Marshal pf (Arg_FetchAllRequestInput
      (if fai_ApiKey input = '''' then input\<lparr>fai_ApiKey := apiKey c\<rparr> else input)) = Inr body"
    and "http_NewRequest pf ''POST'' (baseURL c @ ''/gdpr?action=fetchAll'') body = Inr req"
  shows "sent (snd (FetchAllInfoRequests pf c input w)) =
      sent (snd (doRequestWithRetry pf c (Header_Set req ''Content-Type'' ''application/json'') w)) \<and>
    slept (snd (FetchAllInfoRequests pf c input w)) =
      slept (snd (doRequestWithRetry pf c (Header_Set req ''Content-Type'' ''application/json'') w)) \<and>
    draws (snd (FetchAllInfoRequests pf c input w)) =
      draws (snd (doRequestWithRetry pf c (Header_Set req ''Content-Type'' ''application/json'') w))"
  using assms
  by (simp add: FetchAllInfoRequests_def Let_def case_prod_beta split: option.splits if_splits)

lemma FetchAllInfoRequests_traffic:
  "through_executor pf c ''/gdpr?action=fetchAll''
     (Arg_FetchAllRequestInput
      (if fai_ApiKey input = '''' then input\<lparr>fai_ApiKey := apiKey c\<rparr> else input))
     w (snd (FetchAllInfoRequests pf c input w))"
proof (cases "json_Marshal pf (Arg_FetchAllRequestInput
    (if fai_ApiKey input = '''' then input\<lparr>fai_ApiKey := apiKey c\<rparr> else input))")
  case (Inl err)
  then show ?thesis
    by (simp add: FetchAllInfoRequests_def through_executor_def build_request_def Let_def)
next
  case (Inr body)
  show ?thesis
  proof (cases "http_NewRequest pf ''POST'' (baseURL c @ ''/gdpr?action=fetchAll'') body")
    case (Inl err)
    with Inr show ?thesis
      by (simp add: FetchAllInfoRequests_def through_executor_def build_request_def Let_def)
  next
    case req: (Inr req)
    from FetchAllInfoRequests_sends [OF Inr req, of w] show ?thesis
      by (simp add: through_executor_def build_request_def Inr req)
  qed
qed

lemma FetchInfoRequestsByType_sends:
  assumes "json_Marshal pf (Arg_FetchByTypeInput
      (if fti_ApiKey input = '''' then input\<lparr>fti_ApiKey := apiKey c\<rparr> else input)) = Inr body"
    and "http_NewRequest pf ''POST'' (baseURL c @ ''/gdpr?action=fetchByType'') body = Inr req"
  shows "sent (snd (FetchInfoRequestsByType pf c input w)) =
      sent (snd (doRequestWithRetry pf c (Header_Set req ''Content-Type'' ''application/json'') w)) \<and>
    slept (snd (FetchInfoRequestsByType pf c input w)) =
      slept (snd (doRequestWithRetry pf c (Header_Set req ''Content-Type'' ''application/json'') w)) \<and>
    draws (snd (FetchInfoRequestsByType pf c input w)) =
      draws (snd (doRequestWithRetry pf c (Header_Set req ''Content-Type'' ''application/json'') w))"
  using assms
  by (simp add: FetchInfoRequestsByType_def Let_def case_prod_beta split: option.splits if_splits)

lemma FetchInfoRequestsByType_traffic:
  "through_executor pf c ''/gdpr?action=fetchByType''
     (Arg_FetchByTypeInput
      (if fti_ApiKey input = '''' then input\<lparr>fti_ApiKey := apiKey c\<rparr> else input))
     w (snd (FetchInfoRequestsByType pf c input w))"
proof (cases "json_Marshal pf (Arg_FetchByTypeInput
    (if fti_ApiKey input = '''' then input\<lparr>fti_ApiKey := apiKey c\<rparr> else input))")
  case (Inl err)
  then show ?thesis
    by (simp add: FetchInfoRequestsByType_def through_executor_def build_request_def Let_def)
next
  case (Inr body)
  show ?thesis
  proof (cases "http_NewRequest pf ''POST'' (baseURL c @ ''/gdpr?action=fetchByType'') body")
    case (Inl err)
    with Inr show ?thesis
      by (simp add: FetchInfoRequestsByType_def through_executor_def build_request_def Let_def)
  next
    case req: (Inr req)
    from FetchInfoRequestsByType_sends [OF Inr req, of w] show ?thesis
      by (simp add: through_executor_def build_request_def Inr req)
  qed
qed

lemma FetchDeleteRequestsByStatus_sends:
  assumes "json_Marshal pf (Arg_FetchByStatusInput
      (if fsi_ApiKey input = '''' then input\<lparr>fsi_ApiKey := apiKey c\<rparr> else input)) = Inr body"
    and "http_NewRequest pf ''POST'' (baseURL c @ ''/gdpr?controller=delete&action=fetchByStatus'') body = Inr req"
  shows "sent (snd (FetchDeleteRequestsByStatus pf c input w)) =
      sent (snd (doRequestWithRetry pf c (Header_Set req ''Content-Type'' ''application/json'') w)) \<and>
    slept (snd (FetchDeleteRequestsByStatus pf c input w)) =
      slept (snd (doRequestWithRetry pf c (Header_Set req ''Content-Type'' ''application/json'') w)) \<and>
    draws (snd (FetchDeleteRequestsByStatus pf c input w)) =
      draws (snd (doRequestWithRetry pf c (Header_Set req ''Content-Type'' ''application/json'') w))"
  using assms
  by (simp add: FetchDeleteRequestsByStatus_def Let_def case_prod_beta split: option.splits if_splits)

lemma FetchDeleteRequestsByStatus_traffic:
  "through_executor pf c ''/gdpr?controller=delete&action=fetchByStatus''
     (Arg_FetchByStatusInput
      (if fsi_ApiKey input = '''' then input\<lparr>fsi_ApiKey := apiKey c\<rparr> else input))
     w (snd (FetchDeleteRequestsByStatus pf c input w))"
proof (cases "json_Marshal pf (Arg_FetchByStatusInput
    (if fsi_ApiKey input = '''' then input\<lparr>fsi_ApiKey := apiKey c\<rparr> else input))")
  case (Inl err)
  then show ?thesis
    by (simp add: FetchDeleteRequestsByStatus_def through_executor_def build_request_def Let_def)
next
  case (Inr body)
  show ?thesis
  proof (cases "http_NewRequest pf ''POST'' (baseURL c @ ''/gdpr?controller=delete&action=fetchByStatus'') body")
    case (Inl err)
    with Inr show ?thesis
      by (simp add: FetchDeleteRequestsByStatus_def through_executor_def build_request_def Let_def)
  next
    case req: (Inr req)
    from FetchDeleteRequestsByStatus_sends [OF Inr req, of w] show ?thesis
      by (simp add: through_executor_def build_request_def Inr req)
  qed
qed

lemma FetchRequestsByCreator_sends:
  assumes "json_Marshal pf (Arg_FetchByCreatorInput
      (if fci_ApiKey input = '''' then input\<lparr>fci_ApiKey := apiKey c\<rparr> else input)) = Inr body"
    and "http_NewRequest pf ''POST'' (baseURL c @ ''/gdpr?action=fetchByCreator'') body = Inr req"
  shows "sent (snd (FetchRequestsByCreator pf c input w)) =
      sent (snd (doRequestWithRetry pf c (Header_Set req ''Content-Type'' ''application/json'') w)) \<and>
    slept (snd (FetchRequestsByCreator pf c input w)) =
      slept (snd (doRequestWithRetry pf c (Header_Set req ''Content-Type'' ''application/json'') w)) \<and>
    draws (snd (FetchRequestsByCreator pf c input w)) =
      draws (snd (doRequestWithRetry pf c (Header_Set req ''Content-Type'' ''application/json'') w))"
  using assms
  by (simp add: FetchRequestsByCreator_def Let_def case_prod_beta split: option.splits if_splits)

lemma FetchRequestsByCreator_traffic:
  "through_executor pf c ''/gdpr?action=fetchByCreator''
     (Arg_FetchByCreatorInput
      (if fci_ApiKey input = '''' then input\<lparr>fci_ApiKey := apiKey c\<rparr> else input))
     w (snd (FetchRequestsByCreator pf c input w))"
proof (cases "json_Marshal pf (Arg_FetchByCreatorInput
    (if fci_ApiKey input = '''' then input\<lparr>fci_ApiKey := apiKey c\<rparr> else input))")
  case (Inl err)
  then show ?thesis
    by (simp add: FetchRequestsByCreator_def through_executor_def build_request_def Let_def)
next
  case (Inr body)
  show ?thesis
  proof (cases "http_NewRequest pf ''POST'' (baseURL c @ ''/gdpr?action=fetchByCreator'') body")
    case (Inl err)
    with Inr show ?thesis
      by (simp add: FetchRequestsByCreator_def through_executor_def build_request_def Let_def)
  next
    case req: (Inr req)
    from FetchRequestsByCreator_sends [OF Inr req, of w] show ?thesis
      by (simp add: through_executor_def build_request_def Inr req)
  qed
qed

lemma FetchDeleteRequestsByCreator_sends:
  assumes "json_Marshal pf (Arg_FetchByCreatorInput
      (if fci_ApiKey input = '''' then input\<lparr>fci_ApiKey := apiKey c\<rparr> else input)) = Inr body"
    and "http_NewRequest pf ''POST'' (baseURL c @ ''/gdpr?controller=delete&action=fetchByCreator'') body = Inr req"
  shows "sent (snd (FetchDeleteRequestsByCreator pf c input w)) =
      sent (snd (doRequestWithRetry pf c (Header_Set req ''Content-Type'' ''application/json'') w)) \<and>
    slept (snd (FetchDeleteRequestsByCreator pf c input w)) =
      slept (snd (doRequestWithRetry pf c (Header_Set req ''Content-Type'' ''application/json'') w)) \<and>
    draws (snd (FetchDeleteRequestsByCreator pf c input w)) =
      draws (snd (doRequestWithRetry pf c (Header_Set req ''Content-Type'' ''application/json'') w))"
  using assms
  by (simp add: FetchDeleteRequestsByCreator_def Let_def case_prod_beta split: option.splits if_splits)

lemma FetchDeleteRequestsByCreator_traffic:
  "through_executor pf c ''/gdpr?controller=delete&action=fetchByCreator''
     (Arg_FetchByCreatorInput
      (if fci_ApiKey input = '''' then input\<lparr>fci_ApiKey := apiKey c\<rparr> else input))
     w (snd (FetchDeleteRequestsByCreator pf c input w))"
proof (cases "json_Marshal pf (Arg_FetchByCreatorInput
    (if fci_ApiKey input = '''' then input\<lparr>fci_ApiKey := apiKey c\<rparr> else input))")
  case (Inl err)
  then show ?thesis
    by (simp add: FetchDeleteRequestsByCreator_def through_executor_def build_request_def Let_def)
next
  case (Inr body)
  show ?thesis
  proof (cases "http_NewRequest pf ''POST'' (baseURL c @ ''/gdpr?controller=delete&action=fetchByCreator'') body")
    case (Inl err)
    with Inr show ?thesis
      by (simp add: FetchDeleteRequestsByCreator_def through_executor_def build_request_def Let_def)
  next
    case req: (Inr req)
    from FetchDeleteRequestsByCreator_sends [OF Inr req, of w] show ?thesis
      by (simp add: through_executor_def build_request_def Inr req)
  qed
qed

section \<open>What a caller gets from a closed body\<close>

text \<open>
  On a platform that answers with status 501 and refuses to read a closed body, as
  \<open>net/http\<close> does, \<open>FetchInfoRequest\<close> does not report the status: the executor has
  closed the body of the response it returns, and the operation fails to read it.
\<close>

lemma caller_reads_closed_body:
  "fst (FetchInfoRequest (status_platform (\<lambda>n. 501)) example_client example_FetchRequestInput
     fresh_world) =
   Some (None, Some (ErrorString
     ''failed to read response body: http: read on closed response body''))"
proof -
  let ?pf = "status_platform (\<lambda>n. 501)"
  let ?req = "Header_Set \<lparr>Method = ''POST'', URL = baseURL example_client @ ''/gdpr?action=fetch'',
    Header = Map.empty, ReqBody = ''{}''\<rparr> ''Content-Type'' ''application/json''"
  have m: "json_Marshal ?pf arg = Inr ''{}''" for arg
    by (simp add: status_platform_def example_platform_def)
  have r: "http_NewRequest ?pf ''POST'' url ''{}'' =
      Inr \<lparr>Method = ''POST'', URL = url, Header = Map.empty, ReqBody = ''{}''\<rparr>" for url
    by (simp add: http_NewRequest_def status_platform_def example_platform_def)
  have mr: "0 \<le> MaxRetries (retryPolicy example_client)"
    by (simp add: example_client_def NewClient_def DefaultRetryPolicy_def)
  have d: "doRequestWithRetry ?pf example_client ?req fresh_world =
      ((Some \<lparr>StatusCode = 501, Body = 0\<rparr>, None),
       fresh_world\<lparr>sent := sent fresh_world @ [?req],
         closedBodies := closedBodies fresh_world @ [Body \<lparr>StatusCode = 501, Body = 0\<rparr>]\<rparr>)"
    by (rule first_attempt_rejected [OF mr])
       (simp_all add: status_platform_def example_platform_def fresh_world_def)
  have ra: "ReadAll ?pf (closedBodies fresh_world @ [0]) 0 =
      ('''', Some (ErrorString ''http: read on closed response body''))"
    by (simp add: status_platform_def example_platform_def)
  show ?thesis
    by (simp add: FetchInfoRequest_def m r d ra io_ReadAll_def Errorf_def Let_def)
qed

section \<open>The two operations that bypass the executor\<close>

text \<open>
  C9. \<open>FetchDeleteRequest\<close> and \<open>UpdateDeleteRequest\<close> hand their request to the
  transport once and directly: whatever the platform, the client and its policy, the input
  and the world, they never sleep, draw no random number and send at most one request:
  the request they have built, once.
  Each of the other eleven operations hands the request it has built to
  \<open>doRequestWithRetry\<close>: the requests it sends, its sleeps and its random draws are those
  of \<open>doRequestWithRetry\<close> on that request, retries included, and it sends nothing when
  its request cannot be built. On a platform that answers every request with status 503,
  under the default policy, \<open>FetchInfoRequest\<close> and \<open>UpdateInfoRequest\<close> send four
  requests and sleep three times, where \<open>FetchDeleteRequest\<close> and \<open>UpdateDeleteRequest\<close>
  send one request and do not sleep.
\<close>

theorem direct_operations_never_retry:
  "single_call c ''/gdpr?controller=delete&action=fetch'' w
     (snd (FetchDeleteRequest pf c fetchInput w)) \<and>
   single_call c ''/gdpr?controller=delete&action=update'' w
     (snd (UpdateDeleteRequest pf c updateInput w)) \<and>
   direct_call pf c ''/gdpr?controller=delete&action=fetch''
     (Arg_FetchRequestInput
       (if fri_ApiKey fetchInput = ''''
        then fetchInput\<lparr>fri_ApiKey := apiKey c\<rparr>
        else fetchInput))
     w (snd (FetchDeleteRequest pf c fetchInput w)) \<and>
   direct_call pf c ''/gdpr?controller=delete&action=update''
     (Arg_UpdateRequestInput
       (if uri_ApiKey updateInput = ''''
        then updateInput\<lparr>uri_ApiKey := apiKey c\<rparr>
        else updateInput))
     w (snd (UpdateDeleteRequest pf c updateInput w)) \<and>
   through_executor pf c ''/gdpr?action=create''
     (Arg_CreateInfoRequestInput
       (if cii_ApiKey createInfoInput = ''''
        then createInfoInput\<lparr>cii_ApiKey := apiKey c\<rparr>
        else createInfoInput))
     w (snd (CreateInfoRequest pf c createInfoInput w)) \<and>
   through_executor pf c ''/gdpr?controller=delete&action=create''
     (Arg_CreateDeleteRequestInput
       (if cdi_ApiKey createDeleteInput = ''''
        then createDeleteInput\<lparr>cdi_ApiKey := apiKey c\<rparr>
        else createDeleteInput))
     w (snd (CreateDeleteRequest pf c createDeleteInput w)) \<and>
   through_executor pf c ''/gdpr?action=fetch''
     (Arg_FetchRequestInput
       (if fri_ApiKey fetchInput = ''''
        then fetchInput\<lparr>fri_ApiKey := apiKey c\<rparr>
        else fetchInput))
     w (snd (FetchInfoRequest pf c fetchInput w)) \<and>
   through_executor pf c ''/gdpr?action=update''
     (Arg_UpdateRequestInput
       (if uri_ApiKey updateInput = ''''
        then updateInput\<lparr>uri_ApiKey := apiKey c\<rparr>
        else updateInput))
     w (snd (UpdateInfoRequest pf c updateInput w)) \<and>
   through_executor pf c ''/gdpr?action=delete''
     (Arg_DeleteRequestInput
       (if dri_ApiKey deleteInput = ''''
        then deleteInput\<lparr>dri_ApiKey := apiKey c\<rparr>
        else deleteInput))
     w (snd (DeleteInfoRequest pf c deleteInput w)) \<and>
   through_executor pf c ''/gdpr?controller=delete&action=delete''
     (Arg_DeleteRequestInput
       (if dri_ApiKey deleteInput = ''''
        then deleteInput\<lparr>dri_ApiKey := apiKey c\<rparr>
        else deleteInput))
     w (snd (Client_DeleteRequest pf c deleteInput w)) \<and>
   through_executor pf c ''/gdpr?action=fetchAll''
     (Arg_FetchAllRequestInput
       (if fai_ApiKey fetchAllInput = ''''
        then fetchAllInput\<lparr>fai_ApiKey := apiKey c\<rparr>
        else fetchAllInput))
     w (snd (FetchAllInfoRequests pf c fetchAllInput w)) \<and>
   through_executor pf c ''/gdpr?action=fetchByType''
     (Arg_FetchByTypeInput
       (if fti_ApiKey byTypeInput = ''''
        then byTypeInput\<lparr>fti_ApiKey := apiKey c\<rparr>
        else byTypeInput))
     w (snd (FetchInfoRequestsByType pf c byTypeInput w)) \<and>
   through_executor pf c ''/gdpr?controller=delete&action=fetchByStatus''
     (Arg_FetchByStatusInput
       (if fsi_ApiKey byStatusInput = ''''
        then byStatusInput\<lparr>fsi_ApiKey := apiKey c\<rparr>
        else byStatusInput))
     w (snd (FetchDeleteRequestsByStatus pf c byStatusInput w)) \<and>
   through_executor pf c ''/gdpr?action=fetchByCreator''
     (Arg_FetchByCreatorInput
       (if fci_ApiKey byCreatorInput = ''''
        then byCreatorInput\<lparr>fci_ApiKey := apiKey c\<rparr>
        else byCreatorInput))
     w (snd (FetchRequestsByCreator pf c byCreatorInput w)) \<and>
   through_executor pf c ''/gdpr?controller=delete&action=fetchByCreator''
     (Arg_FetchByCreatorInput
       (if fci_ApiKey byCreatorInput = ''''
        then byCreatorInput\<lparr>fci_ApiKey := apiKey c\<rparr>
        else byCreatorInput))
     w (snd (FetchDeleteRequestsByCreator pf c byCreatorInput w)) \<and>
   length (sent (snd (FetchInfoRequest (status_platform (\<lambda>n. 503)) example_client
     example_FetchRequestInput fresh_world))) = 4 \<and>
   length (slept (snd (FetchInfoRequest (status_platform (\<lambda>n. 503)) example_client
     example_FetchRequestInput fresh_world))) = 3 \<and>
   length (sent (snd (FetchDeleteRequest (status_platform (\<lambda>n. 503)) example_client
     example_FetchRequestInput fresh_world))) = 1 \<and>
   length (slept (snd (FetchDeleteRequest (status_platform (\<lambda>n. 503)) example_client
     example_FetchRequestInput fresh_world))) = 0 \<and>
   length (sent (snd (UpdateInfoRequest (status_platform (\<lambda>n. 503)) example_client
     example_UpdateRequestInput fresh_world))) = 4 \<and>
   length (slept (snd (UpdateInfoRequest (status_platform (\<lambda>n. 503)) example_client
     example_UpdateRequestInput fresh_world))) = 3 \<and>
   length (sent (snd (UpdateDeleteRequest (status_platform (\<lambda>n. 503)) example_client
     example_UpdateRequestInput fresh_world))) = 1 \<and>
   length (slept (snd (UpdateDeleteRequest (status_platform (\<lambda>n. 503)) example_client
     example_UpdateRequestInput fresh_world))) = 0 \<and>
   \<not> through_executor (status_platform (\<lambda>n. 503)) example_client
     ''/gdpr?controller=delete&action=fetch''
     (Arg_FetchRequestInput
       (if fri_ApiKey example_FetchRequestInput = ''''
        then example_FetchRequestInput\<lparr>fri_ApiKey := apiKey example_client\<rparr>
        else example_FetchRequestInput))
     fresh_world
     (snd (FetchDeleteRequest (status_platform (\<lambda>n. 503)) example_client
       example_FetchRequestInput fresh_world)) \<and>
   \<not> through_executor (status_platform (\<lambda>n. 503)) example_client
     ''/gdpr?controller=delete&action=update''
     (Arg_UpdateRequestInput
       (if uri_ApiKey example_UpdateRequestInput = ''''
        then example_UpdateRequestInput\<lparr>uri_ApiKey := apiKey example_client\<rparr>
        else example_UpdateRequestInput))
     fresh_world
     (snd (UpdateDeleteRequest (status_platform (\<lambda>n. 503)) example_client
       example_UpdateRequestInput fresh_world))"
proof -
  let ?pf = "status_platform (\<lambda>n. 503)"
  have mr: "MaxRetries (retryPolicy example_client) = 3"
    by (simp add: example_client_def NewClient_def DefaultRetryPolicy_def)
  have all: "\<not> succeeded (Do ?pf n r) \<and>
      ShouldRetry (statusCode_of (Do ?pf n r)) (err_of (Do ?pf n r))" for n r
    by (simp add: status_platform_def example_platform_def succeeded_def statusCode_of_def
        ShouldRetry_def)
  have four: "length (sent (snd (doRequestWithRetry ?pf example_client req fresh_world))) = 4 \<and>
      length (slept (snd (doRequestWithRetry ?pf example_client req fresh_world))) = 3" for req
    using all_retryable_exhausts [of example_client ?pf req fresh_world] all
    by (simp add: mr fresh_world_def)
  have m: "json_Marshal ?pf arg = Inr ''{}''" for arg
    by (simp add: status_platform_def example_platform_def)
  have r: "http_NewRequest ?pf ''POST'' url ''{}'' =
      Inr \<lparr>Method = ''POST'', URL = url, Header = Map.empty, ReqBody = ''{}''\<rparr>" for url
    by (simp add: http_NewRequest_def status_platform_def example_platform_def)
  have fi: "length (sent (snd (FetchInfoRequest ?pf example_client example_FetchRequestInput
        fresh_world))) = 4 \<and>
      length (slept (snd (FetchInfoRequest ?pf example_client example_FetchRequestInput
        fresh_world))) = 3"
    using FetchInfoRequest_sends [OF m r, of example_client example_FetchRequestInput fresh_world]
      four by simp
  have ui: "length (sent (snd (UpdateInfoRequest ?pf example_client example_UpdateRequestInput
        fresh_world))) = 4 \<and>
      length (slept (snd (UpdateInfoRequest ?pf example_client example_UpdateRequestInput
        fresh_world))) = 3"
    using UpdateInfoRequest_sends [OF m r, of example_client example_UpdateRequestInput fresh_world]
      four by simp
  have fd: "length (sent (snd (FetchDeleteRequest ?pf example_client example_FetchRequestInput
        fresh_world))) = 1 \<and>
      length (slept (snd (FetchDeleteRequest ?pf example_client example_FetchRequestInput
        fresh_world))) = 0"
    using FetchDeleteRequest_sends [OF m r, of example_client example_FetchRequestInput fresh_world]
    by (simp add: fresh_world_def)
  have ud: "length (sent (snd (UpdateDeleteRequest ?pf example_client example_UpdateRequestInput
        fresh_world))) = 1 \<and>
      length (slept (snd (UpdateDeleteRequest ?pf example_client example_UpdateRequestInput
        fresh_world))) = 0"
    using UpdateDeleteRequest_sends [OF m r, of example_client example_UpdateRequestInput fresh_world]
    by (simp add: fresh_world_def)
  have b: "build_request ?pf example_client path arg =
      Some (Header_Set \<lparr>Method = ''POST'', URL = baseURL example_client @ path,
        Header = Map.empty, ReqBody = ''{}''\<rparr> ''Content-Type'' ''application/json'')" for path arg
    by (simp add: build_request_def m r)
  have nfd: "\<not> through_executor ?pf example_client ''/gdpr?controller=delete&action=fetch'' arg
      fresh_world (snd (FetchDeleteRequest ?pf example_client example_FetchRequestInput
        fresh_world))" for arg
    using fd four by (auto simp add: through_executor_def b)
  have nud: "\<not> through_executor ?pf example_client ''/gdpr?controller=delete&action=update'' arg
      fresh_world (snd (UpdateDeleteRequest ?pf example_client example_UpdateRequestInput
        fresh_world))" for arg
    using ud four by (auto simp add: through_executor_def b)
  show ?thesis
    using fi ui fd ud nfd nud
    by (simp only: FetchDeleteRequest_traffic UpdateDeleteRequest_traffic
        FetchDeleteRequest_direct UpdateDeleteRequest_direct
        CreateInfoRequest_traffic CreateDeleteRequest_traffic FetchInfoRequest_traffic
        UpdateInfoRequest_traffic DeleteInfoRequest_traffic Client_DeleteRequest_traffic
        FetchAllInfoRequests_traffic FetchInfoRequestsByType_traffic
        FetchDeleteRequestsByStatus_traffic FetchRequestsByCreator_traffic
        FetchDeleteRequestsByCreator_traffic simp_thms)
qed

section \<open>The error of decoding an info request\<close>

text \<open>
  C10. When the executor hands \<open>CreateInfoRequest\<close> a response of status 200 whose body can
  be read, the operation returns the \<open>InfoRequest\<close> that \<open>json.Unmarshal\<close> left in its
  target and a nil error, whatever error \<open>json.Unmarshal\<close> returned. The branch that would
  report that error tests the error of \<open>io.ReadAll\<close>, which is nil there: for no input at
  all does \<open>CreateInfoRequest\<close> return a \<open>failed to unmarshal data\<close> error.
\<close>

theorem CreateInfoRequest_swallows_unmarshal_error:
  assumes "json_Marshal pf (Arg_CreateInfoRequestInput
      (if cii_ApiKey input = '''' then input\<lparr>cii_ApiKey := apiKey c\<rparr> else input)) = Inr body"
    and "http_NewRequest pf ''POST'' (baseURL c @ ''/gdpr?action=create'') body = Inr req"
    and "doRequestWithRetry pf c (Header_Set req ''Content-Type'' ''application/json'') w =
      ((Some resp, None), w1)"
    and "StatusCode resp = 200"
    and "ReadAll pf (closedBodies w1) (Body resp) = (responseBody, None)"
    and "Unmarshal_InfoRequest pf responseBody = (infoRequest, jsonErr)"
  shows "fst (CreateInfoRequest pf c input w) = Some (Some infoRequest, None) \<and>
    (\<forall>pf' c' input' w' e. fst (CreateInfoRequest pf' c' input' w') \<noteq>
       Some (None, Some (Errorf ''failed to unmarshal data: '' e)))"
proof
  show "fst (CreateInfoRequest pf c input w) = Some (Some infoRequest, None)"
    using assms
    by (simp add: CreateInfoRequest_def io_ReadAll_def Let_def)
  show "\<forall>pf' c' input' w' e. fst (CreateInfoRequest pf' c' input' w') \<noteq>
       Some (None, Some (Errorf ''failed to unmarshal data: '' e))"
    by (auto simp add: CreateInfoRequest_def Errorf_def Let_def case_prod_beta
        split: sum.splits option.splits if_splits)
qed

theorem CreateInfoRequest_swallows_unmarshal_error_witness:
  "Unmarshal_InfoRequest (status_platform (\<lambda>n. 200)) ''<html></html>'' =
     (zero_InfoRequest, Some syntax_error) \<and>
   fst (CreateInfoRequest (status_platform (\<lambda>n. 200)) example_client
          example_CreateInfoRequestInput fresh_world) =
     Some (Some zero_InfoRequest, None)"
proof -
  let ?pf = "status_platform (\<lambda>n. 200)"
  let ?req = "\<lparr>Method = ''POST'', URL = baseURL example_client @ ''/gdpr?action=create'',
    Header = Map.empty, ReqBody = ''{}''\<rparr>"
  have m: "json_Marshal ?pf arg = Inr ''{}''" for arg
    by (simp add: status_platform_def example_platform_def)
  have r: "http_NewRequest ?pf ''POST'' (baseURL example_client @ ''/gdpr?action=create'') ''{}'' =
      Inr ?req"
    by (simp add: http_NewRequest_def status_platform_def example_platform_def)
  have mr: "0 \<le> MaxRetries (retryPolicy example_client)"
    by (simp add: example_client_def NewClient_def DefaultRetryPolicy_def)
  have d: "doRequestWithRetry ?pf example_client
      (Header_Set ?req ''Content-Type'' ''application/json'') fresh_world =
      ((Some \<lparr>StatusCode = 200, Body = 0\<rparr>, None),
       fresh_world\<lparr>sent := sent fresh_world @
         [Header_Set ?req ''Content-Type'' ''application/json'']\<rparr>)"
    by (rule first_attempt_success [OF mr])
       (simp_all add: status_platform_def example_platform_def fresh_world_def)
  have ra: "ReadAll ?pf (closedBodies (fresh_world\<lparr>sent := sent fresh_world @
      [Header_Set ?req ''Content-Type'' ''application/json'']\<rparr>)) b = (''<html></html>'', None)" for b
    by (simp add: status_platform_def example_platform_def fresh_world_def)
  have u: "Unmarshal_InfoRequest ?pf ''<html></html>'' = (zero_InfoRequest, Some syntax_error)"
    by (simp add: status_platform_def example_platform_def)
  from CreateInfoRequest_swallows_unmarshal_error [OF m r d _ ra u]
  show ?thesis using u by simp
qed

end
